theory Spec2Isabelle
  imports Main "HOL-Library.Sublist"
begin

section \<open>JavaScript strings and the built-ins the handlers call\<close>

text \<open>
  A JavaScript string is modelled by the bytes of its UTF-8 encoding (\<^typ>\<open>string\<close>, one
  \<^typ>\<open>char\<close> per byte). Every pattern the handlers search for (\<open>http\<close>, \<open>#\<close>, \<open>/\<close>, \<open>%\<close>,
  line feed, \<open>URI="\<close>, the file suffixes) is ASCII, and an ASCII byte never occurs inside a
  multi-byte UTF-8 sequence, so searching, splitting and slicing the bytes gives the bytes
  of what the handlers compute on UTF-16 code units. Strings holding a lone surrogate have
  no UTF-8 encoding and are outside the model; neither the query parser nor
  \<open>Buffer.toString\<close> produces one.
\<close>

subsection \<open>startsWith, endsWith, includes, split, join, substring\<close>

definition startsWith :: "string \<Rightarrow> string \<Rightarrow> bool" where
  "startsWith s p = prefix p s"

definition endsWith :: "string \<Rightarrow> string \<Rightarrow> bool" where
  "endsWith s p = prefix (rev p) (rev s)"

fun js_includes :: "string \<Rightarrow> string \<Rightarrow> bool" where
  "js_includes [] p = (p = [])"
| "js_includes (c # cs) p = (prefix p (c # cs) \<or> js_includes cs p)"

text \<open>\<open>s.split('\n')\<close>: the pieces between line feeds; the empty string gives one empty piece.\<close>

fun split_lines :: "string \<Rightarrow> string list" where
  "split_lines [] = [[]]"
| "split_lines (c # cs) =
     (if c = CHR 0x0A then [] # split_lines cs
      else (case split_lines cs of
              [] \<Rightarrow> [[c]]
            | l # ls \<Rightarrow> (c # l) # ls))"

text \<open>\<open>lines.join('\n')\<close>.\<close>

fun join_lines :: "string list \<Rightarrow> string" where
  "join_lines [] = []"
| "join_lines [l] = l"
| "join_lines (l # m # ls) = l @ [CHR 0x0A] @ join_lines (m # ls)"

text \<open>
  \<open>s.substring(0, s.lastIndexOf('/') + 1)\<close>: the string up to and including its last
  slash; \<open>lastIndexOf\<close> is \<open>-1\<close> when there is no slash and the result is then empty.
\<close>

definition upto_last_slash :: "string \<Rightarrow> string" where
  "upto_last_slash s = rev (dropWhile (\<lambda>c. c \<noteq> CHR ''/'') (rev s))"

subsection \<open>trim\<close>

text \<open>
  \<open>String.prototype.trim\<close> removes white space and line terminators from both ends:
  U+0009 to U+000D, U+0020, U+00A0, U+1680, U+2000 to U+200A, U+2028, U+2029, U+202F,
  U+205F, U+3000 and U+FEFF, listed here by their UTF-8 bytes.
\<close>

definition js_whitespace :: "string list" where
  "js_whitespace =
     [[CHR 0x09], [CHR 0x0A], [CHR 0x0B], [CHR 0x0C], [CHR 0x0D], [CHR 0x20],
      [CHR 0xC2, CHR 0xA0],
      [CHR 0xE1, CHR 0x9A, CHR 0x80],
      [CHR 0xE2, CHR 0x80, CHR 0x80], [CHR 0xE2, CHR 0x80, CHR 0x81],
      [CHR 0xE2, CHR 0x80, CHR 0x82], [CHR 0xE2, CHR 0x80, CHR 0x83],
      [CHR 0xE2, CHR 0x80, CHR 0x84], [CHR 0xE2, CHR 0x80, CHR 0x85],
      [CHR 0xE2, CHR 0x80, CHR 0x86], [CHR 0xE2, CHR 0x80, CHR 0x87],
      [CHR 0xE2, CHR 0x80, CHR 0x88], [CHR 0xE2, CHR 0x80, CHR 0x89],
      [CHR 0xE2, CHR 0x80, CHR 0x8A],
      [CHR 0xE2, CHR 0x80, CHR 0xA8], [CHR 0xE2, CHR 0x80, CHR 0xA9],
      [CHR 0xE2, CHR 0x80, CHR 0xAF],
      [CHR 0xE2, CHR 0x81, CHR 0x9F],
      [CHR 0xE3, CHR 0x80, CHR 0x80],
      [CHR 0xEF, CHR 0xBB, CHR 0xBF]]"

text \<open>The length of the first of the sequences \<open>ws\<close> that \<open>s\<close> starts with, 0 when none does.\<close>

fun match_len :: "string list \<Rightarrow> string \<Rightarrow> nat" where
  "match_len [] s = 0"
| "match_len (w # ws) s = (if prefix w s then length w else match_len ws s)"

lemma match_len_le: "match_len ws s \<le> length s"
  by (induction ws) (auto simp: prefix_length_le)

function strip_leading :: "string list \<Rightarrow> string \<Rightarrow> string" where
  "strip_leading ws s =
     (if match_len ws s = 0 then s else strip_leading ws (drop (match_len ws s) s))"
  by pat_completeness auto
termination
proof (relation "measure (\<lambda>(ws, s). length s)")
  show "wf (measure (\<lambda>(ws, s). length s))"
    by simp
next
  fix ws :: "string list" and s :: string
  assume "match_len ws s \<noteq> 0"
  moreover have "match_len ws s \<le> length s"
    by (rule match_len_le)
  ultimately show "((ws, drop (match_len ws s) s), (ws, s)) \<in> measure (\<lambda>(ws, s). length s)"
    by simp
qed

declare strip_leading.simps [simp del]

definition trimStart :: "string \<Rightarrow> string" where
  "trimStart s = strip_leading js_whitespace s"

definition trimEnd :: "string \<Rightarrow> string" where
  "trimEnd s = rev (strip_leading (map rev js_whitespace) (rev s))"

definition trim :: "string \<Rightarrow> string" where
  "trim s = trimEnd (trimStart s)"

subsection \<open>encodeURIComponent\<close>

text \<open>
  Every code point outside \<open>A-Z a-z 0-9 - _ . ! ~ * ' ( )\<close> is replaced by the escapes
  \<open>%XX\<close> (upper-case hexadecimal) of the bytes of its UTF-8 encoding; on the UTF-8 bytes
  this is a byte-by-byte map, the unreserved characters being ASCII.
\<close>

definition uri_unreserved :: "char \<Rightarrow> bool" where
  "uri_unreserved c =
     (c \<in> set ''ABCDEFGHIJKLMNOPQRSTUVWXYZabcdefghijklmnopqrstuvwxyz0123456789-_.!~*()''
      \<or> c = CHR 0x27)"

definition hex_digit :: "nat \<Rightarrow> char" where
  "hex_digit n = ''0123456789ABCDEF'' ! n"

definition percent_escape :: "char \<Rightarrow> string" where
  "percent_escape c =
     [CHR ''%'', hex_digit (of_char c div 16), hex_digit (of_char c mod 16)]"

definition encodeURIComponent :: "string \<Rightarrow> string" where
  "encodeURIComponent s =
     concat (map (\<lambda>c. if uri_unreserved c then [c] else percent_escape c) s)"

subsection \<open>decodeURIComponent\<close>

text \<open>
  ECMAScript's \<open>Decode\<close> with an empty set of preserved escapes. \<open>None\<close> is the
  \<open>URIError\<close> it throws: a \<open>%\<close> not followed by two hexadecimal digits, an escaped byte
  that cannot start a UTF-8 sequence, missing continuation escapes, or escaped bytes that
  are not the well-formed UTF-8 encoding of a code point.
\<close>

definition hex_value :: "char \<Rightarrow> nat option" where
  "hex_value c =
     (let n = of_char c :: nat in
      if 48 \<le> n \<and> n \<le> 57 then Some (n - 48)
      else if 65 \<le> n \<and> n \<le> 70 then Some (n - 55)
      else if 97 \<le> n \<and> n \<le> 102 then Some (n - 87)
      else None)"

text \<open>One escape \<open>%XX\<close> at the head of the string: its byte and the rest.\<close>

fun read_escape :: "string \<Rightarrow> (char \<times> string) option" where
  "read_escape (p # h # l # rest) =
     (if p = CHR ''%'' then
        (case hex_value h of
           None \<Rightarrow> None
         | Some a \<Rightarrow> (case hex_value l of
                       None \<Rightarrow> None
                     | Some b \<Rightarrow> Some (char_of (16 * a + b), rest)))
      else None)"
| "read_escape _ = None"

fun read_escapes :: "nat \<Rightarrow> string \<Rightarrow> (string \<times> string) option" where
  "read_escapes 0 s = Some ([], s)"
| "read_escapes (Suc k) s =
     (case read_escape s of
        None \<Rightarrow> None
      | Some (b, rest) \<Rightarrow> (case read_escapes k rest of
                           None \<Rightarrow> None
                         | Some (bs, rest') \<Rightarrow> Some (b # bs, rest')))"

text \<open>
  The number of bytes of the sequence a lead byte announces (its count of leading 1 bits);
  \<open>None\<close> for a continuation byte (one leading 1) and for more than four.
\<close>

definition utf8_length :: "char \<Rightarrow> nat option" where
  "utf8_length c =
     (let n = of_char c :: nat in
      if n < 0x80 then Some 1
      else if n < 0xC0 then None
      else if n < 0xE0 then Some 2
      else if n < 0xF0 then Some 3
      else if n < 0xF8 then Some 4
      else None)"

definition utf8_cont :: "char \<Rightarrow> bool" where
  "utf8_cont c = (0x80 \<le> (of_char c :: nat) \<and> (of_char c :: nat) \<le> 0xBF)"

text \<open>The well-formed multi-byte sequences of the Unicode standard (table 3-7).\<close>

fun utf8_valid :: "string \<Rightarrow> bool" where
  "utf8_valid [a, b] = (0xC2 \<le> (of_char a :: nat) \<and> (of_char a :: nat) \<le> 0xDF \<and> utf8_cont b)"
| "utf8_valid [a, b, c] =
     (let x = of_char a :: nat; y = of_char b :: nat in
      ((x = 0xE0 \<and> 0xA0 \<le> y \<and> y \<le> 0xBF)
       \<or> (0xE1 \<le> x \<and> x \<le> 0xEC \<and> utf8_cont b)
       \<or> (x = 0xED \<and> 0x80 \<le> y \<and> y \<le> 0x9F)
       \<or> (0xEE \<le> x \<and> x \<le> 0xEF \<and> utf8_cont b))
      \<and> utf8_cont c)"
| "utf8_valid [a, b, c, d] =
     (let x = of_char a :: nat; y = of_char b :: nat in
      ((x = 0xF0 \<and> 0x90 \<le> y \<and> y \<le> 0xBF)
       \<or> (0xF1 \<le> x \<and> x \<le> 0xF3 \<and> utf8_cont b)
       \<or> (x = 0xF4 \<and> 0x80 \<le> y \<and> y \<le> 0x8F))
      \<and> utf8_cont c \<and> utf8_cont d)"
| "utf8_valid _ = False"

lemma read_escape_length: "read_escape s = Some (b, rest) \<Longrightarrow> length rest < length s"
  by (induction s rule: read_escape.induct) (auto split: if_splits option.splits)

lemma read_escapes_length: "read_escapes k s = Some (bs, rest) \<Longrightarrow> length rest \<le> length s"
proof (induction k arbitrary: s bs rest)
  case 0
  then show ?case by simp
next
  case (Suc k)
  then show ?case
    by (fastforce split: option.splits dest: read_escape_length)
qed

function decodeURIComponent :: "string \<Rightarrow> string option" where
  "decodeURIComponent [] = Some []"
| "decodeURIComponent (c # cs) =
     (if c \<noteq> CHR ''%'' then map_option ((#) c) (decodeURIComponent cs)
      else (case read_escape (c # cs) of
              None \<Rightarrow> None
            | Some (b, rest) \<Rightarrow>
                (case utf8_length b of
                   None \<Rightarrow> None
                 | Some n \<Rightarrow>
                     (case read_escapes (n - 1) rest of
                        None \<Rightarrow> None
                      | Some (bs, rest') \<Rightarrow>
                          if n = 1 \<or> utf8_valid (b # bs)
                          then map_option ((@) (b # bs)) (decodeURIComponent rest')
                          else None))))"
  by pat_completeness auto
termination
proof (relation "measure length", goal_cases)
  case 1
  show ?case by simp
next
  case (2 c cs)
  show ?case by simp
next
  case (3 c cs x b rest n y bs rest')
  then have "length rest < length (c # cs)" and "length rest' \<le> length rest"
    by (auto dest: read_escape_length read_escapes_length)
  then show ?case by simp
qed

text \<open>
  A string is a well-formed UTF-8 text when it is a sequence of ASCII bytes and well-formed
  multi-byte sequences. This is the representation invariant of the model of strings.
\<close>

function wf_utf8 :: "string \<Rightarrow> bool" where
  "wf_utf8 [] = True"
| "wf_utf8 (c # cs) =
     (case utf8_length c of
        None \<Rightarrow> False
      | Some n \<Rightarrow>
          n - 1 \<le> length cs
          \<and> (n = 1 \<or> utf8_valid (c # take (n - 1) cs))
          \<and> wf_utf8 (drop (n - 1) cs))"
  by pat_completeness auto
termination
  by (relation "measure length") auto

subsection \<open>Truthiness and number formatting\<close>

text \<open>
  A value that is a string or \<open>undefined\<close> is \<^typ>\<open>string option\<close>; it is falsy when it is
  \<open>undefined\<close> or the empty string. \<open>or_else a b\<close> is \<open>a || b\<close>.
\<close>

definition truthy :: "string option \<Rightarrow> string option" where
  "truthy v = (case v of None \<Rightarrow> None | Some s \<Rightarrow> if s = [] then None else Some s)"

definition or_else :: "string option \<Rightarrow> string \<Rightarrow> string" where
  "or_else a b = (case truthy a of None \<Rightarrow> b | Some s \<Rightarrow> s)"

fun show_nat :: "nat \<Rightarrow> string" where
  "show_nat n =
     (if n < 10 then [''0123456789'' ! n]
      else show_nat (n div 10) @ [''0123456789'' ! (n mod 10)])"

declare show_nat.simps [simp del]

section \<open>The data of a request\<close>

type_synonym headers = "string \<rightharpoonup> string"

text \<open>
  The inbound request. Node gives the header names in lower case. A query parameter that is
  repeated arrives as an array; every use the handlers make of it (\<open>decodeURIComponent\<close>,
  \<open>encodeURIComponent\<close>, truthiness) sees the array as its elements joined by commas, which
  is the string the model carries.
\<close>

record request =
  req_method :: string
  query_url :: "string option"
  query_referer :: "string option"
  req_headers :: headers

text \<open>
  The platform: the \<open>URL\<close> constructor of the runtime (\<open>new URL(input)\<close> and
  \<open>new URL(input, base)\<close>; \<open>None\<close> is the \<open>TypeError\<close> it throws), of whose result the
  handlers read \<open>href\<close> and \<open>origin\<close>, and \<open>Buffer.from(data).toString('utf-8')\<close>. Neither is
  code of this repository; the handlers are modelled for any such pair.
\<close>

record URL =
  href :: string
  origin :: string

record platform =
  new_URL :: "string \<Rightarrow> string option \<Rightarrow> URL option"
  toString_utf8 :: "string \<Rightarrow> string"

text \<open>The configuration object of the one \<open>axios\<close> call of a request.\<close>

record axios_request =
  ax_url :: string
  ax_headers :: headers
  ax_maxRedirects :: nat
  ax_timeout :: nat

record upstream_response =
  status :: nat
  statusText :: string
  resp_headers :: headers
  resp_data :: string

record axios_error =
  err_code :: "string option"
  err_message :: string
  err_response :: "upstream_response option"

datatype js_error = URIError | TypeError | AxiosError axios_error

fun error_message :: "js_error \<Rightarrow> string" where
  "error_message URIError = ''URI malformed''"
| "error_message TypeError = ''Invalid URL''"
| "error_message (AxiosError e) = err_message e"

fun error_code :: "js_error \<Rightarrow> string option" where
  "error_code (AxiosError e) = err_code e"
| "error_code _ = None"

fun error_response :: "js_error \<Rightarrow> upstream_response option" where
  "error_response (AxiosError e) = err_response e"
| "error_response _ = None"

text \<open>
  What the transport of \<open>axios\<close> ends with, after following redirects: the final response, or
  a failure with its \<open>code\<close> and message (\<open>ECONNABORTED\<close> when the \<open>timeout\<close> of the
  configuration is exceeded, \<open>ENOTFOUND\<close> when the host does not resolve).
\<close>

datatype transport = Received upstream_response | Failed "string option" string

text \<open>
  \<open>axios(config)\<close> with \<open>validateStatus: (status) => status < 500\<close>: the promise resolves with
  the response when its status passes \<open>validateStatus\<close> and rejects with an \<open>AxiosError\<close>
  carrying the response otherwise (\<open>settle\<close> of axios).
\<close>

definition validateStatus :: "nat \<Rightarrow> bool" where
  "validateStatus s = (s < 500)"

definition axios :: "(axios_request \<Rightarrow> transport) \<Rightarrow> axios_request \<Rightarrow> js_error + upstream_response" where
  "axios net config =
     (case net config of
        Failed c m \<Rightarrow> Inl (AxiosError \<lparr>err_code = c, err_message = m, err_response = None\<rparr>)
      | Received r \<Rightarrow>
          if validateStatus (status r) then Inr r
          else Inl (AxiosError
                 \<lparr>err_code =
                    (if status r div 100 = 4 then Some ''ERR_BAD_REQUEST''
                     else if status r div 100 = 5 then Some ''ERR_BAD_RESPONSE''
                     else None),
                  err_message = ''Request failed with status code '' @ show_nat (status r),
                  err_response = Some r\<rparr>))"

text \<open>
  The response as the handler builds it on \<open>res\<close>: the headers it has set with
  \<open>setHeader\<close>, the status, and the body given to \<open>end()\<close>, \<open>json(...)\<close> or \<open>send(...)\<close>.
\<close>

datatype json = JString string | JNumber nat | JStrings "string list"

datatype body = End | Json "(string \<times> json) list" | Send string

record response =
  res_status :: nat
  res_headers :: headers
  res_body :: body

text \<open>A handler either responds or rejects with an exception nothing catches.\<close>

datatype outcome = Responded response | Uncaught js_error

text \<open>One run of a handler: the \<open>axios\<close> call it made, if any, and how it ended.\<close>

record run =
  fetched :: "axios_request option"
  result :: outcome

section \<open>The first handler (api/proxy.js)\<close>

subsection \<open>getProxyBaseUrl\<close>

text \<open>\<open>s.replace(/\/$/, '')\<close>: one slash at the very end is removed.\<close>

definition drop_trailing_slash :: "string \<Rightarrow> string" where
  "drop_trailing_slash s = (if endsWith s ''/'' then butlast s else s)"

text \<open>
  \<open>`${protocol}://${host}`\<close> from the forwarding headers; a \<open>host\<close> that is \<open>undefined\<close>
  prints as the text \<open>undefined\<close>.
\<close>

definition forwarded_base :: "headers \<Rightarrow> string" where
  "forwarded_base hs =
     or_else (hs ''x-forwarded-proto'') ''https'' @ ''://'' @
     (case truthy (hs ''x-forwarded-host'') of
        Some h \<Rightarrow> h
      | None \<Rightarrow> (case hs ''host'' of Some h \<Rightarrow> h | None \<Rightarrow> ''undefined''))"

definition getProxyBaseUrl :: "string option \<Rightarrow> request \<Rightarrow> string" where
  "getProxyBaseUrl PROXY_BASE_URL req =
     (case truthy PROXY_BASE_URL of
        Some b \<Rightarrow> drop_trailing_slash b
      | None \<Rightarrow> forwarded_base (req_headers req))"

subsection \<open>The rewriter\<close>

text \<open>The link every rewritten reference becomes.\<close>

definition proxy_link :: "string \<Rightarrow> string \<Rightarrow> string \<Rightarrow> string" where
  "proxy_link proxyBaseUrl encodedUrl encodedReferer =
     proxyBaseUrl @ ''/api/proxy?url='' @ encodedUrl @ ''&referer='' @ encodedReferer"

text \<open>
  The regular expression \<open>/URI="([^"]+)"/\<close> at the head of a string: the captured value and
  what follows the closing quote. The class \<open>[^"]+\<close> takes every character up to the next
  quote, and must take at least one.
\<close>

definition match_uri_attr :: "string \<Rightarrow> (string \<times> string) option" where
  "match_uri_attr s =
     (if prefix ''URI=\"'' s then
        (let t = drop 5 s;
             uri = takeWhile (\<lambda>c. c \<noteq> CHR 0x22) t;
             r = dropWhile (\<lambda>c. c \<noteq> CHR 0x22) t
         in if uri = [] \<or> r = [] then None else Some (uri, tl r))
      else None)"

text \<open>Its leftmost match in a string: the text before it, the captured value, the text after.\<close>

fun find_uri_attr :: "string \<Rightarrow> (string \<times> string \<times> string) option" where
  "find_uri_attr [] = None"
| "find_uri_attr (c # cs) =
     (case match_uri_attr (c # cs) of
        Some (uri, after) \<Rightarrow> Some ([], uri, after)
      | None \<Rightarrow>
          (case find_uri_attr cs of
             None \<Rightarrow> None
           | Some (before, uri, after) \<Rightarrow> Some (c # before, uri, after)))"

text \<open>
  \<open>rewriteUriInTag\<close>: \<open>tag.replace\<close> substitutes what the callback returns for the first
  match; the callback returns the match itself when \<open>new URL\<close> throws.
\<close>

definition rewriteUriInTag :: "platform \<Rightarrow> string \<Rightarrow> string \<Rightarrow> string \<Rightarrow> string \<Rightarrow> string" where
  "rewriteUriInTag P tag basePath proxyBaseUrl encodedReferer =
     (case find_uri_attr tag of
        None \<Rightarrow> tag
      | Some (before, uri, after) \<Rightarrow>
          (case (if startsWith uri ''http'' then Some uri
                 else map_option href (new_URL P uri (Some basePath))) of
             None \<Rightarrow> tag
           | Some targetUrl \<Rightarrow>
               before @ ''URI=\"''
               @ proxy_link proxyBaseUrl (encodeURIComponent targetUrl) encodedReferer
               @ ''\"'' @ after))"

text \<open>
  The callback of \<open>lines.map\<close> on one line; \<open>None\<close> is the \<open>TypeError\<close> of \<open>new URL\<close>, which
  nothing inside the callback catches.
\<close>

definition rewrite_line :: "platform \<Rightarrow> string \<Rightarrow> string \<Rightarrow> string \<Rightarrow> string \<Rightarrow> string option" where
  "rewrite_line P basePath proxyBaseUrl encodedReferer line =
     (let trimmedLine = trim line in
      if trimmedLine = [] \<or> startsWith trimmedLine ''#'' then
        (if js_includes trimmedLine ''URI=\"''
         then Some (rewriteUriInTag P trimmedLine basePath proxyBaseUrl encodedReferer)
         else Some line)
      else
        (case (if startsWith trimmedLine ''http'' then Some trimmedLine
               else map_option href (new_URL P trimmedLine (Some basePath))) of
           None \<Rightarrow> None
         | Some targetUrl \<Rightarrow>
             Some (proxy_link proxyBaseUrl (encodeURIComponent targetUrl) encodedReferer)))"

text \<open>
  The playlist branch: split, map, join. The first line whose callback throws ends the
  \<open>map\<close> with that exception.
\<close>

definition rewrite_playlist :: "platform \<Rightarrow> string \<Rightarrow> string \<Rightarrow> string \<Rightarrow> string \<Rightarrow> string option" where
  "rewrite_playlist P basePath proxyBaseUrl encodedReferer content =
     map_option join_lines
       (those (map (rewrite_line P basePath proxyBaseUrl encodedReferer) (split_lines content)))"

subsection \<open>The response headers of a relayed response\<close>

text \<open>\<open>if (response.headers[name]) res.setHeader(out, response.headers[name])\<close>.\<close>

definition forward :: "headers \<Rightarrow> string \<Rightarrow> string \<Rightarrow> headers \<Rightarrow> headers" where
  "forward up name out hs = (case truthy (up name) of None \<Rightarrow> hs | Some v \<Rightarrow> hs(out \<mapsto> v))"

definition cache_headers :: "string \<Rightarrow> headers \<Rightarrow> headers" where
  "cache_headers decodedUrl hs =
     (if endsWith decodedUrl ''.ts'' \<or> endsWith decodedUrl ''.m4s'' \<or> endsWith decodedUrl ''.mp4''
      then hs(''Cache-Control'' \<mapsto> ''public, max-age=31536000, immutable'')
      else if endsWith decodedUrl ''.m3u8'' \<or> endsWith decodedUrl ''.mpd''
      then hs(''Cache-Control'' \<mapsto> ''no-cache, no-store, must-revalidate'',
              ''Pragma'' \<mapsto> ''no-cache'',
              ''Expires'' \<mapsto> ''0'')
      else hs(''Cache-Control'' \<mapsto> ''public, max-age=3600''))"

definition relay_headers :: "upstream_response \<Rightarrow> string \<Rightarrow> headers" where
  "relay_headers response decodedUrl =
     (let up = resp_headers response;
          hs = [''Access-Control-Allow-Origin'' \<mapsto> ''*'',
                ''Access-Control-Allow-Methods'' \<mapsto> ''GET, OPTIONS'',
                ''Access-Control-Allow-Headers'' \<mapsto>
                  ''Range, Content-Type, Accept, Accept-Encoding, Origin, Referer'',
                ''Access-Control-Expose-Headers'' \<mapsto>
                  ''Content-Length, Content-Range, Accept-Ranges, Cache-Control, Content-Type, ETag'',
                ''Content-Type'' \<mapsto> or_else (up ''content-type'') ''application/octet-stream''];
          hs = forward up ''content-length'' ''Content-Length'' hs;
          hs = forward up ''content-range'' ''Content-Range'' hs;
          hs = hs(''Accept-Ranges'' \<mapsto> or_else (up ''accept-ranges'') ''bytes'');
          hs = forward up ''etag'' ''ETag'' hs;
          hs = forward up ''last-modified'' ''Last-Modified'' hs
      in cache_headers decodedUrl hs)"

definition isM3U8 :: "string \<Rightarrow> string \<Rightarrow> bool" where
  "isM3U8 contentType decodedUrl =
     (js_includes contentType ''mpegurl'' \<or> js_includes contentType ''x-mpegurl''
      \<or> endsWith decodedUrl ''.m3u8'')"

subsection \<open>The handler\<close>

text \<open>The \<open>catch\<close> block; \<open>hs\<close> are the headers the \<open>try\<close> block had set when it threw.\<close>

definition catch_error :: "js_error \<Rightarrow> string \<Rightarrow> headers \<Rightarrow> response" where
  "catch_error error decodedUrl hs =
     (let hs = hs(''Access-Control-Allow-Origin'' \<mapsto> ''*'') in
      if error_code error = Some ''ECONNABORTED'' then
        \<lparr>res_status = 504, res_headers = hs,
         res_body = Json [(''error'', JString ''Gateway timeout''),
                          (''message'', JString ''Request to upstream timed out''),
                          (''url'', JString decodedUrl)]\<rparr>
      else if error_code error = Some ''ENOTFOUND'' \<or> error_code error = Some ''EAI_AGAIN'' then
        \<lparr>res_status = 502, res_headers = hs,
         res_body = Json [(''error'', JString ''DNS lookup failed''),
                          (''message'', JString ''Could not resolve upstream host''),
                          (''url'', JString decodedUrl)]\<rparr>
      else
        (case error_response error of
           Some r \<Rightarrow>
             \<lparr>res_status = (if status r = 0 then 502 else status r), res_headers = hs,
              res_body = Json [(''error'', JString ''Upstream error''),
                               (''status'', JNumber (status r)),
                               (''message'', JString (error_message error)),
                               (''url'', JString decodedUrl)]\<rparr>
         | None \<Rightarrow>
             \<lparr>res_status = 500, res_headers = hs,
              res_body = Json [(''error'', JString ''Internal proxy error''),
                               (''message'', JString (error_message error)),
                               (''url'', JString decodedUrl)]\<rparr>))"

text \<open>
  The \<open>try\<close> block after \<open>axios\<close> has resolved: the response, or the exception thrown
  together with the headers set before it.
\<close>

definition relay :: "platform \<Rightarrow> string option \<Rightarrow> request \<Rightarrow> string \<Rightarrow> string \<Rightarrow> upstream_response
    \<Rightarrow> (js_error \<times> headers) + response" where
  "relay P PROXY_BASE_URL req decodedUrl decodedReferer response =
     (if status response \<ge> 400 then
        Inr \<lparr>res_status = status response,
             res_headers = [''Access-Control-Allow-Origin'' \<mapsto> ''*''],
             res_body = Json [(''error'', JString ''Upstream error''),
                              (''status'', JNumber (status response)),
                              (''statusText'', JString (statusText response)),
                              (''url'', JString decodedUrl)]\<rparr>
      else
        (let hs = relay_headers response decodedUrl;
             contentType = or_else (resp_headers response ''content-type'') ''application/octet-stream''
         in if isM3U8 contentType decodedUrl then
              (let content = toString_utf8 P (resp_data response);
                   basePath = upto_last_slash decodedUrl;
                   proxyBaseUrl = getProxyBaseUrl PROXY_BASE_URL req;
                   encodedReferer = encodeURIComponent decodedReferer
               in case rewrite_playlist P basePath proxyBaseUrl encodedReferer content of
                    None \<Rightarrow> Inl (TypeError, hs)
                  | Some newContent \<Rightarrow>
                      Inr \<lparr>res_status = status response, res_headers = hs,
                           res_body = Send newContent\<rparr>)
            else Inr \<lparr>res_status = status response, res_headers = hs,
                      res_body = Send (resp_data response)\<rparr>))"

definition request_headers :: "request \<Rightarrow> string \<Rightarrow> headers" where
  "request_headers req decodedReferer =
     (let hs = [''User-Agent'' \<mapsto> or_else (req_headers req ''user-agent'')
                  ''Mozilla/5.0 (Windows NT 10.0; Win64; x64) AppleWebKit/537.36 (KHTML, like Gecko) Chrome/120.0.0.0 Safari/537.36'',
                ''Referer'' \<mapsto> decodedReferer,
                ''Origin'' \<mapsto> decodedReferer,
                ''Accept'' \<mapsto> or_else (req_headers req ''accept'') ''*/*'',
                ''Accept-Language'' \<mapsto> or_else (req_headers req ''accept-language'') ''en-US,en;q=0.9'',
                ''Accept-Encoding'' \<mapsto> or_else (req_headers req ''accept-encoding'') ''identity'']
      in forward (req_headers req) ''range'' ''Range'' hs)"

definition no_fetch :: "outcome \<Rightarrow> run" where
  "no_fetch out = \<lparr>fetched = None, result = out\<rparr>"

definition handler :: "platform \<Rightarrow> string option \<Rightarrow> (axios_request \<Rightarrow> transport) \<Rightarrow> request \<Rightarrow> run" where
  "handler P PROXY_BASE_URL net req =
     (if req_method req = ''OPTIONS'' then
        no_fetch (Responded
          \<lparr>res_status = 204,
           res_headers =
             [''Access-Control-Allow-Origin'' \<mapsto> ''*'',
              ''Access-Control-Allow-Methods'' \<mapsto> ''GET, OPTIONS'',
              ''Access-Control-Allow-Headers'' \<mapsto>
                ''Range, Content-Type, Accept, Accept-Encoding, Origin, Referer'',
              ''Access-Control-Expose-Headers'' \<mapsto>
                ''Content-Length, Content-Range, Accept-Ranges, Cache-Control, Content-Type'',
              ''Access-Control-Max-Age'' \<mapsto> ''86400''],
           res_body = End\<rparr>)
      else if req_method req \<noteq> ''GET'' then
        no_fetch (Responded
          \<lparr>res_status = 405, res_headers = [''Access-Control-Allow-Origin'' \<mapsto> ''*''],
           res_body = Json [(''error'', JString ''Method not allowed''),
                            (''allowedMethods'', JStrings [''GET'', ''OPTIONS''])]\<rparr>)
      else
        (case truthy (query_url req) of
           None \<Rightarrow>
             no_fetch (Responded
               \<lparr>res_status = 400, res_headers = [''Access-Control-Allow-Origin'' \<mapsto> ''*''],
                res_body = Json [(''error'', JString ''URL parameter is required''),
                                 (''usage'', JString ''/api/proxy?url=<encoded_url>&referer=<optional_referer>'')]\<rparr>)
         | Some url \<Rightarrow>
             (case decodeURIComponent url of
                None \<Rightarrow>
                  no_fetch (Responded
                    \<lparr>res_status = 400, res_headers = [''Access-Control-Allow-Origin'' \<mapsto> ''*''],
                     res_body = Json [(''error'', JString ''Invalid URL encoding''),
                                      (''message'', JString (error_message URIError))]\<rparr>)
              | Some decodedUrl \<Rightarrow>
                  (case new_URL P decodedUrl None of
                     None \<Rightarrow>
                       no_fetch (Responded
                         \<lparr>res_status = 400, res_headers = [''Access-Control-Allow-Origin'' \<mapsto> ''*''],
                          res_body = Json [(''error'', JString ''Invalid URL format''),
                                           (''url'', JString decodedUrl)]\<rparr>)
                   | Some _ \<Rightarrow>
                       (case (case truthy (query_referer req) of
                                None \<Rightarrow> Some ''https://megacloud.tv''
                              | Some referer \<Rightarrow> decodeURIComponent referer) of
                          None \<Rightarrow> no_fetch (Uncaught URIError)
                        | Some decodedReferer \<Rightarrow>
                            (let config = \<lparr>ax_url = decodedUrl,
                                           ax_headers = request_headers req decodedReferer,
                                           ax_maxRedirects = 5, ax_timeout = 30000\<rparr>
                             in \<lparr>fetched = Some config,
                                 result = Responded
                                   (case axios net config of
                                      Inl error \<Rightarrow> catch_error error decodedUrl Map.empty
                                    | Inr response \<Rightarrow>
                                        (case relay P PROXY_BASE_URL req decodedUrl decodedReferer response of
                                           Inl (error, hs) \<Rightarrow> catch_error error decodedUrl hs
                                         | Inr res \<Rightarrow> res))\<rparr>))))))"

section \<open>The second handler\<close>

text \<open>The CORS headers it sets before anything else.\<close>

definition cors_headers2 :: headers where
  "cors_headers2 =
     [''Access-Control-Allow-Origin'' \<mapsto> ''*'',
      ''Access-Control-Allow-Methods'' \<mapsto> ''GET, OPTIONS'',
      ''Access-Control-Allow-Headers'' \<mapsto> ''Range, Content-Type, Accept, Accept-Encoding'',
      ''Access-Control-Expose-Headers'' \<mapsto> ''Content-Length, Content-Range, Accept-Ranges, Cache-Control'',
      ''Access-Control-Max-Age'' \<mapsto> ''86400'']"

text \<open>
  The callback of \<open>lines.map\<close>: the line is trimmed first, and a relative reference is
  appended to \<open>basePath\<close>. \<open>referer\<close> is the query parameter as it arrived.
\<close>

definition rewrite_line2 :: "string \<Rightarrow> string \<Rightarrow> string option \<Rightarrow> string \<Rightarrow> string" where
  "rewrite_line2 basePath proxyBase referer line0 =
     (let line = trim line0 in
      if line = [] \<or> startsWith line ''#'' then line
      else
        (let targetUrl = (if startsWith line ''http'' then line else basePath @ line);
             encodedUrl = encodeURIComponent targetUrl;
             encodedReferer = encodeURIComponent (or_else referer ''https://megacloud.tv'')
         in proxy_link proxyBase encodedUrl encodedReferer))"

definition rewrite_playlist2 :: "string \<Rightarrow> string \<Rightarrow> string option \<Rightarrow> string \<Rightarrow> string" where
  "rewrite_playlist2 basePath proxyBase referer content =
     join_lines (map (rewrite_line2 basePath proxyBase referer) (split_lines content))"

definition cache_headers2 :: "string \<Rightarrow> headers \<Rightarrow> headers" where
  "cache_headers2 decodedUrl hs =
     (if endsWith decodedUrl ''.ts'' \<or> endsWith decodedUrl ''.m4s''
      then hs(''Cache-Control'' \<mapsto> ''public, max-age=31536000, immutable'')
      else if endsWith decodedUrl ''.m3u8''
      then hs(''Cache-Control'' \<mapsto> ''no-cache'')
      else hs)"

definition relay_headers2 :: "upstream_response \<Rightarrow> string \<Rightarrow> headers" where
  "relay_headers2 response decodedUrl =
     (let up = resp_headers response;
          hs = cors_headers2(''Content-Type'' \<mapsto>
                 or_else (up ''content-type'') ''application/vnd.apple.mpegurl'');
          hs = forward up ''content-length'' ''Content-Length'' hs;
          hs = forward up ''content-range'' ''Content-Range'' hs;
          hs = hs(''Accept-Ranges'' \<mapsto> or_else (up ''accept-ranges'') ''bytes'')
      in cache_headers2 decodedUrl hs)"

text \<open>The \<open>try\<close> block after \<open>axios\<close> has resolved; nothing in it throws.\<close>

definition relay2 :: "platform \<Rightarrow> request \<Rightarrow> string \<Rightarrow> upstream_response \<Rightarrow> response" where
  "relay2 P req decodedUrl response =
     (let hs = relay_headers2 response decodedUrl;
          contentType = or_else (resp_headers response ''content-type'') ''application/vnd.apple.mpegurl''
      in if js_includes contentType ''mpegurl'' \<or> endsWith decodedUrl ''.m3u8'' then
           (let content = toString_utf8 P (resp_data response);
                basePath = upto_last_slash decodedUrl;
                proxyBase = forwarded_base (req_headers req)
            in \<lparr>res_status = status response, res_headers = hs,
                res_body = Send (rewrite_playlist2 basePath proxyBase (query_referer req) content)\<rparr>)
         else \<lparr>res_status = status response, res_headers = hs,
                res_body = Send (resp_data response)\<rparr>)"

definition catch_error2 :: "js_error \<Rightarrow> headers \<Rightarrow> response" where
  "catch_error2 error hs =
     (case error_response error of
        Some r \<Rightarrow>
          \<lparr>res_status = status r, res_headers = hs,
           res_body = Json [(''error'', JString ''Upstream error''),
                            (''status'', JNumber (status r))]\<rparr>
      | None \<Rightarrow>
          \<lparr>res_status = 500, res_headers = hs,
           res_body = Json [(''error'', JString (error_message error))]\<rparr>)"

text \<open>
  The outbound headers: \<open>Referer\<close> is the decoded referer and \<open>Origin\<close> the origin of its
  URL; decoding and \<open>new URL\<close> can both throw.
\<close>

definition browser_headers2 :: headers where
  "browser_headers2 =
     [''User-Agent'' \<mapsto>
        ''Mozilla/5.0 (Windows NT 10.0; Win64; x64) AppleWebKit/537.36 (KHTML, like Gecko) Chrome/120.0.0.0 Safari/537.36'',
      ''Accept'' \<mapsto> ''*/*'',
      ''Accept-Language'' \<mapsto> ''en-US,en;q=0.9'',
      ''Accept-Encoding'' \<mapsto> ''gzip, deflate, br'',
      ''Connection'' \<mapsto> ''keep-alive'',
      ''Cache-Control'' \<mapsto> ''no-cache'',
      ''Pragma'' \<mapsto> ''no-cache'',
      ''Sec-Fetch-Dest'' \<mapsto> ''empty'',
      ''Sec-Fetch-Mode'' \<mapsto> ''cors'',
      ''Sec-Fetch-Site'' \<mapsto> ''cross-site'']"

definition request_headers2 :: "platform \<Rightarrow> request \<Rightarrow> js_error + headers" where
  "request_headers2 P req =
     (case truthy (query_referer req) of
        Some referer \<Rightarrow>
          (case decodeURIComponent referer of
             None \<Rightarrow> Inl URIError
           | Some decodedReferer \<Rightarrow>
               (case new_URL P decodedReferer None of
                  None \<Rightarrow> Inl TypeError
                | Some u \<Rightarrow>
                    Inr (forward (req_headers req) ''range'' ''Range''
                           (browser_headers2(''Referer'' \<mapsto> decodedReferer,
                                             ''Origin'' \<mapsto> origin u)))))
      | None \<Rightarrow>
          Inr (forward (req_headers req) ''range'' ''Range''
                 (browser_headers2(''Referer'' \<mapsto> ''https://megacloud.tv'',
                                   ''Origin'' \<mapsto> ''https://megacloud.tv''))))"

definition handler2 :: "platform \<Rightarrow> (axios_request \<Rightarrow> transport) \<Rightarrow> request \<Rightarrow> run" where
  "handler2 P net req =
     (if req_method req = ''OPTIONS'' then
        no_fetch (Responded \<lparr>res_status = 200, res_headers = cors_headers2, res_body = End\<rparr>)
      else if req_method req \<noteq> ''GET'' then
        no_fetch (Responded
          \<lparr>res_status = 405, res_headers = cors_headers2,
           res_body = Json [(''error'', JString ''Method not allowed'')]\<rparr>)
      else
        (case truthy (query_url req) of
           None \<Rightarrow>
             no_fetch (Responded
               \<lparr>res_status = 400, res_headers = cors_headers2,
                res_body = Json [(''error'', JString ''URL parameter is required'')]\<rparr>)
         | Some url \<Rightarrow>
             (case decodeURIComponent url of
                None \<Rightarrow> no_fetch (Responded (catch_error2 URIError cors_headers2))
              | Some decodedUrl \<Rightarrow>
                  (case request_headers2 P req of
                     Inl error \<Rightarrow> no_fetch (Responded (catch_error2 error cors_headers2))
                   | Inr hs \<Rightarrow>
                       (let config = \<lparr>ax_url = decodedUrl, ax_headers = hs,
                                      ax_maxRedirects = 5, ax_timeout = 30000\<rparr>
                        in \<lparr>fetched = Some config,
                            result = Responded
                              (case axios net config of
                                 Inl error \<Rightarrow> catch_error2 error cors_headers2
                               | Inr response \<Rightarrow> relay2 P req decodedUrl response)\<rparr>)))))"

section \<open>Sample values of the platform\<close>

text \<open>
  The results of the \<open>URL\<close> constructor, by the URL standard, at the inputs the examples
  below use: \<open>None\<close> where it throws (\<open>//\<close> names an empty host). No example depends on
  its value at any other input.
\<close>

definition sample_URL :: "string \<Rightarrow> string option \<Rightarrow> URL option" where
  "sample_URL input base =
     (if base = None \<and> input = ''https://cdn.example.com/videos/abc/playlist.m3u8'' then
        Some \<lparr>href = ''https://cdn.example.com/videos/abc/playlist.m3u8'',
              origin = ''https://cdn.example.com''\<rparr>
      else if base = None \<and> input = ''https://site.example/A'' then
        Some \<lparr>href = ''https://site.example/A'', origin = ''https://site.example''\<rparr>
      else if base = Some ''https://cdn.example.com/videos/abc/'' \<and> input = ''segment001.ts'' then
        Some \<lparr>href = ''https://cdn.example.com/videos/abc/segment001.ts'',
              origin = ''https://cdn.example.com''\<rparr>
      else if base = Some ''https://cdn.example.com/videos/abc/'' \<and> input = ''key.bin'' then
        Some \<lparr>href = ''https://cdn.example.com/videos/abc/key.bin'',
              origin = ''https://cdn.example.com''\<rparr>
      else if base = Some ''https://cdn.example.com/videos/abc/'' \<and> input = ''/seg.ts'' then
        Some \<lparr>href = ''https://cdn.example.com/seg.ts'', origin = ''https://cdn.example.com''\<rparr>
      else if base = Some ''https://cdn.example.com/videos/abc/'' \<and> input = ''//'' then None
      else if base = Some ''https://cdn.example.com/videos/abc/'' \<and> input = ''httpdocs/seg.ts'' then
        Some \<lparr>href = ''https://cdn.example.com/videos/abc/httpdocs/seg.ts'',
              origin = ''https://cdn.example.com''\<rparr>
      else if base = None \<and> input = ''https://cdn.example.com/videos/abc/segment001.ts'' then
        Some \<lparr>href = ''https://cdn.example.com/videos/abc/segment001.ts'',
              origin = ''https://cdn.example.com''\<rparr>
      else None)"

definition sample_platform :: platform where
  "sample_platform = \<lparr>new_URL = sample_URL, toString_utf8 = (\<lambda>data. data)\<rparr>"

text \<open>
  A request for the playlist \<open>https://cdn.example.com/videos/abc/playlist.m3u8\<close> that
  reaches the proxy as host \<open>p.example\<close>, and the same request without its \<open>url\<close>.
\<close>

definition sample_request :: request where
  "sample_request =
     \<lparr>req_method = ''GET'',
      query_url = Some ''https%3A%2F%2Fcdn.example.com%2Fvideos%2Fabc%2Fplaylist.m3u8'',
      query_referer = None,
      req_headers = [''host'' \<mapsto> ''p.example'']\<rparr>"

definition no_url_request :: request where
  "no_url_request = sample_request\<lparr>query_url := None, query_referer := Some ''https://site.example/A''\<rparr>"

text \<open>An upstream whose host does not resolve.\<close>

definition unreachable :: "axios_request \<Rightarrow> transport" where
  "unreachable config = Failed (Some ''ENOTFOUND'') ''getaddrinfo ENOTFOUND cdn.example.com''"

text \<open>Requests for a segment and for an initialisation file of the same stream.\<close>

definition segment_request :: request where
  "segment_request =
     sample_request\<lparr>query_url := Some ''https%3A%2F%2Fcdn.example.com%2Fvideos%2Fabc%2Fsegment001.ts''\<rparr>"

definition mp4_request :: request where
  "mp4_request =
     sample_request\<lparr>query_url := Some ''https%3A%2F%2Fcdn.example.com%2Fvideos%2Fabc%2Finit.mp4''\<rparr>"

text \<open>A request whose \<open>referer\<close> ends in a \<open>%\<close> that no two hexadecimal digits follow.\<close>

definition malformed_referer_request :: request where
  "malformed_referer_request = sample_request\<lparr>query_referer := Some ''https://site.example/100%''\<rparr>"

text \<open>
  An upstream that does not answer within the \<open>timeout\<close> of the configuration: axios
  rejects with the code \<open>ECONNABORTED\<close>.
\<close>

definition timed_out :: "axios_request \<Rightarrow> transport" where
  "timed_out config =
     Failed (Some ''ECONNABORTED'') (''timeout of '' @ show_nat (ax_timeout config) @ ''ms exceeded'')"

text \<open>An upstream that refuses every request with status 403, and one that serves a file.\<close>

definition forbidden :: "axios_request \<Rightarrow> transport" where
  "forbidden config =
     Received \<lparr>status = 403, statusText = ''Forbidden'',
               resp_headers = [''content-type'' \<mapsto> ''text/html''],
               resp_data = ''<h1>403 Forbidden</h1>''\<rparr>"

definition serves :: "string \<Rightarrow> string \<Rightarrow> axios_request \<Rightarrow> transport" where
  "serves contentType data config =
     Received \<lparr>status = 200, statusText = ''OK'',
               resp_headers = [''content-type'' \<mapsto> contentType],
               resp_data = data\<rparr>"

text \<open>The \<open>axios\<close> calls the two handlers make for a request without \<open>referer\<close> and \<open>Range\<close>.\<close>

definition config_for :: "request \<Rightarrow> string \<Rightarrow> axios_request" where
  "config_for req decodedUrl =
     \<lparr>ax_url = decodedUrl,
      ax_headers = request_headers req ''https://megacloud.tv'',
      ax_maxRedirects = 5, ax_timeout = 30000\<rparr>"

definition config2_for :: "string \<Rightarrow> axios_request" where
  "config2_for decodedUrl =
     \<lparr>ax_url = decodedUrl,
      ax_headers = browser_headers2(''Referer'' \<mapsto> ''https://megacloud.tv'',
                                    ''Origin'' \<mapsto> ''https://megacloud.tv''),
      ax_maxRedirects = 5, ax_timeout = 30000\<rparr>"

text \<open>
  Lines of a playlist: the key directive of the specification's example, a first line that
  ends in a carriage return, and a directive whose \<open>URI\<close> attribute is empty.
\<close>

definition key_line :: string where
  "key_line = ''#EXT-X-KEY:METHOD=AES-128,URI=\"key.bin\"''"

definition crlf_line :: string where
  "crlf_line = ''#EXTM3U'' @ [CHR 0x0D]"

definition empty_uri_line :: string where
  "empty_uri_line = ''#EXT-X-MAP:URI=\"\"'' @ [CHR 0x0D]"

text \<open>A request whose \<open>referer\<close> holds a percent escape, \<open>%41\<close> for \<open>A\<close>.\<close>

definition escaped_referer_request :: request where
  "escaped_referer_request = sample_request\<lparr>query_referer := Some ''https://site.example/%41''\<rparr>"

text \<open>
  The \<open>referer\<close> parameter is text: well-formed UTF-8 in the model of strings, as every string
  that the query parser hands to a handler is.
\<close>

definition referer_text :: "request \<Rightarrow> bool" where
  "referer_text req = (case query_referer req of None \<Rightarrow> True | Some referer \<Rightarrow> wf_utf8 referer)"

text \<open>
  A request whose \<open>referer\<close> holds the escape of a percent sign, \<open>%25\<close>, before \<open>41\<close>: it
  decodes to the \<open>referer\<close> of \<open>escaped_referer_request\<close>.
\<close>

definition twice_escaped_referer_request :: request where
  "twice_escaped_referer_request =
     sample_request\<lparr>query_referer := Some ''https://site.example/%2541''\<rparr>"

text \<open>
  The request a player makes through a link of a rewritten playlist whose \<open>url\<close> parameter
  is the percent-encoding of \<open>https://cdn.example.com/videos/abc/segment001.ts\<close>: the query
  parser of the platform has percent-decoded each parameter of the link once, and \<open>referer\<close>
  is what it made of the \<open>referer\<close> parameter of the link.
\<close>

definition follow_up_request :: "string \<Rightarrow> request" where
  "follow_up_request referer =
     \<lparr>req_method = ''GET'',
      query_url = Some ''https://cdn.example.com/videos/abc/segment001.ts'',
      query_referer = Some referer,
      req_headers = [''host'' \<mapsto> ''p.example'']\<rparr>"

text \<open>A playlist of a key directive and a segment.\<close>

definition key_playlist :: string where
  "key_playlist = key_line @ [CHR 0x0A] @ ''segment001.ts''"

text \<open>
  A playlist of three comment lines that end in a carriage return each: a directive without
  \<open>URI\<close>, the key directive, and the directive whose \<open>URI\<close> attribute is empty.
\<close>

definition crlf_key_line :: string where
  "crlf_key_line = key_line @ [CHR 0x0D]"

definition comment_playlist :: string where
  "comment_playlist = crlf_line @ [CHR 0x0A] @ crlf_key_line @ [CHR 0x0A] @ empty_uri_line"

section \<open>What the claims observe of a run\<close>

text \<open>The status and body of the response, and a header of it, when the handler responded.\<close>

definition reply :: "run \<Rightarrow> (nat \<times> body) option" where
  "reply r = (case result r of
                Responded res \<Rightarrow> Some (res_status res, res_body res)
              | Uncaught e \<Rightarrow> None)"

definition reply_header :: "run \<Rightarrow> string \<Rightarrow> string option" where
  "reply_header r name = (case result r of
                            Responded res \<Rightarrow> res_headers res name
                          | Uncaught e \<Rightarrow> None)"

text \<open>The \<open>Referer\<close> header of the outbound request, when one was made.\<close>

definition sent_referer :: "run \<Rightarrow> string option" where
  "sent_referer r = (case fetched r of
                       None \<Rightarrow> None
                     | Some config \<Rightarrow> ax_headers config ''Referer'')"

text \<open>
  The cache policy as the specification words it: by the suffix of the decoded target URL,
  the immutable policy for segments, the no-cache policy for playlists, the moderate policy
  for anything else.
\<close>

definition spec_cache_control :: "string \<Rightarrow> string" where
  "spec_cache_control decodedUrl =
     (if endsWith decodedUrl ''.ts'' \<or> endsWith decodedUrl ''.m4s'' \<or> endsWith decodedUrl ''.mp4''
      then ''public, max-age=31536000, immutable''
      else if endsWith decodedUrl ''.m3u8'' \<or> endsWith decodedUrl ''.mpd''
      then ''no-cache, no-store, must-revalidate''
      else ''public, max-age=3600'')"

text \<open>
  A line that neither handler passes through: not blank and not a comment after trimming.
  The handlers take it for a relative reference when it does not start with \<open>http\<close>, which
  is the only test either of them makes for an absolute URL.
\<close>

definition is_reference :: "string \<Rightarrow> bool" where
  "is_reference line = (if trim line = [] \<or> startsWith (trim line) ''#'' then False else True)"

definition is_relative :: "string \<Rightarrow> bool" where
  "is_relative line = (if startsWith (trim line) ''http'' then False else is_reference line)"


text \<open>
  The value of the last query parameter of a link, \<open>referer\<close> in a proxy link: the text
  after its last \<open>=\<close>.
\<close>

definition link_referer :: "string \<Rightarrow> string" where
  "link_referer link = rev (takeWhile (\<lambda>c. c \<noteq> CHR ''='') (rev link))"

text \<open>The lines of the playlist in an upstream response: \<open>content.split('\n')\<close>.\<close>

definition playlist_lines :: "platform \<Rightarrow> upstream_response \<Rightarrow> string list" where
  "playlist_lines P r = split_lines (toString_utf8 P (resp_data r))"

text \<open>
  Every line that the first handler resolves, a reference that does not start with \<open>http\<close>,
  resolves against \<open>basePath\<close>: no \<open>new URL\<close> of the rewriting throws.
\<close>

definition resolvable :: "platform \<Rightarrow> string \<Rightarrow> string list \<Rightarrow> bool" where
  "resolvable P basePath lines =
     list_all (\<lambda>line. if is_relative line then new_URL P (trim line) (Some basePath) \<noteq> None
                      else True) lines"

text \<open>
  What a match of the regular expression \<open>/URI="([^"]+)"/\<close> in a string is, said without
  the search that finds it: the string is \<open>before\<close>, then \<open>URI="\<close>, a value that is
  not empty and holds no quote, a quote, and \<open>after\<close>. It is the first match, the one
  \<open>replace\<close> substitutes, when no match begins further to the left.
\<close>

definition uri_attribute_at :: "string \<Rightarrow> string \<Rightarrow> string \<Rightarrow> string \<Rightarrow> bool" where
  "uri_attribute_at tag before uri after =
     (tag = before @ ''URI=\"'' @ uri @ ''\"'' @ after \<and> uri \<noteq> [] \<and> CHR 0x22 \<notin> set uri)"

definition first_uri_match :: "string \<Rightarrow> string \<Rightarrow> string \<Rightarrow> string \<Rightarrow> bool" where
  "first_uri_match tag before uri after =
     (uri_attribute_at tag before uri after
      \<and> (\<forall>b u a. uri_attribute_at tag b u a \<longrightarrow> length before \<le> length b))"

section \<open>Facts about the built-ins\<close>

subsection \<open>Decoding undoes encoding\<close>

lemma hex_value_hex_digit: "n < 16 \<Longrightarrow> hex_value (hex_digit n) = Some n"
proof -
  have "\<forall>k\<in>{0..<16}. hex_value (hex_digit k) = Some k"
    by code_simp
  then show "n < 16 \<Longrightarrow> hex_value (hex_digit n) = Some n"
    by simp
qed

lemma read_escape_percent_escape: "read_escape (percent_escape c @ rest) = Some (c, rest)"
proof -
  have "of_char c div 16 < (16::nat)"
  proof -
    have "of_char c < (256::nat)" by simp
    then show ?thesis by arith
  qed
  moreover have "of_char c mod 16 < (16::nat)"
    by simp
  moreover have "char_of (16 * (of_char c div 16) + of_char c mod 16 :: nat) = c"
    by simp
  ultimately show ?thesis
    by (simp add: percent_escape_def hex_value_hex_digit)
qed

lemma read_escapes_percent_escapes:
  "read_escapes (length bs) (concat (map percent_escape bs) @ rest) = Some (bs, rest)"
  by (induction bs) (simp_all add: read_escape_percent_escape)

lemma encodeURIComponent_append:
  "encodeURIComponent (a @ b) = encodeURIComponent a @ encodeURIComponent b"
  by (simp add: encodeURIComponent_def)

lemma unreserved_ascii: "uri_unreserved c \<Longrightarrow> of_char c < (128::nat) \<and> c \<noteq> CHR ''%''"
  by (auto simp: uri_unreserved_def)


lemma utf8_length_1: "utf8_length c = Some n \<Longrightarrow> (n = 1) = (of_char c < (128::nat))"
  by (auto simp: utf8_length_def Let_def split: if_splits)

lemma utf8_length_range: "utf8_length c = Some n \<Longrightarrow> 1 \<le> n \<and> n \<le> 4"
  by (auto simp: utf8_length_def Let_def split: if_splits)

lemma utf8_cont_not_unreserved: "utf8_cont c \<Longrightarrow> \<not> uri_unreserved c"
  by (auto simp: utf8_cont_def dest!: unreserved_ascii)

lemma utf8_valid_cont: "utf8_valid (c # bs) \<Longrightarrow> list_all utf8_cont bs"
  by (induction "c # bs" rule: utf8_valid.induct) (auto simp: Let_def utf8_cont_def)

lemma encode_escaped:
  "list_all (\<lambda>c. \<not> uri_unreserved c) bs \<Longrightarrow> encodeURIComponent bs = concat (map percent_escape bs)"
  by (induction bs) (auto simp: encodeURIComponent_def)

lemma decode_escape_step:
  assumes "utf8_length c = Some n" and "length bs = n - 1" and "n = 1 \<or> utf8_valid (c # bs)"
  shows "decodeURIComponent (percent_escape c @ concat (map percent_escape bs) @ rest)
         = map_option ((@) (c # bs)) (decodeURIComponent rest)"
proof -
  define t where "t = tl (percent_escape c) @ concat (map percent_escape bs) @ rest"
  have eq: "percent_escape c @ concat (map percent_escape bs) @ rest = CHR ''%'' # t"
    by (simp add: percent_escape_def t_def)
  have one: "read_escape (CHR ''%'' # t) = Some (c, concat (map percent_escape bs) @ rest)"
    using read_escape_percent_escape [of c "concat (map percent_escape bs) @ rest"]
    by (simp only: eq)
  have more: "read_escapes (n - 1) (concat (map percent_escape bs) @ rest) = Some (bs, rest)"
    using read_escapes_percent_escapes [of bs rest] assms(2) by simp
  show ?thesis
    unfolding eq using assms(1,3) more by (simp add: one)
qed

lemma decode_encode: "wf_utf8 s \<Longrightarrow> decodeURIComponent (encodeURIComponent s) = Some s"
proof (induction s rule: wf_utf8.induct)
  case 1
  show ?case by (simp add: encodeURIComponent_def)
next
  case (2 c cs)
  from "2.prems" obtain n where n: "utf8_length c = Some n"
    and len: "n - 1 \<le> length cs"
    and valid: "n = 1 \<or> utf8_valid (c # take (n - 1) cs)"
    and rest: "wf_utf8 (drop (n - 1) cs)"
    by (auto split: option.splits)
  have IH: "decodeURIComponent (encodeURIComponent (drop (n - 1) cs)) = Some (drop (n - 1) cs)"
    using "2.IH" [OF n] rest by simp
  show ?case
  proof (cases "uri_unreserved c")
    case True
    then have "of_char c < (128::nat)" and ne: "c \<noteq> CHR ''%''"
      using unreserved_ascii by auto
    then have "n = 1"
      using utf8_length_1 [OF n] by simp
    with IH True ne show ?thesis
      by (simp add: encodeURIComponent_def)
  next
    case False
    let ?bs = "take (n - 1) cs"
    have esc: "list_all (\<lambda>c. \<not> uri_unreserved c) ?bs"
    proof (cases "n = 1")
      case True
      then show ?thesis by simp
    next
      case False
      with valid have "list_all utf8_cont ?bs"
        using utf8_valid_cont by blast
      then show ?thesis
        by (auto simp: list_all_iff dest: utf8_cont_not_unreserved)
    qed
    have "encodeURIComponent cs = encodeURIComponent ?bs @ encodeURIComponent (drop (n - 1) cs)"
      by (metis append_take_drop_id encodeURIComponent_append)
    moreover have "encodeURIComponent (c # cs) = percent_escape c @ encodeURIComponent cs"
      using False by (simp add: encodeURIComponent_def)
    ultimately have "encodeURIComponent (c # cs)
        = percent_escape c @ concat (map percent_escape ?bs) @ encodeURIComponent (drop (n - 1) cs)"
      using esc by (simp add: encode_escaped)
    then have "decodeURIComponent (encodeURIComponent (c # cs))
        = map_option ((@) (c # ?bs)) (decodeURIComponent (encodeURIComponent (drop (n - 1) cs)))"
      using decode_escape_step [OF n _ valid, of "encodeURIComponent (drop (n - 1) cs)"] len
      by simp
    with IH show ?thesis by simp
  qed
qed


lemma wf_utf8_append: "wf_utf8 a \<Longrightarrow> wf_utf8 b \<Longrightarrow> wf_utf8 (a @ b)"
proof (induction a rule: wf_utf8.induct)
  case 1
  then show ?case by simp
next
  case (2 c cs)
  then show ?case
    by (auto split: option.splits)
qed

lemma wf_utf8_single:
  "utf8_length c = Some n \<Longrightarrow> length bs = n - 1 \<Longrightarrow> n = 1 \<or> utf8_valid (c # bs) \<Longrightarrow> wf_utf8 (c # bs)"
  by auto

lemma wf_utf8_ascii: "of_char c < (128::nat) \<Longrightarrow> wf_utf8 (c # cs) = wf_utf8 cs"
  by (simp add: utf8_length_def)

lemma hex_value_ascii: "hex_value c = Some n \<Longrightarrow> of_char c < (128::nat)"
  by (auto simp: hex_value_def Let_def split: if_splits)

lemma read_escape_wf: "read_escape s = Some (b, rest) \<Longrightarrow> wf_utf8 s \<Longrightarrow> wf_utf8 rest"
proof (induction s rule: read_escape.induct)
  case (1 p h l rest')
  then obtain x y where "p = CHR ''%''" and "hex_value h = Some x" and "hex_value l = Some y"
    and "rest = rest'"
    by (auto split: if_splits option.splits)
  then have "of_char p < (128::nat)" and "of_char h < (128::nat)" and "of_char l < (128::nat)"
    by (simp_all add: hex_value_ascii)
  then have "wf_utf8 (p # h # l # rest') = wf_utf8 rest'"
    by (simp only: wf_utf8_ascii)
  with \<open>rest = rest'\<close> "1.prems"(2) show ?case
    by simp
qed simp_all

lemma read_escapes_wf:
  "read_escapes k s = Some (bs, rest) \<Longrightarrow> wf_utf8 s \<Longrightarrow> wf_utf8 rest \<and> length bs = k"
proof (induction k arbitrary: s bs rest)
  case 0
  then show ?case by simp
next
  case (Suc k)
  then show ?case
    by (fastforce split: option.splits dest: read_escape_wf)
qed

lemma decode_unescaped:
  "CHR ''%'' \<notin> set xs \<Longrightarrow> decodeURIComponent (xs @ rest) = map_option ((@) xs) (decodeURIComponent rest)"
proof (induction xs)
  case Nil
  show ?case by (cases "decodeURIComponent rest") simp_all
next
  case (Cons a xs)
  then have "a \<noteq> CHR ''%''" and "CHR ''%'' \<notin> set xs"
    by auto
  with Cons.IH show ?case by (cases "decodeURIComponent rest") simp_all
qed

lemma decode_wf: "wf_utf8 s \<Longrightarrow> decodeURIComponent s = Some d \<Longrightarrow> wf_utf8 d"
proof (induction s arbitrary: d rule: length_induct)
  case (1 s)
  show ?case
  proof (cases s)
    case Nil
    with "1.prems" show ?thesis by simp
  next
    case (Cons c cs)
    show ?thesis
    proof (cases "c = CHR ''%''")
      case True
      with "1.prems"(2) Cons obtain b rest m bs rest' d'
        where one: "read_escape s = Some (b, rest)"
          and m: "utf8_length b = Some m"
          and more: "read_escapes (m - 1) rest = Some (bs, rest')"
          and valid: "m = 1 \<or> utf8_valid (b # bs)"
          and d': "decodeURIComponent rest' = Some d'" and d: "d = (b # bs) @ d'"
        by (auto split: option.splits if_splits)
      have "wf_utf8 rest"
        using one "1.prems"(1) by (rule read_escape_wf)
      with more have "wf_utf8 rest'" and len: "length bs = m - 1"
        using read_escapes_wf by blast+
      moreover have "length rest' < length s"
        using read_escape_length [OF one] read_escapes_length [OF more] by simp
      ultimately have "wf_utf8 d'"
        using "1.IH" d' by blast
      moreover have "wf_utf8 (b # bs)"
        using m len valid by (rule wf_utf8_single)
      ultimately show ?thesis
        unfolding d by (rule wf_utf8_append [rotated])
    next
      case False
      from "1.prems"(1) Cons obtain n where n: "utf8_length c = Some n"
        and len: "n - 1 \<le> length cs"
        and valid: "n = 1 \<or> utf8_valid (c # take (n - 1) cs)"
        and rest: "wf_utf8 (drop (n - 1) cs)"
        by (auto split: option.splits)
      let ?xs = "c # take (n - 1) cs"
      have "list_all utf8_cont (take (n - 1) cs)"
      proof (cases "n = 1")
        case True
        then show ?thesis by simp
      next
        case False
        with valid show ?thesis
          using utf8_valid_cont by blast
      qed
      then have "CHR ''%'' \<notin> set (take (n - 1) cs)"
        by (auto simp: list_all_iff utf8_cont_def)
      with False have "CHR ''%'' \<notin> set ?xs"
        by simp
      then have "decodeURIComponent (?xs @ drop (n - 1) cs)
          = map_option ((@) ?xs) (decodeURIComponent (drop (n - 1) cs))"
        by (rule decode_unescaped)
      moreover have "s = ?xs @ drop (n - 1) cs"
        using Cons by simp
      ultimately obtain d' where d': "decodeURIComponent (drop (n - 1) cs) = Some d'"
        and d: "d = ?xs @ d'"
        using "1.prems"(2) by auto
      have "length (drop (n - 1) cs) < length s"
        using Cons by simp
      then have "wf_utf8 d'"
        using "1.IH" rest d' by blast
      moreover have "wf_utf8 ?xs"
        using n _ valid by (rule wf_utf8_single) (use len in simp)
      ultimately show ?thesis
        unfolding d by (rule wf_utf8_append [rotated])
    qed
  qed
qed

section \<open>How a run that fetches ends\<close>

text \<open>
  When a handler has made its \<open>axios\<close> call, the request was a \<open>GET\<close> whose \<open>url\<close> and
  \<open>referer\<close> decoded, and the response is the one of the \<open>try\<close> block or of \<open>catch\<close>.
\<close>

lemma handler_fetched:
  assumes "fetched (handler P env net req) = Some config"
  shows "\<exists>d. (case truthy (query_referer req) of
                None \<Rightarrow> Some ''https://megacloud.tv''
              | Some referer \<Rightarrow> decodeURIComponent referer) = Some d
           \<and> ax_headers config = request_headers req d
           \<and> ax_timeout config = 30000
           \<and> result (handler P env net req) = Responded
                (case axios net config of
                   Inl error \<Rightarrow> catch_error error (ax_url config) Map.empty
                 | Inr response \<Rightarrow>
                     (case relay P env req (ax_url config) d response of
                        Inl (error, hs) \<Rightarrow> catch_error error (ax_url config) hs
                      | Inr res \<Rightarrow> res))"
  using assms
  by (auto simp: handler_def no_fetch_def Let_def split: if_splits option.splits cong: sum.case_cong)

lemma handler2_fetched:
  assumes "fetched (handler2 P net req) = Some config"
  shows "\<exists>hs. request_headers2 P req = Inr hs
           \<and> ax_headers config = hs
           \<and> ax_timeout config = 30000
           \<and> result (handler2 P net req) = Responded
                (case axios net config of
                   Inl error \<Rightarrow> catch_error2 error cors_headers2
                 | Inr response \<Rightarrow> relay2 P req (ax_url config) response)"
  using assms
  by (auto simp: handler2_def no_fetch_def Let_def split: if_splits option.splits sum.splits cong: sum.case_cong)

section \<open>The claims\<close>

text \<open>
  C9. A \<open>GET\<close> request without the \<open>url\<close> query parameter is answered by both handlers
  with status 400 and a JSON body whose \<open>error\<close> field is \<open>URL parameter is required\<close>,
  whatever its other parameters and headers, the platform, the configuration and the
  upstream are; no upstream fetch is made.
\<close>

theorem missing_url_rejected:
  assumes "req_method req = ''GET''" and "query_url req = None"
  shows "handler P env net req =
           \<lparr>fetched = None,
            result = Responded
              \<lparr>res_status = 400,
               res_headers = [''Access-Control-Allow-Origin'' \<mapsto> ''*''],
               res_body = Json [(''error'', JString ''URL parameter is required''),
                                (''usage'', JString ''/api/proxy?url=<encoded_url>&referer=<optional_referer>'')]\<rparr>\<rparr>
       \<and> handler2 P net req =
           \<lparr>fetched = None,
            result = Responded
              \<lparr>res_status = 400, res_headers = cors_headers2,
               res_body = Json [(''error'', JString ''URL parameter is required'')]\<rparr>\<rparr>"
  using assms by (simp add: handler_def handler2_def no_fetch_def truthy_def)

theorem missing_url_rejected_witness:
  "req_method no_url_request = ''GET'' \<and> query_url no_url_request = None
   \<and> handler sample_platform None unreachable no_url_request =
         \<lparr>fetched = None,
          result = Responded
            \<lparr>res_status = 400,
             res_headers = [''Access-Control-Allow-Origin'' \<mapsto> ''*''],
             res_body = Json [(''error'', JString ''URL parameter is required''),
                              (''usage'', JString ''/api/proxy?url=<encoded_url>&referer=<optional_referer>'')]\<rparr>\<rparr>
   \<and> handler2 sample_platform unreachable no_url_request =
         \<lparr>fetched = None,
          result = Responded
            \<lparr>res_status = 400, res_headers = cors_headers2,
             res_body = Json [(''error'', JString ''URL parameter is required'')]\<rparr>\<rparr>"
proof -
  have m: "req_method no_url_request = ''GET''" and u: "query_url no_url_request = None"
    by (simp_all add: no_url_request_def sample_request_def)
  from missing_url_rejected [OF m u, of sample_platform None unreachable] m u
  show ?thesis by simp
qed

subsection \<open>The sample URLs, decoded\<close>

lemma sample_url_decoded:
  "decodeURIComponent ''https%3A%2F%2Fcdn.example.com%2Fvideos%2Fabc%2Fplaylist.m3u8''
   = Some ''https://cdn.example.com/videos/abc/playlist.m3u8''"
  by code_simp

lemma segment_url_decoded:
  "decodeURIComponent ''https%3A%2F%2Fcdn.example.com%2Fvideos%2Fabc%2Fsegment001.ts''
   = Some ''https://cdn.example.com/videos/abc/segment001.ts''"
  by code_simp

lemma mp4_url_decoded:
  "decodeURIComponent ''https%3A%2F%2Fcdn.example.com%2Fvideos%2Fabc%2Finit.mp4''
   = Some ''https://cdn.example.com/videos/abc/init.mp4''"
  by code_simp

lemma malformed_referer_decoded: "decodeURIComponent ''https://site.example/100%'' = None"
  by code_simp

text \<open>
  C10. A \<open>referer\<close> parameter that does not percent-decode makes the first handler reject
  with an uncaught \<open>URIError\<close>: its \<open>decodeURIComponent(referer)\<close> stands outside every
  \<open>try\<close>, so it builds no response, whereas the same text as \<open>url\<close> is answered with status
  400. The second handler decodes inside its \<open>try\<close> and answers with status 500 and the
  message of the error as JSON.
\<close>

theorem malformed_referer:
  assumes "req_method req = ''GET''"
    and "truthy (query_url req) = Some url"
    and "decodeURIComponent url = Some decodedUrl"
    and "new_URL P decodedUrl None = Some u"
    and "truthy (query_referer req) = Some referer"
    and "decodeURIComponent referer = None"
  shows "handler P env net req = \<lparr>fetched = None, result = Uncaught URIError\<rparr>
       \<and> handler2 P net req =
           \<lparr>fetched = None,
            result = Responded
              \<lparr>res_status = 500, res_headers = cors_headers2,
               res_body = Json [(''error'', JString ''URI malformed'')]\<rparr>\<rparr>
       \<and> handler P env net (req\<lparr>query_url := Some referer\<rparr>) =
           \<lparr>fetched = None,
            result = Responded
              \<lparr>res_status = 400,
               res_headers = [''Access-Control-Allow-Origin'' \<mapsto> ''*''],
               res_body = Json [(''error'', JString ''Invalid URL encoding''),
                                (''message'', JString ''URI malformed'')]\<rparr>\<rparr>"
proof -
  have "truthy (Some referer) = Some referer"
    using assms(5) by (auto simp: truthy_def split: option.splits if_splits)
  with assms show ?thesis
    by (simp add: handler_def handler2_def no_fetch_def request_headers2_def catch_error2_def)
qed

theorem malformed_referer_witness:
  "handler sample_platform None unreachable malformed_referer_request =
     \<lparr>fetched = None, result = Uncaught URIError\<rparr>
   \<and> handler2 sample_platform unreachable malformed_referer_request =
       \<lparr>fetched = None,
        result = Responded
          \<lparr>res_status = 500, res_headers = cors_headers2,
           res_body = Json [(''error'', JString ''URI malformed'')]\<rparr>\<rparr>
   \<and> handler sample_platform None unreachable
         (malformed_referer_request\<lparr>query_url := Some ''https://site.example/100%''\<rparr>) =
       \<lparr>fetched = None,
        result = Responded
          \<lparr>res_status = 400,
           res_headers = [''Access-Control-Allow-Origin'' \<mapsto> ''*''],
           res_body = Json [(''error'', JString ''Invalid URL encoding''),
                            (''message'', JString ''URI malformed'')]\<rparr>\<rparr>"
proof -
  have "req_method malformed_referer_request = ''GET''"
    and "truthy (query_url malformed_referer_request)
         = Some ''https%3A%2F%2Fcdn.example.com%2Fvideos%2Fabc%2Fplaylist.m3u8''"
    and "truthy (query_referer malformed_referer_request) = Some ''https://site.example/100%''"
    and "new_URL sample_platform ''https://cdn.example.com/videos/abc/playlist.m3u8'' None
         = Some \<lparr>href = ''https://cdn.example.com/videos/abc/playlist.m3u8'',
                  origin = ''https://cdn.example.com''\<rparr>"
    by (simp_all add: malformed_referer_request_def sample_request_def truthy_def
        sample_platform_def sample_URL_def)
  from malformed_referer [OF this(1,2) sample_url_decoded this(4,3) malformed_referer_decoded]
  show ?thesis .
qed

subsection \<open>The sample requests reach the upstream\<close>

lemma sample_request_fetched:
  "fetched (handler sample_platform env net sample_request)
   = Some (config_for sample_request ''https://cdn.example.com/videos/abc/playlist.m3u8'')"
  by (simp add: handler_def sample_request_def truthy_def sample_url_decoded sample_platform_def
      sample_URL_def config_for_def Let_def del: decodeURIComponent.simps)

lemma sample_request_fetched2:
  "fetched (handler2 P net sample_request)
   = Some (config2_for ''https://cdn.example.com/videos/abc/playlist.m3u8'')"
  by (simp add: handler2_def sample_request_def truthy_def sample_url_decoded
      request_headers2_def forward_def config2_for_def Let_def del: decodeURIComponent.simps)

lemma segment_request_fetched2:
  "fetched (handler2 P net segment_request)
   = Some (config2_for ''https://cdn.example.com/videos/abc/segment001.ts'')"
  by (simp add: handler2_def segment_request_def sample_request_def truthy_def segment_url_decoded
      request_headers2_def forward_def config2_for_def Let_def del: decodeURIComponent.simps)

lemma mp4_request_fetched2:
  "fetched (handler2 P net mp4_request)
   = Some (config2_for ''https://cdn.example.com/videos/abc/init.mp4'')"
  by (simp add: handler2_def mp4_request_def sample_request_def truthy_def mp4_url_decoded
      request_headers2_def forward_def config2_for_def Let_def del: decodeURIComponent.simps)

text \<open>
  C7 (as amended). When the fetch exceeds the timeout of 30000 ms that both handlers
  configure, which axios reports by rejecting with the code \<open>ECONNABORTED\<close>, the first handler
  answers with status 504 and a JSON body whose \<open>error\<close> is \<open>Gateway timeout\<close>; the second
  handler has no case for timeouts and answers with status 500 and a JSON body whose \<open>error\<close>
  is the message of the rejection.
\<close>

theorem timeout_responses:
  assumes "net config = Failed (Some ''ECONNABORTED'') m"
  shows "(fetched (handler P env net req) = Some config \<longrightarrow>
            ax_timeout config = 30000
            \<and> result (handler P env net req) = Responded
                 \<lparr>res_status = 504,
                  res_headers = [''Access-Control-Allow-Origin'' \<mapsto> ''*''],
                  res_body = Json [(''error'', JString ''Gateway timeout''),
                                   (''message'', JString ''Request to upstream timed out''),
                                   (''url'', JString (ax_url config))]\<rparr>)
       \<and> (fetched (handler2 P net req) = Some config \<longrightarrow>
            ax_timeout config = 30000
            \<and> result (handler2 P net req) = Responded
                 \<lparr>res_status = 500, res_headers = cors_headers2,
                  res_body = Json [(''error'', JString m)]\<rparr>)"
proof -
  have rejected: "axios net config
      = Inl (AxiosError \<lparr>err_code = Some ''ECONNABORTED'', err_message = m, err_response = None\<rparr>)"
    using assms by (simp add: axios_def)
  show ?thesis
  proof (intro conjI impI)
    assume "fetched (handler P env net req) = Some config"
    from handler_fetched [OF this] rejected
    show "ax_timeout config = 30000"
      and "result (handler P env net req) = Responded
             \<lparr>res_status = 504,
              res_headers = [''Access-Control-Allow-Origin'' \<mapsto> ''*''],
              res_body = Json [(''error'', JString ''Gateway timeout''),
                               (''message'', JString ''Request to upstream timed out''),
                               (''url'', JString (ax_url config))]\<rparr>"
      by (auto simp: catch_error_def)
  next
    assume "fetched (handler2 P net req) = Some config"
    from handler2_fetched [OF this] rejected
    show "ax_timeout config = 30000"
      and "result (handler2 P net req) = Responded
             \<lparr>res_status = 500, res_headers = cors_headers2,
              res_body = Json [(''error'', JString m)]\<rparr>"
      by (auto simp: catch_error2_def)
  qed
qed

lemma timeout_message:
  "timed_out (config_for req u) = Failed (Some ''ECONNABORTED'') ''timeout of 30000ms exceeded''"
  "timed_out (config2_for u) = Failed (Some ''ECONNABORTED'') ''timeout of 30000ms exceeded''"
  by (simp_all add: timed_out_def config_for_def config2_for_def show_nat.simps)

theorem timeout_responses_witness:
  "timed_out (config_for sample_request ''https://cdn.example.com/videos/abc/playlist.m3u8'')
     = Failed (Some ''ECONNABORTED'') ''timeout of 30000ms exceeded''
   \<and> fetched (handler sample_platform None timed_out sample_request)
     = Some (config_for sample_request ''https://cdn.example.com/videos/abc/playlist.m3u8'')
   \<and> result (handler sample_platform None timed_out sample_request) = Responded
         \<lparr>res_status = 504,
          res_headers = [''Access-Control-Allow-Origin'' \<mapsto> ''*''],
          res_body = Json [(''error'', JString ''Gateway timeout''),
                           (''message'', JString ''Request to upstream timed out''),
                           (''url'', JString ''https://cdn.example.com/videos/abc/playlist.m3u8'')]\<rparr>
   \<and> timed_out (config2_for ''https://cdn.example.com/videos/abc/playlist.m3u8'')
     = Failed (Some ''ECONNABORTED'') ''timeout of 30000ms exceeded''
   \<and> fetched (handler2 sample_platform timed_out sample_request)
     = Some (config2_for ''https://cdn.example.com/videos/abc/playlist.m3u8'')
   \<and> result (handler2 sample_platform timed_out sample_request) = Responded
         \<lparr>res_status = 500, res_headers = cors_headers2,
          res_body = Json [(''error'', JString ''timeout of 30000ms exceeded'')]\<rparr>"
proof -
  let ?u = "''https://cdn.example.com/videos/abc/playlist.m3u8''"
  note first = timeout_responses [where net = timed_out and config = "config_for sample_request ?u"
      and P = sample_platform and env = None and req = sample_request, OF timeout_message(1)]
  note second = timeout_responses [where net = timed_out and config = "config2_for ?u"
      and P = sample_platform and env = None and req = sample_request, OF timeout_message(2)]
  from first sample_request_fetched [of None timed_out]
  have "result (handler sample_platform None timed_out sample_request) = Responded
         \<lparr>res_status = 504,
          res_headers = [''Access-Control-Allow-Origin'' \<mapsto> ''*''],
          res_body = Json [(''error'', JString ''Gateway timeout''),
                           (''message'', JString ''Request to upstream timed out''),
                           (''url'', JString ?u)]\<rparr>"
    by (simp add: config_for_def)
  moreover from second sample_request_fetched2 [of sample_platform timed_out]
  have "result (handler2 sample_platform timed_out sample_request) = Responded
         \<lparr>res_status = 500, res_headers = cors_headers2,
          res_body = Json [(''error'', JString ''timeout of 30000ms exceeded'')]\<rparr>"
    by simp
  ultimately show ?thesis
    using sample_request_fetched [of None timed_out]
      sample_request_fetched2 [of sample_platform timed_out] timeout_message
    by simp
qed

text \<open>The claim as it stands fails on the second handler: a timeout is answered with 500.\<close>

theorem timeout_counterexample:
  "fetched (handler2 sample_platform timed_out sample_request)
     = Some (config2_for ''https://cdn.example.com/videos/abc/playlist.m3u8'')
   \<and> timed_out (config2_for ''https://cdn.example.com/videos/abc/playlist.m3u8'')
     = Failed (Some ''ECONNABORTED'') ''timeout of 30000ms exceeded''
   \<and> reply (handler2 sample_platform timed_out sample_request)
     = Some (500, Json [(''error'', JString ''timeout of 30000ms exceeded'')])"
proof -
  have "result (handler2 sample_platform timed_out sample_request) = Responded
          \<lparr>res_status = 500, res_headers = cors_headers2,
           res_body = Json [(''error'', JString ''timeout of 30000ms exceeded'')]\<rparr>"
    using handler2_fetched [OF sample_request_fetched2, of sample_platform timed_out]
    by (auto simp: axios_def timeout_message catch_error2_def)
  then show ?thesis
    by (simp add: reply_def sample_request_fetched2 timeout_message)
qed

text \<open>
  C5 (as amended). An upstream response with a status from 400 to 499 is not an exception
  for either handler, and neither answers with 500: both answer with the upstream status.
  The first handler answers with a JSON body holding \<open>Upstream error\<close>, the status, the
  status text and the target URL. The second handler has no case for such a status: it
  relays the upstream body (rewritten when it takes it for a playlist) under the upstream
  status, not a JSON error.
\<close>

theorem upstream_client_error:
  assumes "net config = Received r" and "400 \<le> status r" and "status r \<le> 499"
  shows "(fetched (handler P env net req) = Some config \<longrightarrow>
            result (handler P env net req) = Responded
              \<lparr>res_status = status r,
               res_headers = [''Access-Control-Allow-Origin'' \<mapsto> ''*''],
               res_body = Json [(''error'', JString ''Upstream error''),
                                (''status'', JNumber (status r)),
                                (''statusText'', JString (statusText r)),
                                (''url'', JString (ax_url config))]\<rparr>)
       \<and> (fetched (handler2 P net req) = Some config \<longrightarrow>
            reply (handler2 P net req) =
              Some (status r,
                    Send (if js_includes (or_else (resp_headers r ''content-type'')
                                            ''application/vnd.apple.mpegurl'') ''mpegurl''
                             \<or> endsWith (ax_url config) ''.m3u8''
                          then rewrite_playlist2 (upto_last_slash (ax_url config))
                                 (forwarded_base (req_headers req)) (query_referer req)
                                 (toString_utf8 P (resp_data r))
                          else resp_data r)))"
proof -
  have resolved: "axios net config = Inr r"
    using assms by (simp add: axios_def validateStatus_def)
  show ?thesis
  proof (intro conjI impI)
    assume "fetched (handler P env net req) = Some config"
    from handler_fetched [OF this] resolved assms(2)
    show "result (handler P env net req) = Responded
              \<lparr>res_status = status r,
               res_headers = [''Access-Control-Allow-Origin'' \<mapsto> ''*''],
               res_body = Json [(''error'', JString ''Upstream error''),
                                (''status'', JNumber (status r)),
                                (''statusText'', JString (statusText r)),
                                (''url'', JString (ax_url config))]\<rparr>"
      by (auto simp: relay_def)
  next
    assume "fetched (handler2 P net req) = Some config"
    from handler2_fetched [OF this] resolved
    show "reply (handler2 P net req) =
              Some (status r,
                    Send (if js_includes (or_else (resp_headers r ''content-type'')
                                            ''application/vnd.apple.mpegurl'') ''mpegurl''
                             \<or> endsWith (ax_url config) ''.m3u8''
                          then rewrite_playlist2 (upto_last_slash (ax_url config))
                                 (forwarded_base (req_headers req)) (query_referer req)
                                 (toString_utf8 P (resp_data r))
                          else resp_data r))"
      by (auto simp: reply_def relay2_def Let_def)
  qed
qed

lemma forbidden_not_playlist:
  "\<not> js_includes (or_else (Some ''text/html'') ''application/vnd.apple.mpegurl'') ''mpegurl''"
  "\<not> endsWith ''https://cdn.example.com/videos/abc/segment001.ts'' ''.m3u8''"
  by (simp_all add: or_else_def truthy_def endsWith_def)

theorem upstream_client_error_witness:
  "forbidden (config_for sample_request ''https://cdn.example.com/videos/abc/playlist.m3u8'')
     = Received \<lparr>status = 403, statusText = ''Forbidden'',
                  resp_headers = [''content-type'' \<mapsto> ''text/html''],
                  resp_data = ''<h1>403 Forbidden</h1>''\<rparr>
   \<and> fetched (handler sample_platform None forbidden sample_request)
     = Some (config_for sample_request ''https://cdn.example.com/videos/abc/playlist.m3u8'')
   \<and> result (handler sample_platform None forbidden sample_request) = Responded
         \<lparr>res_status = 403,
          res_headers = [''Access-Control-Allow-Origin'' \<mapsto> ''*''],
          res_body = Json [(''error'', JString ''Upstream error''),
                           (''status'', JNumber 403),
                           (''statusText'', JString ''Forbidden''),
                           (''url'', JString ''https://cdn.example.com/videos/abc/playlist.m3u8'')]\<rparr>
   \<and> fetched (handler2 sample_platform forbidden segment_request)
     = Some (config2_for ''https://cdn.example.com/videos/abc/segment001.ts'')
   \<and> reply (handler2 sample_platform forbidden segment_request)
     = Some (403, Send ''<h1>403 Forbidden</h1>'')"
proof -
  let ?r = "\<lparr>status = 403, statusText = ''Forbidden'',
             resp_headers = [''content-type'' \<mapsto> ''text/html''],
             resp_data = ''<h1>403 Forbidden</h1>''\<rparr>"
  have f: "forbidden c = Received ?r" for c
    by (simp add: forbidden_def)
  have s: "400 \<le> status ?r" "status ?r \<le> 499"
    by simp_all
  note first = upstream_client_error [where net = forbidden and r = ?r
      and config = "config_for sample_request ''https://cdn.example.com/videos/abc/playlist.m3u8''"
      and P = sample_platform and env = None and req = sample_request, OF f s]
  note second = upstream_client_error [where net = forbidden and r = ?r
      and config = "config2_for ''https://cdn.example.com/videos/abc/segment001.ts''"
      and P = sample_platform and env = None and req = segment_request, OF f s]
  from first sample_request_fetched [of None forbidden]
  have "result (handler sample_platform None forbidden sample_request) = Responded
         \<lparr>res_status = 403,
          res_headers = [''Access-Control-Allow-Origin'' \<mapsto> ''*''],
          res_body = Json [(''error'', JString ''Upstream error''),
                           (''status'', JNumber 403),
                           (''statusText'', JString ''Forbidden''),
                           (''url'', JString ''https://cdn.example.com/videos/abc/playlist.m3u8'')]\<rparr>"
    by (simp add: config_for_def)
  moreover from second segment_request_fetched2 [of sample_platform forbidden]
  have "reply (handler2 sample_platform forbidden segment_request)
     = Some (403, Send ''<h1>403 Forbidden</h1>'')"
    using forbidden_not_playlist by (simp add: config2_for_def)
  ultimately show ?thesis
    using sample_request_fetched [of None forbidden]
      segment_request_fetched2 [of sample_platform forbidden] f
    by simp
qed

text \<open>
  The claim as it stands fails on the second handler: the 403 of the upstream is relayed
  with the upstream's HTML body, not as a JSON error body.
\<close>

theorem upstream_client_error_counterexample:
  "fetched (handler2 sample_platform forbidden segment_request)
     = Some (config2_for ''https://cdn.example.com/videos/abc/segment001.ts'')
   \<and> forbidden (config2_for ''https://cdn.example.com/videos/abc/segment001.ts'')
     = Received \<lparr>status = 403, statusText = ''Forbidden'',
                  resp_headers = [''content-type'' \<mapsto> ''text/html''],
                  resp_data = ''<h1>403 Forbidden</h1>''\<rparr>
   \<and> reply (handler2 sample_platform forbidden segment_request)
     = Some (403, Send ''<h1>403 Forbidden</h1>'')"
proof -
  have "result (handler2 sample_platform forbidden segment_request) = Responded
          (relay2 sample_platform segment_request ''https://cdn.example.com/videos/abc/segment001.ts''
             \<lparr>status = 403, statusText = ''Forbidden'',
              resp_headers = [''content-type'' \<mapsto> ''text/html''],
              resp_data = ''<h1>403 Forbidden</h1>''\<rparr>)"
    using handler2_fetched [OF segment_request_fetched2, of sample_platform forbidden]
    by (auto simp: axios_def forbidden_def validateStatus_def config2_for_def)
  then show ?thesis
    using forbidden_not_playlist
    by (simp add: reply_def relay2_def Let_def segment_request_fetched2 forbidden_def)
qed

subsection \<open>The cache headers of a relayed response\<close>

lemma relay_headers_cache:
  "relay_headers r u ''Cache-Control'' = Some (spec_cache_control u)"
  by (simp add: relay_headers_def cache_headers_def spec_cache_control_def forward_def Let_def
      split: option.splits)

lemma relay_headers2_cache:
  "relay_headers2 r u ''Cache-Control'' =
     (if endsWith u ''.ts'' \<or> endsWith u ''.m4s'' then Some ''public, max-age=31536000, immutable''
      else if endsWith u ''.m3u8'' then Some ''no-cache''
      else None)"
  by (simp add: relay_headers2_def cache_headers2_def cors_headers2_def forward_def Let_def
      split: option.splits)

text \<open>
  C8 (as amended). For an upstream response with a status below 400, the first handler
  sets \<open>Cache-Control\<close> by the suffix of the decoded target URL as the specification says:
  the immutable policy for \<open>.ts\<close>, \<open>.m4s\<close> and \<open>.mp4\<close>, the no-cache policy for \<open>.m3u8\<close> and
  \<open>.mpd\<close>, \<open>public, max-age=3600\<close> otherwise. The second handler sets the immutable policy
  for \<open>.ts\<close> and \<open>.m4s\<close> only, \<open>no-cache\<close> for \<open>.m3u8\<close>, and no \<open>Cache-Control\<close> header at all
  for any other suffix.
\<close>

theorem cache_control_by_suffix:
  assumes "net config = Received r" and "status r < 400"
  shows "(fetched (handler P env net req) = Some config \<longrightarrow>
            reply_header (handler P env net req) ''Cache-Control''
              = Some (spec_cache_control (ax_url config)))
       \<and> (fetched (handler2 P net req) = Some config \<longrightarrow>
            reply_header (handler2 P net req) ''Cache-Control''
              = (if endsWith (ax_url config) ''.ts'' \<or> endsWith (ax_url config) ''.m4s''
                 then Some ''public, max-age=31536000, immutable''
                 else if endsWith (ax_url config) ''.m3u8'' then Some ''no-cache''
                 else None))"
proof -
  have resolved: "axios net config = Inr r"
    using assms by (simp add: axios_def validateStatus_def)
  show ?thesis
  proof (intro conjI impI)
    assume "fetched (handler P env net req) = Some config"
    from handler_fetched [OF this] resolved obtain d where
      res: "result (handler P env net req) = Responded
              (case relay P env req (ax_url config) d r of
                 Inl (error, hs) \<Rightarrow> catch_error error (ax_url config) hs
               | Inr res \<Rightarrow> res)"
      by auto
    have "relay P env req (ax_url config) d r = Inl (TypeError, relay_headers r (ax_url config))
        \<or> (\<exists>b. relay P env req (ax_url config) d r
              = Inr \<lparr>res_status = status r, res_headers = relay_headers r (ax_url config),
                     res_body = b\<rparr>)"
      using assms(2) by (auto simp: relay_def Let_def split: option.splits)
    then show "reply_header (handler P env net req) ''Cache-Control''
        = Some (spec_cache_control (ax_url config))"
      unfolding reply_header_def res
      by (auto simp: catch_error_def relay_headers_cache)
  next
    assume "fetched (handler2 P net req) = Some config"
    from handler2_fetched [OF this] resolved
    have "result (handler2 P net req) = Responded (relay2 P req (ax_url config) r)"
      by auto
    moreover have "res_headers (relay2 P req (ax_url config) r) = relay_headers2 r (ax_url config)"
      by (simp add: relay2_def Let_def)
    ultimately show "reply_header (handler2 P net req) ''Cache-Control''
              = (if endsWith (ax_url config) ''.ts'' \<or> endsWith (ax_url config) ''.m4s''
                 then Some ''public, max-age=31536000, immutable''
                 else if endsWith (ax_url config) ''.m3u8'' then Some ''no-cache''
                 else None)"
      by (simp add: reply_header_def relay_headers2_cache)
  qed
qed

lemma sample_suffixes:
  "spec_cache_control ''https://cdn.example.com/videos/abc/playlist.m3u8''
     = ''no-cache, no-store, must-revalidate''"
  "spec_cache_control ''https://cdn.example.com/videos/abc/init.mp4''
     = ''public, max-age=31536000, immutable''"
  "\<not> endsWith ''https://cdn.example.com/videos/abc/init.mp4'' ''.ts''"
  "\<not> endsWith ''https://cdn.example.com/videos/abc/init.mp4'' ''.m4s''"
  "\<not> endsWith ''https://cdn.example.com/videos/abc/init.mp4'' ''.m3u8''"
  "endsWith ''https://cdn.example.com/videos/abc/segment001.ts'' ''.ts''"
  by (simp_all add: spec_cache_control_def endsWith_def)

theorem cache_control_by_suffix_witness:
  "serves ''application/vnd.apple.mpegurl'' ''#EXTM3U''
       (config_for sample_request ''https://cdn.example.com/videos/abc/playlist.m3u8'')
     = Received \<lparr>status = 200, statusText = ''OK'',
                  resp_headers = [''content-type'' \<mapsto> ''application/vnd.apple.mpegurl''],
                  resp_data = ''#EXTM3U''\<rparr>
   \<and> fetched (handler sample_platform None (serves ''application/vnd.apple.mpegurl'' ''#EXTM3U'')
                sample_request)
     = Some (config_for sample_request ''https://cdn.example.com/videos/abc/playlist.m3u8'')
   \<and> reply_header (handler sample_platform None (serves ''application/vnd.apple.mpegurl'' ''#EXTM3U'')
                     sample_request) ''Cache-Control''
     = Some ''no-cache, no-store, must-revalidate''
   \<and> fetched (handler2 sample_platform (serves ''video/mp2t'' ''G@'') segment_request)
     = Some (config2_for ''https://cdn.example.com/videos/abc/segment001.ts'')
   \<and> reply_header (handler2 sample_platform (serves ''video/mp2t'' ''G@'') segment_request)
         ''Cache-Control''
     = Some ''public, max-age=31536000, immutable''"
proof -
  have s: "serves t b c = Received \<lparr>status = 200, statusText = ''OK'',
             resp_headers = [''content-type'' \<mapsto> t], resp_data = b\<rparr>" for t b c
    by (simp add: serves_def)
  have ok: "status \<lparr>status = 200, statusText = ''OK'',
             resp_headers = [''content-type'' \<mapsto> t], resp_data = b\<rparr> < 400" for t b
    by simp
  note first = cache_control_by_suffix [where net = "serves ''application/vnd.apple.mpegurl'' ''#EXTM3U''"
      and config = "config_for sample_request ''https://cdn.example.com/videos/abc/playlist.m3u8''"
      and P = sample_platform and env = None and req = sample_request, OF s ok]
  note second = cache_control_by_suffix [where net = "serves ''video/mp2t'' ''G@''"
      and config = "config2_for ''https://cdn.example.com/videos/abc/segment001.ts''"
      and P = sample_platform and env = None and req = segment_request, OF s ok]
  from first sample_request_fetched
  have "reply_header (handler sample_platform None (serves ''application/vnd.apple.mpegurl'' ''#EXTM3U'')
                     sample_request) ''Cache-Control''
     = Some ''no-cache, no-store, must-revalidate''"
    by (simp add: config_for_def sample_suffixes)
  moreover from second segment_request_fetched2
  have "reply_header (handler2 sample_platform (serves ''video/mp2t'' ''G@'') segment_request)
         ''Cache-Control''
     = Some ''public, max-age=31536000, immutable''"
    by (simp add: config2_for_def sample_suffixes)
  ultimately show ?thesis
    using sample_request_fetched segment_request_fetched2 s by simp
qed

text \<open>
  The claim as it stands fails on the second handler: the response for a \<open>.mp4\<close> URL carries
  no \<open>Cache-Control\<close> header, where the claim asks for the immutable policy.
\<close>

theorem cache_control_counterexample:
  "fetched (handler2 sample_platform (serves ''video/mp4'' ''ftyp'') mp4_request)
     = Some (config2_for ''https://cdn.example.com/videos/abc/init.mp4'')
   \<and> spec_cache_control ''https://cdn.example.com/videos/abc/init.mp4''
     = ''public, max-age=31536000, immutable''
   \<and> reply (handler2 sample_platform (serves ''video/mp4'' ''ftyp'') mp4_request)
     = Some (200, Send ''ftyp'')
   \<and> reply_header (handler2 sample_platform (serves ''video/mp4'' ''ftyp'') mp4_request)
         ''Cache-Control'' = None"
proof -
  let ?r = "\<lparr>status = 200, statusText = ''OK'',
             resp_headers = [''content-type'' \<mapsto> ''video/mp4''], resp_data = ''ftyp''\<rparr>"
  let ?u = "''https://cdn.example.com/videos/abc/init.mp4''"
  have res: "result (handler2 sample_platform (serves ''video/mp4'' ''ftyp'') mp4_request)
      = Responded (relay2 sample_platform mp4_request ?u ?r)"
    using handler2_fetched [OF mp4_request_fetched2, of sample_platform "serves ''video/mp4'' ''ftyp''"]
    by (auto simp: axios_def serves_def validateStatus_def config2_for_def)
  have "\<not> js_includes (or_else (Some ''video/mp4'') ''application/vnd.apple.mpegurl'') ''mpegurl''"
    by (simp add: or_else_def truthy_def)
  then have "relay2 sample_platform mp4_request ?u ?r
      = \<lparr>res_status = 200, res_headers = relay_headers2 ?r ?u, res_body = Send ''ftyp''\<rparr>"
    by (simp add: relay2_def Let_def sample_suffixes)
  with res show ?thesis
    by (simp add: reply_def reply_header_def relay_headers2_cache sample_suffixes mp4_request_fetched2)
qed

subsection \<open>The playlist branch\<close>

lemma request_headers_referer: "request_headers req d ''Referer'' = Some d"
  by (simp add: request_headers_def forward_def Let_def split: option.splits)

lemma handler_playlist:
  assumes "fetched (handler P env net req) = Some config"
    and "net config = Received r" and "status r < 400"
    and "isM3U8 (or_else (resp_headers r ''content-type'') ''application/octet-stream'') (ax_url config)"
  shows "\<exists>d. sent_referer (handler P env net req) = Some d
           \<and> (case truthy (query_referer req) of
                 None \<Rightarrow> Some ''https://megacloud.tv''
               | Some referer \<Rightarrow> decodeURIComponent referer) = Some d
           \<and> result (handler P env net req) = Responded
               (case rewrite_playlist P (upto_last_slash (ax_url config)) (getProxyBaseUrl env req)
                       (encodeURIComponent d) (toString_utf8 P (resp_data r)) of
                  None \<Rightarrow> catch_error TypeError (ax_url config) (relay_headers r (ax_url config))
                | Some newContent \<Rightarrow>
                    \<lparr>res_status = status r, res_headers = relay_headers r (ax_url config),
                     res_body = Send newContent\<rparr>)"
proof -
  have resolved: "axios net config = Inr r"
    using assms(2,3) by (simp add: axios_def validateStatus_def)
  from handler_fetched [OF assms(1)] obtain d where
    d: "(case truthy (query_referer req) of
           None \<Rightarrow> Some ''https://megacloud.tv''
         | Some referer \<Rightarrow> decodeURIComponent referer) = Some d"
    and h: "ax_headers config = request_headers req d"
    and res: "result (handler P env net req) = Responded
                (case axios net config of
                   Inl error \<Rightarrow> catch_error error (ax_url config) Map.empty
                 | Inr response \<Rightarrow>
                     (case relay P env req (ax_url config) d response of
                        Inl (error, hs) \<Rightarrow> catch_error error (ax_url config) hs
                      | Inr res \<Rightarrow> res))"
    by blast
  have "sent_referer (handler P env net req) = Some d"
    using assms(1) h by (simp add: sent_referer_def request_headers_referer)
  moreover have "result (handler P env net req) = Responded
               (case rewrite_playlist P (upto_last_slash (ax_url config)) (getProxyBaseUrl env req)
                       (encodeURIComponent d) (toString_utf8 P (resp_data r)) of
                  None \<Rightarrow> catch_error TypeError (ax_url config) (relay_headers r (ax_url config))
                | Some newContent \<Rightarrow>
                    \<lparr>res_status = status r, res_headers = relay_headers r (ax_url config),
                     res_body = Send newContent\<rparr>)"
    unfolding res resolved using assms(3,4)
    by (simp add: relay_def Let_def split: option.splits)
  ultimately show ?thesis
    using d by blast
qed

lemma handler2_playlist:
  assumes "fetched (handler2 P net req) = Some config"
    and "net config = Received r" and "status r < 500"
    and "js_includes (or_else (resp_headers r ''content-type'') ''application/vnd.apple.mpegurl'') ''mpegurl''
         \<or> endsWith (ax_url config) ''.m3u8''"
  shows "sent_referer (handler2 P net req)
           = (case truthy (query_referer req) of
                None \<Rightarrow> Some ''https://megacloud.tv''
              | Some referer \<Rightarrow> decodeURIComponent referer)
       \<and> result (handler2 P net req) = Responded
            \<lparr>res_status = status r, res_headers = relay_headers2 r (ax_url config),
             res_body = Send (rewrite_playlist2 (upto_last_slash (ax_url config))
                                (forwarded_base (req_headers req)) (query_referer req)
                                (toString_utf8 P (resp_data r)))\<rparr>"
proof -
  have resolved: "axios net config = Inr r"
    using assms(2,3) by (simp add: axios_def validateStatus_def)
  from handler2_fetched [OF assms(1)] obtain hs where
    hs: "request_headers2 P req = Inr hs" and h: "ax_headers config = hs"
    and res: "result (handler2 P net req) = Responded
                (case axios net config of
                   Inl error \<Rightarrow> catch_error2 error cors_headers2
                 | Inr response \<Rightarrow> relay2 P req (ax_url config) response)"
    by blast
  have "hs ''Referer'' = (case truthy (query_referer req) of
                None \<Rightarrow> Some ''https://megacloud.tv''
              | Some referer \<Rightarrow> decodeURIComponent referer)"
    using hs by (auto simp: request_headers2_def forward_def split: option.splits)
  then have "sent_referer (handler2 P net req)
           = (case truthy (query_referer req) of
                None \<Rightarrow> Some ''https://megacloud.tv''
              | Some referer \<Rightarrow> decodeURIComponent referer)"
    using assms(1) h by (simp add: sent_referer_def)
  moreover have "result (handler2 P net req) = Responded
            \<lparr>res_status = status r, res_headers = relay_headers2 r (ax_url config),
             res_body = Send (rewrite_playlist2 (upto_last_slash (ax_url config))
                                (forwarded_base (req_headers req)) (query_referer req)
                                (toString_utf8 P (resp_data r)))\<rparr>"
    unfolding res resolved using assms(4)
    by (auto simp: relay2_def Let_def)
  ultimately show ?thesis by blast
qed

lemma those_None: "None \<in> set xs \<Longrightarrow> those xs = None"
  by (induction xs) (auto split: option.splits)

lemma those_Some_nth:
  "those xs = Some ys \<Longrightarrow> length ys = length xs \<and> (\<forall>i<length xs. xs ! i = Some (ys ! i))"
proof (induction xs arbitrary: ys)
  case Nil
  then show ?case by simp
next
  case (Cons x xs)
  then show ?case
    by (auto split: option.splits simp: nth_Cons split: nat.splits)
qed

lemma find_uri_attr_sound:
  "find_uri_attr tag = Some (before, uri, after) \<Longrightarrow>
     tag = before @ ''URI=\"'' @ uri @ ''\"'' @ after \<and> uri \<noteq> [] \<and> CHR 0x22 \<notin> set uri"
proof (induction tag arbitrary: before)
  case Nil
  then show ?case by simp
next
  case (Cons c cs)
  show ?case
  proof (cases "match_uri_attr (c # cs)")
    case None
    with Cons.prems obtain b where "find_uri_attr cs = Some (b, uri, after)" and "before = c # b"
      by (auto split: option.splits)
    with Cons.IH show ?thesis by auto
  next
    case (Some m)
    with Cons.prems have m: "match_uri_attr (c # cs) = Some (uri, after)" and b: "before = []"
      by (auto split: option.splits)
    let ?t = "drop 5 (c # cs)"
    from m have p: "prefix ''URI=\"'' (c # cs)"
      and uri: "uri = takeWhile (\<lambda>c. c \<noteq> CHR 0x22) ?t"
      and r: "dropWhile (\<lambda>c. c \<noteq> CHR 0x22) ?t \<noteq> []"
      and after: "after = tl (dropWhile (\<lambda>c. c \<noteq> CHR 0x22) ?t)" and ne: "uri \<noteq> []"
      by (auto simp: match_uri_attr_def Let_def split: if_splits)
    from r have "hd (dropWhile (\<lambda>c. c \<noteq> CHR 0x22) ?t) = CHR 0x22"
      using hd_dropWhile [of "\<lambda>c. c \<noteq> CHR 0x22" ?t] by auto
    with r after have "dropWhile (\<lambda>c. c \<noteq> CHR 0x22) ?t = CHR 0x22 # after"
      by (cases "dropWhile (\<lambda>c. c \<noteq> CHR 0x22) ?t") auto
    then have "?t = uri @ CHR 0x22 # after"
      using takeWhile_dropWhile_id [of "\<lambda>c. c \<noteq> CHR 0x22" ?t] uri by simp
    moreover from p have "c # cs = ''URI=\"'' @ ?t"
      by (auto simp: prefix_def)
    moreover have "CHR 0x22 \<notin> set uri"
      unfolding uri by (auto dest: set_takeWhileD)
    ultimately show ?thesis
      using b ne by simp
  qed
qed

text \<open>
  C1. The claim asks that a reference whose resolution throws be left as it is and the
  playlist still be answered. \<open>rewriteUriInTag\<close> does so for \<open>URI="..."\<close> attributes, with a
  \<open>try\<close> around \<open>new URL\<close>. The callback of \<open>lines.map\<close> in the first handler calls \<open>new URL\<close>
  on a relative reference line with no \<open>try\<close> of its own: the \<open>TypeError\<close> leaves the \<open>map\<close>,
  reaches the \<open>catch\<close> of the handler, and the whole response is a 500
  \<open>Internal proxy error\<close>, whatever the other lines are.
\<close>

theorem unresolvable_reference_aborts:
  assumes "fetched (handler P env net req) = Some config"
    and "net config = Received r" and "status r < 400"
    and "isM3U8 (or_else (resp_headers r ''content-type'') ''application/octet-stream'') (ax_url config)"
    and "line \<in> set (split_lines (toString_utf8 P (resp_data r)))"
    and "is_relative line"
    and "new_URL P (trim line) (Some (upto_last_slash (ax_url config))) = None"
  shows "reply (handler P env net req) =
           Some (500, Json [(''error'', JString ''Internal proxy error''),
                            (''message'', JString ''Invalid URL''),
                            (''url'', JString (ax_url config))])"
proof -
  from handler_playlist [OF assms(1-4)] obtain d where
    res: "result (handler P env net req) = Responded
            (case rewrite_playlist P (upto_last_slash (ax_url config)) (getProxyBaseUrl env req)
                    (encodeURIComponent d) (toString_utf8 P (resp_data r)) of
               None \<Rightarrow> catch_error TypeError (ax_url config) (relay_headers r (ax_url config))
             | Some newContent \<Rightarrow>
                 \<lparr>res_status = status r, res_headers = relay_headers r (ax_url config),
                  res_body = Send newContent\<rparr>)"
    by blast
  have "rewrite_line P (upto_last_slash (ax_url config)) (getProxyBaseUrl env req)
          (encodeURIComponent d) line = None"
    using assms(6,7)
    by (auto simp: rewrite_line_def is_relative_def is_reference_def Let_def split: if_splits)
  with assms(5) have "None \<in> set (map (rewrite_line P (upto_last_slash (ax_url config))
        (getProxyBaseUrl env req) (encodeURIComponent d)) (split_lines (toString_utf8 P (resp_data r))))"
    by force
  then have "rewrite_playlist P (upto_last_slash (ax_url config)) (getProxyBaseUrl env req)
               (encodeURIComponent d) (toString_utf8 P (resp_data r)) = None"
    by (simp add: rewrite_playlist_def those_None)
  with res show ?thesis
    by (simp add: reply_def catch_error_def)
qed

lemma sample_playlist_content_type:
  "isM3U8 (or_else (Some ''application/vnd.apple.mpegurl'') ''application/octet-stream'') u"
  by (simp add: isM3U8_def or_else_def truthy_def)

lemma sample_base: "upto_last_slash ''https://cdn.example.com/videos/abc/playlist.m3u8''
    = ''https://cdn.example.com/videos/abc/''"
  by (simp add: upto_last_slash_def)

theorem unresolvable_reference_aborts_witness:
  "fetched (handler sample_platform None
              (serves ''application/vnd.apple.mpegurl'' ''#EXTM3U\<newline>//\<newline>segment001.ts'')
              sample_request)
     = Some (config_for sample_request ''https://cdn.example.com/videos/abc/playlist.m3u8'')
   \<and> ''//'' \<in> set (split_lines ''#EXTM3U\<newline>//\<newline>segment001.ts'')
   \<and> is_relative ''//''
   \<and> new_URL sample_platform (trim ''//'') (Some ''https://cdn.example.com/videos/abc/'') = None
   \<and> reply (handler sample_platform None
               (serves ''application/vnd.apple.mpegurl'' ''#EXTM3U\<newline>//\<newline>segment001.ts'')
               sample_request)
     = Some (500, Json [(''error'', JString ''Internal proxy error''),
                        (''message'', JString ''Invalid URL''),
                        (''url'', JString ''https://cdn.example.com/videos/abc/playlist.m3u8'')])"
proof -
  let ?body = "''#EXTM3U\<newline>//\<newline>segment001.ts''"
  let ?net = "serves ''application/vnd.apple.mpegurl'' ?body"
  let ?u = "''https://cdn.example.com/videos/abc/playlist.m3u8''"
  let ?r = "\<lparr>status = 200, statusText = ''OK'',
             resp_headers = [''content-type'' \<mapsto> ''application/vnd.apple.mpegurl''],
             resp_data = ?body\<rparr>"
  have f: "fetched (handler sample_platform None ?net sample_request)
      = Some (config_for sample_request ?u)"
    by (rule sample_request_fetched)
  have n: "?net (config_for sample_request ?u) = Received ?r"
    by (simp add: serves_def)
  have s: "status ?r < 400"
    by simp
  have m: "isM3U8 (or_else (resp_headers ?r ''content-type'') ''application/octet-stream'')
             (ax_url (config_for sample_request ?u))"
    by (simp add: sample_playlist_content_type)
  have l: "''//'' \<in> set (split_lines (toString_utf8 sample_platform (resp_data ?r)))"
    by (simp add: sample_platform_def)
  have t: "trim ''//'' = ''//''"
    by code_simp
  have rel: "is_relative ''//''"
    by (simp add: is_relative_def is_reference_def t startsWith_def)
  have u: "new_URL sample_platform (trim ''//'') (Some (upto_last_slash (ax_url (config_for sample_request ?u)))) = None"
    by (simp add: t sample_platform_def sample_URL_def config_for_def sample_base)
  from unresolvable_reference_aborts [OF f n s m l rel u] f l rel u
  show ?thesis
    by (simp add: config_for_def sample_base sample_platform_def)
qed

subsection \<open>Lines that start with http\<close>

lemma starts_http:
  "startsWith s ''http'' \<Longrightarrow> s \<noteq> [] \<and> \<not> startsWith s ''#''"
  by (auto simp: startsWith_def prefix_def)

lemma absolute_line_wrapped:
  assumes "startsWith (trim line) ''http''"
  shows "rewrite_line P basePath proxyBase encodedReferer line
           = Some (proxy_link proxyBase (encodeURIComponent (trim line)) encodedReferer)"
    and "rewrite_line2 basePath proxyBase referer line
           = proxy_link proxyBase (encodeURIComponent (trim line))
               (encodeURIComponent (or_else referer ''https://megacloud.tv''))"
  using assms starts_http [OF assms]
  by (simp_all add: rewrite_line_def rewrite_line2_def Let_def)

lemma encoded_link:
  "encodeURIComponent (proxy_link proxyBase (encodeURIComponent target) encodedReferer)
     = encodeURIComponent proxyBase @ ''%2Fapi%2Fproxy%3Furl%3D''
       @ encodeURIComponent (encodeURIComponent target)
       @ ''%26referer%3D'' @ encodeURIComponent encodedReferer"
proof -
  have a: "encodeURIComponent ''/api/proxy?url='' = ''%2Fapi%2Fproxy%3Furl%3D''"
    by code_simp
  have b: "encodeURIComponent ''&referer='' = ''%26referer%3D''"
    by code_simp
  show ?thesis
    unfolding proxy_link_def encodeURIComponent_append a b by (simp only: append_assoc)
qed

lemma sample_proxy_base: "getProxyBaseUrl None sample_request = ''https://p.example''"
  "forwarded_base (req_headers sample_request) = ''https://p.example''"
  by (simp_all add: getProxyBaseUrl_def forwarded_base_def sample_request_def truthy_def or_else_def)

lemma default_referer_encoded: "encodeURIComponent ''https://megacloud.tv'' = ''https%3A%2F%2Fmegacloud.tv''"
  by code_simp

lemma sample_sent_referer:
  "sent_referer (handler sample_platform env net sample_request) = Some ''https://megacloud.tv''"
  by (simp add: sent_referer_def sample_request_fetched config_for_def request_headers_referer)

lemma sample_rewritten:
  "rewrite_playlist sample_platform ''https://cdn.example.com/videos/abc/'' ''https://p.example''
     ''https%3A%2F%2Fmegacloud.tv'' ''segment001.ts''
   = Some ''https://p.example/api/proxy?url=https%3A%2F%2Fcdn.example.com%2Fvideos%2Fabc%2Fsegment001.ts&referer=https%3A%2F%2Fmegacloud.tv''"
  "rewrite_playlist2 ''https://cdn.example.com/videos/abc/'' ''https://p.example'' None ''segment001.ts''
   = ''https://p.example/api/proxy?url=https%3A%2F%2Fcdn.example.com%2Fvideos%2Fabc%2Fsegment001.ts&referer=https%3A%2F%2Fmegacloud.tv''"
  "rewrite_playlist sample_platform ''https://cdn.example.com/videos/abc/'' ''https://p.example''
     ''https%3A%2F%2Fmegacloud.tv''
     ''https://p.example/api/proxy?url=https%3A%2F%2Fcdn.example.com%2Fvideos%2Fabc%2Fsegment001.ts&referer=https%3A%2F%2Fmegacloud.tv''
   = Some ''https://p.example/api/proxy?url=https%3A%2F%2Fp.example%2Fapi%2Fproxy%3Furl%3Dhttps%253A%252F%252Fcdn.example.com%252Fvideos%252Fabc%252Fsegment001.ts%26referer%3Dhttps%253A%252F%252Fmegacloud.tv&referer=https%3A%2F%2Fmegacloud.tv''"
  by code_simp+

lemma sample_playlist_reply:
  "reply (handler sample_platform None (serves ''application/vnd.apple.mpegurl'' content) sample_request)
     = (case rewrite_playlist sample_platform ''https://cdn.example.com/videos/abc/''
               ''https://p.example'' ''https%3A%2F%2Fmegacloud.tv'' content of
          None \<Rightarrow> Some (500, Json [(''error'', JString ''Internal proxy error''),
                                   (''message'', JString ''Invalid URL''),
                                   (''url'', JString ''https://cdn.example.com/videos/abc/playlist.m3u8'')])
        | Some newContent \<Rightarrow> Some (200, Send newContent))"
proof -
  let ?net = "serves ''application/vnd.apple.mpegurl'' content"
  let ?u = "''https://cdn.example.com/videos/abc/playlist.m3u8''"
  let ?r = "\<lparr>status = 200, statusText = ''OK'',
             resp_headers = [''content-type'' \<mapsto> ''application/vnd.apple.mpegurl''],
             resp_data = content\<rparr>"
  have "?net (config_for sample_request ?u) = Received ?r" and "status ?r < 400"
    and "isM3U8 (or_else (resp_headers ?r ''content-type'') ''application/octet-stream'')
           (ax_url (config_for sample_request ?u))"
    by (simp_all add: serves_def sample_playlist_content_type)
  from handler_playlist [where P = sample_platform and env = None and net = ?net
      and req = sample_request and config = "config_for sample_request ?u" and r = ?r,
      OF sample_request_fetched this]
  obtain d where "sent_referer (handler sample_platform None ?net sample_request) = Some d"
    and "result (handler sample_platform None ?net sample_request) = Responded
           (case rewrite_playlist sample_platform (upto_last_slash (ax_url (config_for sample_request ?u)))
                   (getProxyBaseUrl None sample_request)
                   (encodeURIComponent d) (toString_utf8 sample_platform (resp_data ?r)) of
              None \<Rightarrow> catch_error TypeError (ax_url (config_for sample_request ?u))
                        (relay_headers ?r (ax_url (config_for sample_request ?u)))
            | Some newContent \<Rightarrow>
                \<lparr>res_status = status ?r,
                 res_headers = relay_headers ?r (ax_url (config_for sample_request ?u)),
                 res_body = Send newContent\<rparr>)"
    by blast
  moreover from this(1) have "d = ''https://megacloud.tv''"
    by (simp add: sample_sent_referer)
  moreover have "toString_utf8 sample_platform content = content"
    by (simp add: sample_platform_def)
  moreover have "ax_url (config_for sample_request ?u) = ?u"
    by (simp add: config_for_def)
  ultimately show ?thesis
    by (simp add: reply_def default_referer_encoded sample_proxy_base sample_base catch_error_def
        split: option.splits)
qed

lemma sample_playlist_reply2:
  "reply (handler2 sample_platform (serves ''application/vnd.apple.mpegurl'' content) sample_request)
     = Some (200, Send (rewrite_playlist2 ''https://cdn.example.com/videos/abc/''
                          ''https://p.example'' None content))"
proof -
  let ?net = "serves ''application/vnd.apple.mpegurl'' content"
  let ?u = "''https://cdn.example.com/videos/abc/playlist.m3u8''"
  let ?r = "\<lparr>status = 200, statusText = ''OK'',
             resp_headers = [''content-type'' \<mapsto> ''application/vnd.apple.mpegurl''],
             resp_data = content\<rparr>"
  have "?net (config2_for ?u) = Received ?r" and "status ?r < 500"
    and "js_includes (or_else (resp_headers ?r ''content-type'') ''application/vnd.apple.mpegurl'')
           ''mpegurl'' \<or> endsWith (ax_url (config2_for ?u)) ''.m3u8''"
    by (simp_all add: serves_def or_else_def truthy_def)
  from handler2_playlist [where P = sample_platform and net = ?net
      and req = sample_request and config = "config2_for ?u" and r = ?r,
      OF sample_request_fetched2 this]
  moreover have "toString_utf8 sample_platform content = content"
    by (simp add: sample_platform_def)
  moreover have "query_referer sample_request = None"
    by (simp add: sample_request_def)
  ultimately show ?thesis
    by (simp add: reply_def sample_proxy_base sample_base config2_for_def)
qed

text \<open>
  C3 (as amended). The body of a playlist response is a function of the upstream body,
  the upstream URL, the referer and the proxy base, and of nothing else in the request or
  in the upstream response: it is \<open>rewrite_playlist\<close> (in the second handler
  \<open>rewrite_playlist2\<close>) of these four. Rewriting is not idempotent: a line that starts with
  \<open>http\<close>, as every line of an already rewritten playlist does when the proxy base starts
  with \<open>http\<close>, is percent-encoded as a whole and wrapped in a new proxy link, so the target
  inside an already rewritten link is encoded a second time.
\<close>

theorem rewriting_function:
  "(fetched (handler P env net req) = Some config \<and> net config = Received r \<and> status r < 400
      \<and> isM3U8 (or_else (resp_headers r ''content-type'') ''application/octet-stream'') (ax_url config)
    \<longrightarrow> (\<exists>d. sent_referer (handler P env net req) = Some d
          \<and> reply (handler P env net req) =
              (case rewrite_playlist P (upto_last_slash (ax_url config)) (getProxyBaseUrl env req)
                      (encodeURIComponent d) (toString_utf8 P (resp_data r)) of
                 None \<Rightarrow> Some (500, Json [(''error'', JString ''Internal proxy error''),
                                          (''message'', JString ''Invalid URL''),
                                          (''url'', JString (ax_url config))])
               | Some newContent \<Rightarrow> Some (status r, Send newContent))))
   \<and> (fetched (handler2 P net req) = Some config \<and> net config = Received r \<and> status r < 500
      \<and> (js_includes (or_else (resp_headers r ''content-type'') ''application/vnd.apple.mpegurl'')
            ''mpegurl'' \<or> endsWith (ax_url config) ''.m3u8'')
    \<longrightarrow> reply (handler2 P net req) =
          Some (status r,
                Send (rewrite_playlist2 (upto_last_slash (ax_url config))
                        (forwarded_base (req_headers req)) (query_referer req)
                        (toString_utf8 P (resp_data r)))))
   \<and> (startsWith (trim line) ''http''
    \<longrightarrow> rewrite_line P basePath proxyBase encodedReferer line
          = Some (proxy_link proxyBase (encodeURIComponent (trim line)) encodedReferer)
        \<and> rewrite_line2 basePath proxyBase referer line
          = proxy_link proxyBase (encodeURIComponent (trim line))
              (encodeURIComponent (or_else referer ''https://megacloud.tv'')))
   \<and> encodeURIComponent (proxy_link proxyBase (encodeURIComponent target) encodedReferer)
       = encodeURIComponent proxyBase @ ''%2Fapi%2Fproxy%3Furl%3D''
         @ encodeURIComponent (encodeURIComponent target)
         @ ''%26referer%3D'' @ encodeURIComponent encodedReferer"
proof (intro conjI impI)
  assume a: "fetched (handler P env net req) = Some config \<and> net config = Received r \<and> status r < 400
      \<and> isM3U8 (or_else (resp_headers r ''content-type'') ''application/octet-stream'') (ax_url config)"
  then obtain d where d: "sent_referer (handler P env net req) = Some d"
    and res: "result (handler P env net req) = Responded
               (case rewrite_playlist P (upto_last_slash (ax_url config)) (getProxyBaseUrl env req)
                       (encodeURIComponent d) (toString_utf8 P (resp_data r)) of
                  None \<Rightarrow> catch_error TypeError (ax_url config) (relay_headers r (ax_url config))
                | Some newContent \<Rightarrow>
                    \<lparr>res_status = status r, res_headers = relay_headers r (ax_url config),
                     res_body = Send newContent\<rparr>)"
    using handler_playlist [of P env net req config r] by blast
  have "reply (handler P env net req) =
              (case rewrite_playlist P (upto_last_slash (ax_url config)) (getProxyBaseUrl env req)
                      (encodeURIComponent d) (toString_utf8 P (resp_data r)) of
                 None \<Rightarrow> Some (500, Json [(''error'', JString ''Internal proxy error''),
                                          (''message'', JString ''Invalid URL''),
                                          (''url'', JString (ax_url config))])
               | Some newContent \<Rightarrow> Some (status r, Send newContent))"
    unfolding reply_def res by (simp add: catch_error_def split: option.splits)
  with d show "\<exists>d. sent_referer (handler P env net req) = Some d
          \<and> reply (handler P env net req) =
              (case rewrite_playlist P (upto_last_slash (ax_url config)) (getProxyBaseUrl env req)
                      (encodeURIComponent d) (toString_utf8 P (resp_data r)) of
                 None \<Rightarrow> Some (500, Json [(''error'', JString ''Internal proxy error''),
                                          (''message'', JString ''Invalid URL''),
                                          (''url'', JString (ax_url config))])
               | Some newContent \<Rightarrow> Some (status r, Send newContent))"
    by blast
next
  assume "fetched (handler2 P net req) = Some config \<and> net config = Received r \<and> status r < 500
      \<and> (js_includes (or_else (resp_headers r ''content-type'') ''application/vnd.apple.mpegurl'')
            ''mpegurl'' \<or> endsWith (ax_url config) ''.m3u8'')"
  then show "reply (handler2 P net req) =
          Some (status r,
                Send (rewrite_playlist2 (upto_last_slash (ax_url config))
                        (forwarded_base (req_headers req)) (query_referer req)
                        (toString_utf8 P (resp_data r))))"
    using handler2_playlist [of P net req config r] by (simp add: reply_def)
next
  assume "startsWith (trim line) ''http''"
  then show "rewrite_line P basePath proxyBase encodedReferer line
          = Some (proxy_link proxyBase (encodeURIComponent (trim line)) encodedReferer)"
    and "rewrite_line2 basePath proxyBase referer line
          = proxy_link proxyBase (encodeURIComponent (trim line))
              (encodeURIComponent (or_else referer ''https://megacloud.tv''))"
    by (rule absolute_line_wrapped)+
next
  show "encodeURIComponent (proxy_link proxyBase (encodeURIComponent target) encodedReferer)
       = encodeURIComponent proxyBase @ ''%2Fapi%2Fproxy%3Furl%3D''
         @ encodeURIComponent (encodeURIComponent target)
         @ ''%26referer%3D'' @ encodeURIComponent encodedReferer"
    by (rule encoded_link)
qed

theorem rewriting_function_witness:
  "fetched (handler sample_platform None (serves ''application/vnd.apple.mpegurl'' ''segment001.ts'')
              sample_request)
     = Some (config_for sample_request ''https://cdn.example.com/videos/abc/playlist.m3u8'')
   \<and> reply (handler sample_platform None (serves ''application/vnd.apple.mpegurl'' ''segment001.ts'')
              sample_request)
     = Some (200, Send ''https://p.example/api/proxy?url=https%3A%2F%2Fcdn.example.com%2Fvideos%2Fabc%2Fsegment001.ts&referer=https%3A%2F%2Fmegacloud.tv'')
   \<and> fetched (handler2 sample_platform (serves ''application/vnd.apple.mpegurl'' ''segment001.ts'')
              sample_request)
     = Some (config2_for ''https://cdn.example.com/videos/abc/playlist.m3u8'')
   \<and> reply (handler2 sample_platform (serves ''application/vnd.apple.mpegurl'' ''segment001.ts'')
              sample_request)
     = Some (200, Send ''https://p.example/api/proxy?url=https%3A%2F%2Fcdn.example.com%2Fvideos%2Fabc%2Fsegment001.ts&referer=https%3A%2F%2Fmegacloud.tv'')
   \<and> startsWith (trim ''https://p.example/api/proxy?url=https%3A%2F%2Fcdn.example.com%2Fvideos%2Fabc%2Fsegment001.ts&referer=https%3A%2F%2Fmegacloud.tv'') ''http''
   \<and> rewrite_line sample_platform ''https://cdn.example.com/videos/abc/'' ''https://p.example''
         ''https%3A%2F%2Fmegacloud.tv'' ''https://p.example/api/proxy?url=https%3A%2F%2Fcdn.example.com%2Fvideos%2Fabc%2Fsegment001.ts&referer=https%3A%2F%2Fmegacloud.tv''
     = Some ''https://p.example/api/proxy?url=https%3A%2F%2Fp.example%2Fapi%2Fproxy%3Furl%3Dhttps%253A%252F%252Fcdn.example.com%252Fvideos%252Fabc%252Fsegment001.ts%26referer%3Dhttps%253A%252F%252Fmegacloud.tv&referer=https%3A%2F%2Fmegacloud.tv''
   \<and> rewrite_line2 ''https://cdn.example.com/videos/abc/'' ''https://p.example'' None ''https://p.example/api/proxy?url=https%3A%2F%2Fcdn.example.com%2Fvideos%2Fabc%2Fsegment001.ts&referer=https%3A%2F%2Fmegacloud.tv''
     = ''https://p.example/api/proxy?url=https%3A%2F%2Fp.example%2Fapi%2Fproxy%3Furl%3Dhttps%253A%252F%252Fcdn.example.com%252Fvideos%252Fabc%252Fsegment001.ts%26referer%3Dhttps%253A%252F%252Fmegacloud.tv&referer=https%3A%2F%2Fmegacloud.tv''"
proof -
  let ?net = "serves ''application/vnd.apple.mpegurl'' ''segment001.ts''"
  let ?u = "''https://cdn.example.com/videos/abc/playlist.m3u8''"
  let ?r = "\<lparr>status = 200, statusText = ''OK'',
             resp_headers = [''content-type'' \<mapsto> ''application/vnd.apple.mpegurl''],
             resp_data = ''segment001.ts''\<rparr>"
  note first = rewriting_function [where P = sample_platform and env = None and net = ?net
      and req = sample_request and config = "config_for sample_request ?u" and r = ?r
      and line = "''https://p.example/api/proxy?url=https%3A%2F%2Fcdn.example.com%2Fvideos%2Fabc%2Fsegment001.ts&referer=https%3A%2F%2Fmegacloud.tv''"
      and basePath = "''https://cdn.example.com/videos/abc/''" and proxyBase = "''https://p.example''"
      and encodedReferer = "''https%3A%2F%2Fmegacloud.tv''" and referer = None]
  note second = rewriting_function [where P = sample_platform and net = ?net
      and req = sample_request and config = "config2_for ?u" and r = ?r]
  have f1: "fetched (handler sample_platform None ?net sample_request) = Some (config_for sample_request ?u)"
    by (rule sample_request_fetched)
  have f2: "fetched (handler2 sample_platform ?net sample_request) = Some (config2_for ?u)"
    by (rule sample_request_fetched2)
  have body: "toString_utf8 sample_platform ''segment001.ts'' = ''segment001.ts''"
    by (simp add: sample_platform_def)
  have "?net (config_for sample_request ?u) = Received ?r \<and> status ?r < 400
      \<and> isM3U8 (or_else (resp_headers ?r ''content-type'') ''application/octet-stream'')
           (ax_url (config_for sample_request ?u))"
    by (simp add: serves_def sample_playlist_content_type)
  with first f1 obtain d where "sent_referer (handler sample_platform None ?net sample_request) = Some d"
    and "reply (handler sample_platform None ?net sample_request) =
              (case rewrite_playlist sample_platform (upto_last_slash (ax_url (config_for sample_request ?u)))
                      (getProxyBaseUrl None sample_request)
                      (encodeURIComponent d) (toString_utf8 sample_platform (resp_data ?r)) of
                 None \<Rightarrow> Some (500, Json [(''error'', JString ''Internal proxy error''),
                                          (''message'', JString ''Invalid URL''),
                                          (''url'', JString (ax_url (config_for sample_request ?u)))])
               | Some newContent \<Rightarrow> Some (status ?r, Send newContent))"
    by blast
  moreover from this(1) have "d = ''https://megacloud.tv''"
    by (simp add: sample_sent_referer)
  moreover have "ax_url (config_for sample_request ?u) = ?u"
    by (simp add: config_for_def)
  ultimately have r1: "reply (handler sample_platform None ?net sample_request) = Some (200, Send ''https://p.example/api/proxy?url=https%3A%2F%2Fcdn.example.com%2Fvideos%2Fabc%2Fsegment001.ts&referer=https%3A%2F%2Fmegacloud.tv'')"
    by (simp add: default_referer_encoded sample_proxy_base sample_base body sample_rewritten)
  have "?net (config2_for ?u) = Received ?r \<and> status ?r < 500
      \<and> (js_includes (or_else (resp_headers ?r ''content-type'') ''application/vnd.apple.mpegurl'')
            ''mpegurl'' \<or> endsWith (ax_url (config2_for ?u)) ''.m3u8'')"
    by (simp add: serves_def or_else_def truthy_def)
  with second f2 have "reply (handler2 sample_platform ?net sample_request) =
          Some (status ?r,
                Send (rewrite_playlist2 (upto_last_slash (ax_url (config2_for ?u)))
                        (forwarded_base (req_headers sample_request)) (query_referer sample_request)
                        (toString_utf8 sample_platform (resp_data ?r))))"
    by blast
  moreover have "query_referer sample_request = None"
    by (simp add: sample_request_def)
  ultimately have r2: "reply (handler2 sample_platform ?net sample_request) = Some (200, Send ''https://p.example/api/proxy?url=https%3A%2F%2Fcdn.example.com%2Fvideos%2Fabc%2Fsegment001.ts&referer=https%3A%2F%2Fmegacloud.tv'')"
    by (simp add: sample_proxy_base sample_base body sample_rewritten config2_for_def)
  have h: "startsWith (trim ''https://p.example/api/proxy?url=https%3A%2F%2Fcdn.example.com%2Fvideos%2Fabc%2Fsegment001.ts&referer=https%3A%2F%2Fmegacloud.tv'') ''http''"
    by code_simp
  have e: "proxy_link ''https://p.example'' (encodeURIComponent (trim ''https://p.example/api/proxy?url=https%3A%2F%2Fcdn.example.com%2Fvideos%2Fabc%2Fsegment001.ts&referer=https%3A%2F%2Fmegacloud.tv'')) ''https%3A%2F%2Fmegacloud.tv''
      = ''https://p.example/api/proxy?url=https%3A%2F%2Fp.example%2Fapi%2Fproxy%3Furl%3Dhttps%253A%252F%252Fcdn.example.com%252Fvideos%252Fabc%252Fsegment001.ts%26referer%3Dhttps%253A%252F%252Fmegacloud.tv&referer=https%3A%2F%2Fmegacloud.tv''"
    by code_simp
  have o: "or_else None ''https://megacloud.tv'' = ''https://megacloud.tv''"
    by (simp add: or_else_def truthy_def)
  from first h have "rewrite_line sample_platform ''https://cdn.example.com/videos/abc/'' ''https://p.example''
         ''https%3A%2F%2Fmegacloud.tv'' ''https://p.example/api/proxy?url=https%3A%2F%2Fcdn.example.com%2Fvideos%2Fabc%2Fsegment001.ts&referer=https%3A%2F%2Fmegacloud.tv''
       = Some (proxy_link ''https://p.example'' (encodeURIComponent (trim ''https://p.example/api/proxy?url=https%3A%2F%2Fcdn.example.com%2Fvideos%2Fabc%2Fsegment001.ts&referer=https%3A%2F%2Fmegacloud.tv'')) ''https%3A%2F%2Fmegacloud.tv'')"
    and "rewrite_line2 ''https://cdn.example.com/videos/abc/'' ''https://p.example'' None ''https://p.example/api/proxy?url=https%3A%2F%2Fcdn.example.com%2Fvideos%2Fabc%2Fsegment001.ts&referer=https%3A%2F%2Fmegacloud.tv''
       = proxy_link ''https://p.example'' (encodeURIComponent (trim ''https://p.example/api/proxy?url=https%3A%2F%2Fcdn.example.com%2Fvideos%2Fabc%2Fsegment001.ts&referer=https%3A%2F%2Fmegacloud.tv''))
           (encodeURIComponent (or_else None ''https://megacloud.tv''))"
    by blast+
  then have "rewrite_line sample_platform ''https://cdn.example.com/videos/abc/'' ''https://p.example''
         ''https%3A%2F%2Fmegacloud.tv'' ''https://p.example/api/proxy?url=https%3A%2F%2Fcdn.example.com%2Fvideos%2Fabc%2Fsegment001.ts&referer=https%3A%2F%2Fmegacloud.tv'' = Some ''https://p.example/api/proxy?url=https%3A%2F%2Fp.example%2Fapi%2Fproxy%3Furl%3Dhttps%253A%252F%252Fcdn.example.com%252Fvideos%252Fabc%252Fsegment001.ts%26referer%3Dhttps%253A%252F%252Fmegacloud.tv&referer=https%3A%2F%2Fmegacloud.tv''"
    and "rewrite_line2 ''https://cdn.example.com/videos/abc/'' ''https://p.example'' None ''https://p.example/api/proxy?url=https%3A%2F%2Fcdn.example.com%2Fvideos%2Fabc%2Fsegment001.ts&referer=https%3A%2F%2Fmegacloud.tv'' = ''https://p.example/api/proxy?url=https%3A%2F%2Fp.example%2Fapi%2Fproxy%3Furl%3Dhttps%253A%252F%252Fcdn.example.com%252Fvideos%252Fabc%252Fsegment001.ts%26referer%3Dhttps%253A%252F%252Fmegacloud.tv&referer=https%3A%2F%2Fmegacloud.tv''"
    by (simp_all only: e o default_referer_encoded)
  with f1 f2 r1 r2 h show ?thesis
    by blast
qed

text \<open>
  The claim as it stands fails: when the handler is given the playlist it has rewritten, the
  link of the first pass comes back wrapped in a second link, its target encoded twice
  (\<open>%253A\<close> for the colon that the first pass had encoded as \<open>%3A\<close>).
\<close>

theorem rewriting_twice_counterexample:
  "reply (handler sample_platform None (serves ''application/vnd.apple.mpegurl'' ''segment001.ts'')
            sample_request)
     = Some (200, Send ''https://p.example/api/proxy?url=https%3A%2F%2Fcdn.example.com%2Fvideos%2Fabc%2Fsegment001.ts&referer=https%3A%2F%2Fmegacloud.tv'')
   \<and> reply (handler sample_platform None (serves ''application/vnd.apple.mpegurl'' ''https://p.example/api/proxy?url=https%3A%2F%2Fcdn.example.com%2Fvideos%2Fabc%2Fsegment001.ts&referer=https%3A%2F%2Fmegacloud.tv'')
            sample_request)
     = Some (200, Send ''https://p.example/api/proxy?url=https%3A%2F%2Fp.example%2Fapi%2Fproxy%3Furl%3Dhttps%253A%252F%252Fcdn.example.com%252Fvideos%252Fabc%252Fsegment001.ts%26referer%3Dhttps%253A%252F%252Fmegacloud.tv&referer=https%3A%2F%2Fmegacloud.tv'')"
  by (simp add: sample_playlist_reply sample_rewritten)

subsection \<open>Comment lines\<close>

lemma js_includes_append: "js_includes (a @ p @ c) p"
proof (induction a)
  case Nil
  show ?case
  proof (cases "p @ c")
    case Nil
    then show ?thesis by simp
  next
    case (Cons x xs)
    have "prefix p (p @ c)" by simp
    with Cons show ?thesis by simp
  qed
next
  case (Cons x a)
  then show ?case by simp
qed

lemma find_uri_attr_includes:
  "find_uri_attr tag = Some (before, uri, after) \<Longrightarrow> js_includes tag ''URI=\"''"
  using find_uri_attr_sound [of tag before uri after]
    js_includes_append [of before "''URI=\"''" "uri @ ''\"'' @ after"]
  by simp

lemma sample_lines:
  "trim crlf_line = ''#EXTM3U''"
  "trim key_line = key_line"
  "trim empty_uri_line = ''#EXT-X-MAP:URI=\"\"''"
  "find_uri_attr key_line = Some (''#EXT-X-KEY:METHOD=AES-128,'', ''key.bin'', [])"
  "find_uri_attr ''#EXT-X-MAP:URI=\"\"'' = None"
  "js_includes ''#EXT-X-MAP:URI=\"\"'' ''URI=\"''"
  "\<not> js_includes ''#EXTM3U'' ''URI=\"''"
  by code_simp+

subsection \<open>The referer of a link\<close>

lemma hex_digit_not_eq: "n < 16 \<Longrightarrow> hex_digit n \<noteq> CHR ''=''"
proof -
  have "\<forall>k\<in>{0..<16}. hex_digit k \<noteq> CHR ''=''"
    by code_simp
  then show "n < 16 \<Longrightarrow> hex_digit n \<noteq> CHR ''=''"
    by simp
qed

lemma percent_escape_no_eq: "CHR ''='' \<notin> set (percent_escape c)"
proof -
  have "of_char c < (256::nat)" by simp
  then have "of_char c div 16 < (16::nat)" by arith
  moreover have "of_char c mod 16 < (16::nat)" by simp
  ultimately show ?thesis
    using hex_digit_not_eq [of "of_char c div 16"] hex_digit_not_eq [of "of_char c mod 16"]
    by (auto simp: percent_escape_def)
qed

lemma unreserved_not_eq: "uri_unreserved c \<Longrightarrow> c \<noteq> CHR ''=''"
  by (auto simp: uri_unreserved_def)

lemma encode_no_eq: "CHR ''='' \<notin> set (encodeURIComponent s)"
  using percent_escape_no_eq unreserved_not_eq
  by (induction s) (auto simp: encodeURIComponent_def)

lemma link_referer_proxy_link:
  "link_referer (proxy_link proxyBase encodedUrl (encodeURIComponent d)) = encodeURIComponent d"
proof -
  define e where "e = encodeURIComponent d"
  define front where "front = rev (proxyBase @ ''/api/proxy?url='' @ encodedUrl @ ''&referer'')"
  have "rev (proxy_link proxyBase encodedUrl e) = rev e @ CHR ''='' # front"
    by (simp add: proxy_link_def front_def)
  moreover have "\<forall>c\<in>set (rev e). c \<noteq> CHR ''=''"
    using encode_no_eq [of d] by (auto simp: e_def)
  then have "takeWhile (\<lambda>c. c \<noteq> CHR ''='') (rev e @ CHR ''='' # front) = rev e"
    by (subst takeWhile_append2) auto
  ultimately show ?thesis
    by (simp add: link_referer_def e_def)
qed

lemma default_referer_wf: "wf_utf8 ''https://megacloud.tv''"
  by code_simp

lemma default_referer_decoded: "decodeURIComponent ''https://megacloud.tv'' = Some ''https://megacloud.tv''"
  by code_simp

lemma truthy_Some: "truthy v = Some s \<Longrightarrow> v = Some s"
  by (auto simp: truthy_def split: option.splits if_splits)

lemma decoded_referer_round_trip:
  assumes "referer_text req"
    and "(case truthy (query_referer req) of
            None \<Rightarrow> Some ''https://megacloud.tv''
          | Some referer \<Rightarrow> decodeURIComponent referer) = Some d"
  shows "decodeURIComponent (encodeURIComponent d) = Some d"
proof -
  have "wf_utf8 d"
  proof (cases "truthy (query_referer req)")
    case None
    with assms(2) have "d = ''https://megacloud.tv''"
      by simp
    then show ?thesis
      by (simp only: default_referer_wf)
  next
    case (Some referer)
    then have "query_referer req = Some referer"
      by (rule truthy_Some)
    with assms(1) have "wf_utf8 referer"
      by (simp add: referer_text_def)
    moreover from Some assms(2) have "decodeURIComponent referer = Some d"
      by simp
    ultimately show ?thesis
      by (rule decode_wf)
  qed
  then show ?thesis
    by (rule decode_encode)
qed

lemma raw_referer_round_trip:
  assumes "referer_text req"
  shows "decodeURIComponent (encodeURIComponent (or_else (query_referer req) ''https://megacloud.tv''))
         = Some (or_else (query_referer req) ''https://megacloud.tv'')"
proof -
  have "wf_utf8 (or_else (query_referer req) ''https://megacloud.tv'')"
    using assms default_referer_wf
    by (auto simp: or_else_def referer_text_def split: option.splits dest!: truthy_Some)
  then show ?thesis
    by (rule decode_encode)
qed

lemma reference_line_link:
  assumes "is_reference line"
    and "rewrite_line P basePath proxyBase encodedReferer line = Some out"
  shows "\<exists>target. out = proxy_link proxyBase (encodeURIComponent target) encodedReferer"
  using assms
  by (auto simp: is_reference_def rewrite_line_def Let_def split: if_splits option.splits)

lemma reference_line_link2:
  assumes "is_reference line"
  shows "\<exists>target. rewrite_line2 basePath proxyBase referer line
           = proxy_link proxyBase (encodeURIComponent target)
               (encodeURIComponent (or_else referer ''https://megacloud.tv''))"
  using assms
  by (auto simp: is_reference_def rewrite_line2_def Let_def split: if_splits)

lemma uri_attribute_link:
  assumes "find_uri_attr tag = Some (before, uri, after)"
  shows "rewriteUriInTag P tag basePath proxyBase encodedReferer = tag
       \<or> (\<exists>target. rewriteUriInTag P tag basePath proxyBase encodedReferer
             = before @ ''URI=\"''
               @ proxy_link proxyBase (encodeURIComponent target) encodedReferer
               @ ''\"'' @ after)"
  using assms
  by (auto simp: rewriteUriInTag_def split: option.splits if_splits)

lemma escaped_referer_decoded:
  "decodeURIComponent ''https://site.example/%41'' = Some ''https://site.example/A''"
  by code_simp

lemma escaped_referer_fetched:
  "\<exists>config. fetched (handler sample_platform env net escaped_referer_request) = Some config
      \<and> ax_url config = ''https://cdn.example.com/videos/abc/playlist.m3u8''
      \<and> ax_headers config ''Referer'' = Some ''https://site.example/A''"
  by (simp add: handler_def escaped_referer_request_def sample_request_def truthy_def
      sample_url_decoded escaped_referer_decoded sample_platform_def sample_URL_def Let_def
      request_headers_referer del: decodeURIComponent.simps)

lemma escaped_referer_fetched2:
  "\<exists>config. fetched (handler2 sample_platform net escaped_referer_request) = Some config
      \<and> ax_url config = ''https://cdn.example.com/videos/abc/playlist.m3u8''
      \<and> ax_headers config ''Referer'' = Some ''https://site.example/A''"
  by (simp add: handler2_def escaped_referer_request_def sample_request_def truthy_def
      sample_url_decoded escaped_referer_decoded sample_platform_def sample_URL_def Let_def
      request_headers2_def forward_def del: decodeURIComponent.simps)

lemma escaped_referer_wf: "wf_utf8 ''https://site.example/%41''"
  by code_simp

lemma escaped_referer_values:
  "referer_text escaped_referer_request"
  "query_referer escaped_referer_request = Some ''https://site.example/%41''"
  "getProxyBaseUrl None escaped_referer_request = ''https://p.example''"
  "forwarded_base (req_headers escaped_referer_request) = ''https://p.example''"
  "or_else (Some ''https://site.example/%41'') ''https://megacloud.tv'' = ''https://site.example/%41''"
  by (simp_all add: escaped_referer_request_def sample_request_def referer_text_def
      getProxyBaseUrl_def forwarded_base_def truthy_def or_else_def escaped_referer_wf
      del: wf_utf8.simps)

lemma segment_line:
  "is_reference ''segment001.ts''"
  "rewrite_playlist sample_platform ''https://cdn.example.com/videos/abc/'' ''https://p.example''
     (encodeURIComponent ''https://site.example/A'') ''segment001.ts''
   = Some ''https://p.example/api/proxy?url=https%3A%2F%2Fcdn.example.com%2Fvideos%2Fabc%2Fsegment001.ts&referer=https%3A%2F%2Fsite.example%2FA''"
  "rewrite_line sample_platform ''https://cdn.example.com/videos/abc/'' ''https://p.example''
     (encodeURIComponent ''https://site.example/A'') ''segment001.ts''
   = Some ''https://p.example/api/proxy?url=https%3A%2F%2Fcdn.example.com%2Fvideos%2Fabc%2Fsegment001.ts&referer=https%3A%2F%2Fsite.example%2FA''"
  "rewrite_line2 ''https://cdn.example.com/videos/abc/'' ''https://p.example'' None ''segment001.ts''
   = ''https://p.example/api/proxy?url=https%3A%2F%2Fcdn.example.com%2Fvideos%2Fabc%2Fsegment001.ts&referer=https%3A%2F%2Fmegacloud.tv''"
  "rewrite_playlist2 ''https://cdn.example.com/videos/abc/'' ''https://p.example''
     (Some ''https://site.example/%41'') ''segment001.ts''
   = ''https://p.example/api/proxy?url=https%3A%2F%2Fcdn.example.com%2Fvideos%2Fabc%2Fsegment001.ts&referer=https%3A%2F%2Fsite.example%2F%2541''"
  "rewrite_line2 ''https://cdn.example.com/videos/abc/'' ''https://p.example''
     (Some ''https://site.example/%41'') ''segment001.ts''
   = ''https://p.example/api/proxy?url=https%3A%2F%2Fcdn.example.com%2Fvideos%2Fabc%2Fsegment001.ts&referer=https%3A%2F%2Fsite.example%2F%2541''"
  by code_simp+

subsection \<open>The first match of the URI attribute\<close>

lemma match_uri_attr_iff:
  "match_uri_attr s = Some (uri, after) \<longleftrightarrow> uri_attribute_at s [] uri after"
proof
  assume m: "match_uri_attr s = Some (uri, after)"
  let ?t = "drop 5 s"
  from m have p: "prefix ''URI=\"'' s"
    and uri: "uri = takeWhile (\<lambda>c. c \<noteq> CHR 0x22) ?t"
    and r: "dropWhile (\<lambda>c. c \<noteq> CHR 0x22) ?t \<noteq> []"
    and after: "after = tl (dropWhile (\<lambda>c. c \<noteq> CHR 0x22) ?t)" and ne: "uri \<noteq> []"
    by (auto simp: match_uri_attr_def Let_def split: if_splits)
  from r have "hd (dropWhile (\<lambda>c. c \<noteq> CHR 0x22) ?t) = CHR 0x22"
    using hd_dropWhile [of "\<lambda>c. c \<noteq> CHR 0x22" ?t] by auto
  with r after have "dropWhile (\<lambda>c. c \<noteq> CHR 0x22) ?t = CHR 0x22 # after"
    by (cases "dropWhile (\<lambda>c. c \<noteq> CHR 0x22) ?t") auto
  then have "?t = uri @ CHR 0x22 # after"
    using takeWhile_dropWhile_id [of "\<lambda>c. c \<noteq> CHR 0x22" ?t] uri by simp
  moreover from p have "s = ''URI=\"'' @ ?t"
    by (auto simp: prefix_def)
  moreover have "CHR 0x22 \<notin> set uri"
    unfolding uri by (auto dest: set_takeWhileD)
  ultimately show "uri_attribute_at s [] uri after"
    using ne by (simp add: uri_attribute_at_def)
next
  assume "uri_attribute_at s [] uri after"
  then have s: "s = ''URI=\"'' @ uri @ CHR 0x22 # after" and ne: "uri \<noteq> []"
    and nq: "CHR 0x22 \<notin> set uri"
    by (simp_all add: uri_attribute_at_def)
  have d: "drop 5 s = uri @ CHR 0x22 # after"
    by (simp add: s)
  from nq have "takeWhile (\<lambda>c. c \<noteq> CHR 0x22) (uri @ CHR 0x22 # after) = uri"
    by (subst takeWhile_append2) auto
  moreover from nq have "dropWhile (\<lambda>c. c \<noteq> CHR 0x22) (uri @ CHR 0x22 # after) = CHR 0x22 # after"
    by (subst dropWhile_append2) auto
  moreover have "prefix ''URI=\"'' s"
    by (simp add: s)
  ultimately show "match_uri_attr s = Some (uri, after)"
    using ne by (simp add: match_uri_attr_def d Let_def)
qed

lemma uri_attribute_at_Cons:
  "uri_attribute_at (c # cs) (c' # b) u a \<longleftrightarrow> c = c' \<and> uri_attribute_at cs b u a"
  by (auto simp: uri_attribute_at_def)

lemma uri_attribute_at_nonempty: "uri_attribute_at tag b u a \<Longrightarrow> tag \<noteq> []"
  by (auto simp: uri_attribute_at_def)

lemma find_uri_attr_match:
  "find_uri_attr tag = Some (before, uri, after) \<Longrightarrow> uri_attribute_at tag before uri after"
proof (induction tag arbitrary: before)
  case Nil
  then show ?case by simp
next
  case (Cons c cs)
  show ?case
  proof (cases "match_uri_attr (c # cs)")
    case None
    with Cons.prems obtain b where "find_uri_attr cs = Some (b, uri, after)" and "before = c # b"
      by (auto split: option.splits)
    with Cons.IH show ?thesis
      by (simp add: uri_attribute_at_Cons)
  next
    case (Some m)
    with Cons.prems have "match_uri_attr (c # cs) = Some (uri, after)" and "before = []"
      by (auto split: option.splits)
    then show ?thesis
      by (simp add: match_uri_attr_iff)
  qed
qed

lemma find_uri_attr_leftmost:
  "find_uri_attr tag = Some (before, uri, after) \<Longrightarrow> uri_attribute_at tag b u a
     \<Longrightarrow> length before \<le> length b"
proof (induction tag arbitrary: before b)
  case Nil
  then show ?case by simp
next
  case (Cons c cs)
  show ?case
  proof (cases "match_uri_attr (c # cs)")
    case None
    with Cons.prems(1) obtain b0 where f: "find_uri_attr cs = Some (b0, uri, after)"
      and before: "before = c # b0"
      by (auto split: option.splits)
    from None Cons.prems(2) have "b \<noteq> []"
      using match_uri_attr_iff [of "c # cs" u a] by auto
    then obtain c' b' where b: "b = c' # b'"
      by (cases b) auto
    with Cons.prems(2) have "uri_attribute_at cs b' u a"
      by (simp add: uri_attribute_at_Cons)
    with Cons.IH [OF f] have "length b0 \<le> length b'" .
    with before b show ?thesis by simp
  next
    case (Some m)
    with Cons.prems(1) have "before = []"
      by (auto split: option.splits)
    then show ?thesis by simp
  qed
qed

lemma find_uri_attr_finds:
  "uri_attribute_at tag b u a \<Longrightarrow> find_uri_attr tag \<noteq> None"
proof (induction tag arbitrary: b)
  case Nil
  then show ?case by (simp add: uri_attribute_at_def)
next
  case (Cons c cs)
  show ?case
  proof (cases "match_uri_attr (c # cs)")
    case (Some m)
    then show ?thesis by (auto split: option.splits)
  next
    case None
    with Cons.prems have "b \<noteq> []"
      using match_uri_attr_iff [of "c # cs" u a] by auto
    then obtain c' b' where "b = c' # b'"
      by (cases b) auto
    with Cons.prems have "uri_attribute_at cs b' u a"
      by (simp add: uri_attribute_at_Cons)
    with Cons.IH have "find_uri_attr cs \<noteq> None" .
    with None show ?thesis by (auto split: option.splits)
  qed
qed

lemma uri_attribute_at_drop:
  "uri_attribute_at tag b u a \<Longrightarrow> match_uri_attr (drop (length b) tag) = Some (u, a) \<and> b = take (length b) tag"
  by (simp add: match_uri_attr_iff) (simp add: uri_attribute_at_def)

lemma find_uri_attr_first: "find_uri_attr tag = Some (before, uri, after) \<longleftrightarrow> first_uri_match tag before uri after"
proof
  assume "find_uri_attr tag = Some (before, uri, after)"
  then show "first_uri_match tag before uri after"
    using find_uri_attr_match find_uri_attr_leftmost by (auto simp: first_uri_match_def)
next
  assume f: "first_uri_match tag before uri after"
  then have at: "uri_attribute_at tag before uri after"
    and least: "\<And>b u a. uri_attribute_at tag b u a \<Longrightarrow> length before \<le> length b"
    by (auto simp: first_uri_match_def)
  from find_uri_attr_finds [OF at] obtain b0 u0 a0 where found: "find_uri_attr tag = Some (b0, u0, a0)"
    by auto
  then have at0: "uri_attribute_at tag b0 u0 a0"
    by (rule find_uri_attr_match)
  have "length b0 \<le> length before"
    using found at by (rule find_uri_attr_leftmost)
  moreover have "length before \<le> length b0"
    using at0 by (rule least)
  ultimately have "length b0 = length before"
    by simp
  with uri_attribute_at_drop [OF at] uri_attribute_at_drop [OF at0]
  have "b0 = before \<and> u0 = uri \<and> a0 = after"
    by auto
  with found show "find_uri_attr tag = Some (before, uri, after)"
    by simp
qed

lemma find_uri_attr_none: "find_uri_attr tag = None \<longleftrightarrow> (\<forall>b u a. \<not> uri_attribute_at tag b u a)"
  using find_uri_attr_finds find_uri_attr_match
  by (metis not_None_eq prod_cases3)

subsection \<open>The lines of a playlist response\<close>

lemma those_all_Some: "list_all (\<lambda>x. x \<noteq> None) xs \<Longrightarrow> \<exists>ys. those xs = Some ys"
  by (induction xs) auto

lemma rewrite_line_resolves:
  assumes "if is_relative line then new_URL P (trim line) (Some basePath) \<noteq> None else True"
  shows "rewrite_line P basePath proxyBase encodedReferer line \<noteq> None"
  using assms
  by (auto simp: rewrite_line_def is_relative_def is_reference_def Let_def split: if_splits)

lemma decode_nonempty: "decodeURIComponent s = Some d \<Longrightarrow> s \<noteq> [] \<Longrightarrow> d \<noteq> []"
  by (cases s) (auto split: if_splits option.splits)

lemma handler_playlist_lines:
  assumes "fetched (handler P env net req) = Some config"
    and "net config = Received r" and "status r < 400"
    and "isM3U8 (or_else (resp_headers r ''content-type'') ''application/octet-stream'') (ax_url config)"
    and "resolvable P (upto_last_slash (ax_url config)) (playlist_lines P r)"
  shows "\<exists>d outs. sent_referer (handler P env net req) = Some d
           \<and> d \<noteq> []
           \<and> (case truthy (query_referer req) of
                 None \<Rightarrow> Some ''https://megacloud.tv''
               | Some referer \<Rightarrow> decodeURIComponent referer) = Some d
           \<and> reply (handler P env net req) = Some (status r, Send (join_lines outs))
           \<and> length outs = length (playlist_lines P r)
           \<and> (\<forall>i<length (playlist_lines P r).
                 rewrite_line P (upto_last_slash (ax_url config)) (getProxyBaseUrl env req)
                   (encodeURIComponent d) (playlist_lines P r ! i) = Some (outs ! i))"
proof -
  from handler_playlist [OF assms(1-4)] obtain d where
    d: "sent_referer (handler P env net req) = Some d"
    and dec: "(case truthy (query_referer req) of
                 None \<Rightarrow> Some ''https://megacloud.tv''
               | Some referer \<Rightarrow> decodeURIComponent referer) = Some d"
    and res: "result (handler P env net req) = Responded
               (case rewrite_playlist P (upto_last_slash (ax_url config)) (getProxyBaseUrl env req)
                       (encodeURIComponent d) (toString_utf8 P (resp_data r)) of
                  None \<Rightarrow> catch_error TypeError (ax_url config) (relay_headers r (ax_url config))
                | Some newContent \<Rightarrow>
                    \<lparr>res_status = status r, res_headers = relay_headers r (ax_url config),
                     res_body = Send newContent\<rparr>)"
    by blast
  let ?f = "rewrite_line P (upto_last_slash (ax_url config)) (getProxyBaseUrl env req)
              (encodeURIComponent d)"
  have "?f line \<noteq> None" if "line \<in> set (playlist_lines P r)" for line
  proof (rule rewrite_line_resolves)
    from assms(5) that
    show "if is_relative line
          then new_URL P (trim line) (Some (upto_last_slash (ax_url config))) \<noteq> None else True"
      unfolding resolvable_def list_all_iff by blast
  qed
  then have "list_all (\<lambda>x. x \<noteq> None) (map ?f (playlist_lines P r))"
    unfolding list_all_iff by auto
  then obtain outs where outs: "those (map ?f (playlist_lines P r)) = Some outs"
    using those_all_Some by blast
  from those_Some_nth [OF this]
  have len: "length outs = length (playlist_lines P r)"
    and nth: "\<forall>i<length (playlist_lines P r). ?f (playlist_lines P r ! i) = Some (outs ! i)"
    by auto
  from outs have "rewrite_playlist P (upto_last_slash (ax_url config)) (getProxyBaseUrl env req)
        (encodeURIComponent d) (toString_utf8 P (resp_data r)) = Some (join_lines outs)"
    by (simp add: rewrite_playlist_def playlist_lines_def)
  with res have rep: "reply (handler P env net req) = Some (status r, Send (join_lines outs))"
    by (simp add: reply_def)
  have "d \<noteq> []"
  proof (cases "truthy (query_referer req)")
    case None
    with dec show ?thesis by auto
  next
    case (Some referer)
    then have "referer \<noteq> []"
      by (auto simp: truthy_def split: option.splits if_splits)
    with Some dec show ?thesis
      using decode_nonempty by auto
  qed
  with d dec rep len nth show ?thesis
    by blast
qed

lemma handler2_playlist_lines:
  assumes "fetched (handler2 P net req) = Some config"
    and "net config = Received r" and "status r < 500"
    and "js_includes (or_else (resp_headers r ''content-type'') ''application/vnd.apple.mpegurl'') ''mpegurl''
         \<or> endsWith (ax_url config) ''.m3u8''"
  shows "sent_referer (handler2 P net req)
           = decodeURIComponent (or_else (query_referer req) ''https://megacloud.tv'')
       \<and> or_else (query_referer req) ''https://megacloud.tv'' \<noteq> []
       \<and> reply (handler2 P net req) =
            Some (status r,
                  Send (join_lines (map (rewrite_line2 (upto_last_slash (ax_url config))
                                           (forwarded_base (req_headers req)) (query_referer req))
                                     (playlist_lines P r))))"
proof -
  from handler2_playlist [OF assms]
  have sent: "sent_referer (handler2 P net req)
           = (case truthy (query_referer req) of
                None \<Rightarrow> Some ''https://megacloud.tv''
              | Some referer \<Rightarrow> decodeURIComponent referer)"
    and res: "result (handler2 P net req) = Responded
            \<lparr>res_status = status r, res_headers = relay_headers2 r (ax_url config),
             res_body = Send (rewrite_playlist2 (upto_last_slash (ax_url config))
                                (forwarded_base (req_headers req)) (query_referer req)
                                (toString_utf8 P (resp_data r)))\<rparr>"
    by blast+
  have "sent_referer (handler2 P net req)
          = decodeURIComponent (or_else (query_referer req) ''https://megacloud.tv'')"
    unfolding sent by (simp add: or_else_def default_referer_decoded split: option.splits)
  moreover have "or_else (query_referer req) ''https://megacloud.tv'' \<noteq> []"
    by (auto simp: or_else_def truthy_def split: option.splits if_splits)
  moreover have "reply (handler2 P net req) =
            Some (status r,
                  Send (join_lines (map (rewrite_line2 (upto_last_slash (ax_url config))
                                           (forwarded_base (req_headers req)) (query_referer req))
                                     (playlist_lines P r))))"
    by (simp add: reply_def res rewrite_playlist2_def playlist_lines_def)
  ultimately show ?thesis by blast
qed

text \<open>The \<open>Referer\<close> a handler sends for a request whose \<open>referer\<close> parameter is not empty.\<close>

lemma handler_sent_referer:
  assumes "fetched (handler P env net req) = Some config"
    and "query_referer req = Some referer" and "referer \<noteq> []"
  shows "sent_referer (handler P env net req) = decodeURIComponent referer"
proof -
  from handler_fetched [OF assms(1)] obtain d where
    "(case truthy (query_referer req) of
        None \<Rightarrow> Some ''https://megacloud.tv''
      | Some referer \<Rightarrow> decodeURIComponent referer) = Some d"
    and "ax_headers config = request_headers req d"
    by blast
  with assms show ?thesis
    by (simp add: sent_referer_def truthy_def request_headers_referer)
qed

lemma handler2_sent_referer:
  assumes "fetched (handler2 P net req) = Some config"
    and "query_referer req = Some referer" and "referer \<noteq> []"
  shows "sent_referer (handler2 P net req) = decodeURIComponent referer"
proof -
  from handler2_fetched [OF assms(1)] obtain hs where
    hs: "request_headers2 P req = Inr hs" and "ax_headers config = hs"
    by blast
  moreover from hs assms(2,3) have "hs ''Referer'' = decodeURIComponent referer"
    by (auto simp: request_headers2_def forward_def truthy_def split: option.splits)
  ultimately show ?thesis
    using assms(1) by (simp add: sent_referer_def)
qed

subsection \<open>Reference lines\<close>








subsection \<open>Blank lines and comment lines\<close>

lemma comment_line_rewritten:
  assumes "\<not> is_reference line"
  shows "\<not> js_includes (trim line) ''URI=\"''
         \<Longrightarrow> rewrite_line P basePath proxyBase encodedReferer line = Some line"
    and "first_uri_match (trim line) before uri after
         \<Longrightarrow> rewrite_line P basePath proxyBase encodedReferer line
             = Some (case (if startsWith uri ''http'' then Some uri
                           else map_option href (new_URL P uri (Some basePath))) of
                       None \<Rightarrow> trim line
                     | Some targetUrl \<Rightarrow>
                         before @ ''URI=\"''
                         @ proxy_link proxyBase (encodeURIComponent targetUrl) encodedReferer
                         @ ''\"'' @ after)"
    and "js_includes (trim line) ''URI=\"'' \<Longrightarrow> \<forall>b u a. \<not> uri_attribute_at (trim line) b u a
         \<Longrightarrow> rewrite_line P basePath proxyBase encodedReferer line = Some (trim line)"
    and "rewrite_line2 basePath proxyBase referer line = trim line"
proof -
  from assms have c: "trim line = [] \<or> startsWith (trim line) ''#''"
    by (simp add: is_reference_def split: if_splits)
  show "rewrite_line P basePath proxyBase encodedReferer line = Some line"
    if "\<not> js_includes (trim line) ''URI=\"''"
    using c that by (simp add: rewrite_line_def Let_def)
  show "rewrite_line P basePath proxyBase encodedReferer line
             = Some (case (if startsWith uri ''http'' then Some uri
                           else map_option href (new_URL P uri (Some basePath))) of
                       None \<Rightarrow> trim line
                     | Some targetUrl \<Rightarrow>
                         before @ ''URI=\"''
                         @ proxy_link proxyBase (encodeURIComponent targetUrl) encodedReferer
                         @ ''\"'' @ after)"
    if "first_uri_match (trim line) before uri after"
  proof -
    from that have f: "find_uri_attr (trim line) = Some (before, uri, after)"
      by (rule iffD2 [OF find_uri_attr_first])
    then have "js_includes (trim line) ''URI=\"''"
      by (rule find_uri_attr_includes)
    with c f show ?thesis
      by (simp add: rewrite_line_def rewriteUriInTag_def Let_def)
  qed
  show "rewrite_line P basePath proxyBase encodedReferer line = Some (trim line)"
    if "js_includes (trim line) ''URI=\"''" and "\<forall>b u a. \<not> uri_attribute_at (trim line) b u a"
  proof -
    from that(2) have "find_uri_attr (trim line) = None"
      by (rule iffD2 [OF find_uri_attr_none])
    with c that(1) show ?thesis
      by (simp add: rewrite_line_def rewriteUriInTag_def Let_def)
  qed
  show "rewrite_line2 basePath proxyBase referer line = trim line"
    using c by (auto simp: rewrite_line2_def Let_def)
qed

lemma triple_nth: "length xs = 3 \<Longrightarrow> xs = [xs ! 0, xs ! 1, xs ! 2]"
proof -
  assume "length xs = 3"
  then obtain a b c where "xs = [a, b, c]"
    by (cases xs; cases "tl xs"; cases "tl (tl xs)") auto
  then show ?thesis by simp
qed

lemma comment_playlist_lines:
  "split_lines comment_playlist = [crlf_line, crlf_key_line, empty_uri_line]"
  "resolvable sample_platform ''https://cdn.example.com/videos/abc/''
     [crlf_line, crlf_key_line, empty_uri_line]"
  "\<not> is_reference crlf_line" "\<not> is_reference crlf_key_line" "\<not> is_reference empty_uri_line"
  "trim crlf_key_line = key_line"
  "(case (if startsWith ''key.bin'' ''http'' then Some ''key.bin''
          else map_option href
                 (new_URL sample_platform ''key.bin'' (Some ''https://cdn.example.com/videos/abc/''))) of
      None \<Rightarrow> key_line
    | Some targetUrl \<Rightarrow>
        ''#EXT-X-KEY:METHOD=AES-128,'' @ ''URI=\"''
        @ proxy_link ''https://p.example'' (encodeURIComponent targetUrl) ''https%3A%2F%2Fmegacloud.tv''
        @ ''\"'' @ [])
   = ''#EXT-X-KEY:METHOD=AES-128,URI=\"https://p.example/api/proxy?url=https%3A%2F%2Fcdn.example.com%2Fvideos%2Fabc%2Fkey.bin&referer=https%3A%2F%2Fmegacloud.tv\"''"
  "rewrite_playlist sample_platform ''https://cdn.example.com/videos/abc/'' ''https://p.example''
     ''https%3A%2F%2Fmegacloud.tv'' comment_playlist
   = Some (join_lines
       [''#EXTM3U'' @ [CHR 0x0D],
        ''#EXT-X-KEY:METHOD=AES-128,URI=\"https://p.example/api/proxy?url=https%3A%2F%2Fcdn.example.com%2Fvideos%2Fabc%2Fkey.bin&referer=https%3A%2F%2Fmegacloud.tv\"'',
        ''#EXT-X-MAP:URI=\"\"''])"
  "rewrite_playlist2 ''https://cdn.example.com/videos/abc/'' ''https://p.example'' None comment_playlist
   = join_lines [''#EXTM3U'', ''#EXT-X-KEY:METHOD=AES-128,URI=\"key.bin\"'', ''#EXT-X-MAP:URI=\"\"'']"
  by code_simp+

lemma key_line_first_match:
  "first_uri_match key_line ''#EXT-X-KEY:METHOD=AES-128,'' ''key.bin'' []"
  by (rule iffD1 [OF find_uri_attr_first, OF sample_lines(4)])

lemma empty_uri_no_match:
  "\<forall>b u a. \<not> uri_attribute_at ''#EXT-X-MAP:URI=\"\"'' b u a"
  by (rule iffD1 [OF find_uri_attr_none, OF sample_lines(5)])

text \<open>
  C4 (as amended). In a playlist response of the first handler whose relative references
  all resolve, the line put in the place of a blank line or of a comment line is: the line
  itself, surrounding white space included, when its trimmed text does not contain \<open>URI="\<close>;
  when \<open>URI="\<close>, a value that is not empty and holds no quote, and a closing quote occur in
  the trimmed text, the trimmed text in which the value of the first such occurrence, and
  nothing else, is replaced by the proxy link of the value (taken as it is when it starts
  with \<open>http\<close>, resolved against the directory of the upstream URL otherwise), or the trimmed
  text unchanged when the value does not resolve; the trimmed text when it contains \<open>URI="\<close>
  with no such occurrence. The \<open>referer\<close> parameter of the link is the percent-encoding of the
  \<open>Referer\<close> sent upstream. The second handler puts the trimmed text in the place of every
  blank line and every comment line, and rewrites no attribute.
\<close>

theorem comment_lines:
  "(fetched (handler P env net req) = Some config \<and> net config = Received r \<and> status r < 400
      \<and> isM3U8 (or_else (resp_headers r ''content-type'') ''application/octet-stream'') (ax_url config)
      \<and> resolvable P (upto_last_slash (ax_url config)) (playlist_lines P r)
    \<longrightarrow> (\<exists>d outs.
            sent_referer (handler P env net req) = Some d
          \<and> reply (handler P env net req) = Some (status r, Send (join_lines outs))
          \<and> length outs = length (playlist_lines P r)
          \<and> (\<forall>i<length (playlist_lines P r).
                \<not> is_reference (playlist_lines P r ! i)
                \<and> \<not> js_includes (trim (playlist_lines P r ! i)) ''URI=\"''
                \<longrightarrow> outs ! i = playlist_lines P r ! i)
          \<and> (\<forall>i<length (playlist_lines P r). \<forall>before uri after.
                \<not> is_reference (playlist_lines P r ! i)
                \<and> first_uri_match (trim (playlist_lines P r ! i)) before uri after
                \<longrightarrow> outs ! i =
                      (case (if startsWith uri ''http'' then Some uri
                             else map_option href
                                    (new_URL P uri (Some (upto_last_slash (ax_url config))))) of
                         None \<Rightarrow> trim (playlist_lines P r ! i)
                       | Some targetUrl \<Rightarrow>
                           before @ ''URI=\"''
                           @ proxy_link (getProxyBaseUrl env req) (encodeURIComponent targetUrl)
                               (encodeURIComponent d)
                           @ ''\"'' @ after))
          \<and> (\<forall>i<length (playlist_lines P r).
                \<not> is_reference (playlist_lines P r ! i)
                \<and> js_includes (trim (playlist_lines P r ! i)) ''URI=\"''
                \<and> (\<forall>b u a. \<not> uri_attribute_at (trim (playlist_lines P r ! i)) b u a)
                \<longrightarrow> outs ! i = trim (playlist_lines P r ! i))))
   \<and> (fetched (handler2 P net req) = Some config \<and> net config = Received r \<and> status r < 500
      \<and> (js_includes (or_else (resp_headers r ''content-type'') ''application/vnd.apple.mpegurl'')
            ''mpegurl'' \<or> endsWith (ax_url config) ''.m3u8'')
    \<longrightarrow> (\<exists>outs.
            reply (handler2 P net req) = Some (status r, Send (join_lines outs))
          \<and> length outs = length (playlist_lines P r)
          \<and> (\<forall>i<length (playlist_lines P r).
                \<not> is_reference (playlist_lines P r ! i)
                \<longrightarrow> outs ! i = trim (playlist_lines P r ! i))))"
proof (intro conjI impI)
  assume a: "fetched (handler P env net req) = Some config \<and> net config = Received r \<and> status r < 400
      \<and> isM3U8 (or_else (resp_headers r ''content-type'') ''application/octet-stream'') (ax_url config)
      \<and> resolvable P (upto_last_slash (ax_url config)) (playlist_lines P r)"
  let ?lines = "playlist_lines P r"
  let ?base = "upto_last_slash (ax_url config)"
  from a handler_playlist_lines [of P env net req config r] obtain d outs where
    d: "sent_referer (handler P env net req) = Some d"
    and rep: "reply (handler P env net req) = Some (status r, Send (join_lines outs))"
    and len: "length outs = length ?lines"
    and nth: "\<forall>i<length ?lines.
                rewrite_line P ?base (getProxyBaseUrl env req)
                  (encodeURIComponent d) (?lines ! i) = Some (outs ! i)"
    by blast
  have one: "\<forall>i<length ?lines.
                \<not> is_reference (?lines ! i) \<and> \<not> js_includes (trim (?lines ! i)) ''URI=\"''
                \<longrightarrow> outs ! i = ?lines ! i"
  proof (intro allI impI)
    fix i
    assume "i < length ?lines"
      and "\<not> is_reference (?lines ! i) \<and> \<not> js_includes (trim (?lines ! i)) ''URI=\"''"
    with nth comment_line_rewritten(1) [of "?lines ! i" P ?base "getProxyBaseUrl env req"
        "encodeURIComponent d"]
    have "Some (outs ! i) = Some (?lines ! i)"
      by metis
    then show "outs ! i = ?lines ! i"
      by simp
  qed
  have two: "\<forall>i<length ?lines. \<forall>before uri after.
                \<not> is_reference (?lines ! i) \<and> first_uri_match (trim (?lines ! i)) before uri after
                \<longrightarrow> outs ! i =
                      (case (if startsWith uri ''http'' then Some uri
                             else map_option href (new_URL P uri (Some ?base))) of
                         None \<Rightarrow> trim (?lines ! i)
                       | Some targetUrl \<Rightarrow>
                           before @ ''URI=\"''
                           @ proxy_link (getProxyBaseUrl env req) (encodeURIComponent targetUrl)
                               (encodeURIComponent d)
                           @ ''\"'' @ after)"
  proof (intro allI impI)
    fix i before uri after
    assume "i < length ?lines"
      and "\<not> is_reference (?lines ! i) \<and> first_uri_match (trim (?lines ! i)) before uri after"
    with nth comment_line_rewritten(2) [of "?lines ! i" before uri after P ?base
        "getProxyBaseUrl env req" "encodeURIComponent d"]
    have "Some (outs ! i) =
            Some (case (if startsWith uri ''http'' then Some uri
                        else map_option href (new_URL P uri (Some ?base))) of
                    None \<Rightarrow> trim (?lines ! i)
                  | Some targetUrl \<Rightarrow>
                      before @ ''URI=\"''
                      @ proxy_link (getProxyBaseUrl env req) (encodeURIComponent targetUrl)
                          (encodeURIComponent d)
                      @ ''\"'' @ after)"
      by metis
    then show "outs ! i =
                 (case (if startsWith uri ''http'' then Some uri
                        else map_option href (new_URL P uri (Some ?base))) of
                    None \<Rightarrow> trim (?lines ! i)
                  | Some targetUrl \<Rightarrow>
                      before @ ''URI=\"''
                      @ proxy_link (getProxyBaseUrl env req) (encodeURIComponent targetUrl)
                          (encodeURIComponent d)
                      @ ''\"'' @ after)"
      by (simp only: option.inject)
  qed
  have three: "\<forall>i<length ?lines.
                \<not> is_reference (?lines ! i) \<and> js_includes (trim (?lines ! i)) ''URI=\"''
                \<and> (\<forall>b u a. \<not> uri_attribute_at (trim (?lines ! i)) b u a)
                \<longrightarrow> outs ! i = trim (?lines ! i)"
  proof (intro allI impI)
    fix i
    assume "i < length ?lines"
      and "\<not> is_reference (?lines ! i) \<and> js_includes (trim (?lines ! i)) ''URI=\"''
           \<and> (\<forall>b u a. \<not> uri_attribute_at (trim (?lines ! i)) b u a)"
    with nth comment_line_rewritten(3) [of "?lines ! i" P ?base "getProxyBaseUrl env req"
        "encodeURIComponent d"]
    have "Some (outs ! i) = Some (trim (?lines ! i))"
      by metis
    then show "outs ! i = trim (?lines ! i)"
      by simp
  qed
  from d rep len one two three
  show "\<exists>d outs.
            sent_referer (handler P env net req) = Some d
          \<and> reply (handler P env net req) = Some (status r, Send (join_lines outs))
          \<and> length outs = length ?lines
          \<and> (\<forall>i<length ?lines.
                \<not> is_reference (?lines ! i) \<and> \<not> js_includes (trim (?lines ! i)) ''URI=\"''
                \<longrightarrow> outs ! i = ?lines ! i)
          \<and> (\<forall>i<length ?lines. \<forall>before uri after.
                \<not> is_reference (?lines ! i) \<and> first_uri_match (trim (?lines ! i)) before uri after
                \<longrightarrow> outs ! i =
                      (case (if startsWith uri ''http'' then Some uri
                             else map_option href (new_URL P uri (Some ?base))) of
                         None \<Rightarrow> trim (?lines ! i)
                       | Some targetUrl \<Rightarrow>
                           before @ ''URI=\"''
                           @ proxy_link (getProxyBaseUrl env req) (encodeURIComponent targetUrl)
                               (encodeURIComponent d)
                           @ ''\"'' @ after))
          \<and> (\<forall>i<length ?lines.
                \<not> is_reference (?lines ! i) \<and> js_includes (trim (?lines ! i)) ''URI=\"''
                \<and> (\<forall>b u a. \<not> uri_attribute_at (trim (?lines ! i)) b u a)
                \<longrightarrow> outs ! i = trim (?lines ! i))"
    by (intro exI [of _ d] exI [of _ outs] conjI)
next
  assume a: "fetched (handler2 P net req) = Some config \<and> net config = Received r \<and> status r < 500
      \<and> (js_includes (or_else (resp_headers r ''content-type'') ''application/vnd.apple.mpegurl'')
            ''mpegurl'' \<or> endsWith (ax_url config) ''.m3u8'')"
  let ?lines = "playlist_lines P r"
  let ?f = "rewrite_line2 (upto_last_slash (ax_url config)) (forwarded_base (req_headers req))
              (query_referer req)"
  from a handler2_playlist_lines [of P net req config r]
  have rep: "reply (handler2 P net req) = Some (status r, Send (join_lines (map ?f ?lines)))"
    by blast
  have "\<forall>i<length ?lines. \<not> is_reference (?lines ! i) \<longrightarrow> map ?f ?lines ! i = trim (?lines ! i)"
    by (simp add: comment_line_rewritten(4))
  with rep
  show "\<exists>outs.
            reply (handler2 P net req) = Some (status r, Send (join_lines outs))
          \<and> length outs = length ?lines
          \<and> (\<forall>i<length ?lines. \<not> is_reference (?lines ! i) \<longrightarrow> outs ! i = trim (?lines ! i))"
    by (intro exI [of _ "map ?f ?lines"] conjI) simp_all
qed

lemma comment_playlist_text:
  "split_lines comment_playlist
   = [''#EXTM3U'' @ [CHR 0x0D],
      ''#EXT-X-KEY:METHOD=AES-128,URI=\"key.bin\"'' @ [CHR 0x0D],
      ''#EXT-X-MAP:URI=\"\"'' @ [CHR 0x0D]]"
  by code_simp

theorem comment_lines_witness:
  "fetched (handler sample_platform None (serves ''application/vnd.apple.mpegurl'' comment_playlist)
              sample_request)
     = Some (config_for sample_request ''https://cdn.example.com/videos/abc/playlist.m3u8'')
   \<and> playlist_lines sample_platform
        \<lparr>status = 200, statusText = ''OK'',
         resp_headers = [''content-type'' \<mapsto> ''application/vnd.apple.mpegurl''],
         resp_data = comment_playlist\<rparr>
     = [crlf_line, crlf_key_line, empty_uri_line]
   \<and> resolvable sample_platform ''https://cdn.example.com/videos/abc/''
        [crlf_line, crlf_key_line, empty_uri_line]
   \<and> \<not> is_reference crlf_line \<and> \<not> js_includes (trim crlf_line) ''URI=\"''
   \<and> \<not> is_reference crlf_key_line
   \<and> first_uri_match (trim crlf_key_line) ''#EXT-X-KEY:METHOD=AES-128,'' ''key.bin'' []
   \<and> \<not> is_reference empty_uri_line \<and> js_includes (trim empty_uri_line) ''URI=\"''
   \<and> (\<forall>b u a. \<not> uri_attribute_at (trim empty_uri_line) b u a)
   \<and> reply (handler sample_platform None (serves ''application/vnd.apple.mpegurl'' comment_playlist)
              sample_request)
     = Some (200, Send (join_lines
         [crlf_line,
          ''#EXT-X-KEY:METHOD=AES-128,URI=\"https://p.example/api/proxy?url=https%3A%2F%2Fcdn.example.com%2Fvideos%2Fabc%2Fkey.bin&referer=https%3A%2F%2Fmegacloud.tv\"'',
          ''#EXT-X-MAP:URI=\"\"'']))
   \<and> fetched (handler2 sample_platform (serves ''application/vnd.apple.mpegurl'' comment_playlist)
              sample_request)
     = Some (config2_for ''https://cdn.example.com/videos/abc/playlist.m3u8'')
   \<and> reply (handler2 sample_platform (serves ''application/vnd.apple.mpegurl'' comment_playlist)
              sample_request)
     = Some (200, Send (join_lines [''#EXTM3U'', key_line, ''#EXT-X-MAP:URI=\"\"'']))"
proof -
  let ?net = "serves ''application/vnd.apple.mpegurl'' comment_playlist"
  let ?u = "''https://cdn.example.com/videos/abc/playlist.m3u8''"
  let ?r = "\<lparr>status = 200, statusText = ''OK'',
             resp_headers = [''content-type'' \<mapsto> ''application/vnd.apple.mpegurl''],
             resp_data = comment_playlist\<rparr>"
  let ?lines = "playlist_lines sample_platform ?r"
  let ?base1 = "upto_last_slash (ax_url (config_for sample_request ?u))"
  let ?key = "''#EXT-X-KEY:METHOD=AES-128,URI=\"https://p.example/api/proxy?url=https%3A%2F%2Fcdn.example.com%2Fvideos%2Fabc%2Fkey.bin&referer=https%3A%2F%2Fmegacloud.tv\"''"
  note first = comment_lines [where P = sample_platform and env = None
      and net = ?net and req = sample_request and config = "config_for sample_request ?u"
      and r = ?r]
  note second = comment_lines [where P = sample_platform and net = ?net
      and req = sample_request and config = "config2_for ?u" and r = ?r]
  have f1: "fetched (handler sample_platform None ?net sample_request) = Some (config_for sample_request ?u)"
    by (rule sample_request_fetched)
  have f2: "fetched (handler2 sample_platform ?net sample_request) = Some (config2_for ?u)"
    by (rule sample_request_fetched2)
  have lines: "?lines = [crlf_line, crlf_key_line, empty_uri_line]"
    by (simp add: playlist_lines_def sample_platform_def comment_playlist_lines(1))
  have base: "?base1 = ''https://cdn.example.com/videos/abc/''"
    by (simp add: config_for_def sample_base)
  have res: "resolvable sample_platform ''https://cdn.example.com/videos/abc/''
               [crlf_line, crlf_key_line, empty_uri_line]"
    by (rule comment_playlist_lines(2))
  have st: "status ?r = 200"
    by simp
  have len3: "length ?lines = 3" and i0: "0 < length ?lines" and i1: "1 < length ?lines"
    and i2: "2 < length ?lines"
    and n0: "?lines ! 0 = crlf_line" and n1: "?lines ! 1 = crlf_key_line"
    and n2: "?lines ! 2 = empty_uri_line"
    by (simp_all add: lines)
  have k0: "\<not> is_reference crlf_line" "\<not> js_includes (trim crlf_line) ''URI=\"''"
    by (simp_all add: comment_playlist_lines(3) sample_lines(1,7))
  have k1: "\<not> is_reference crlf_key_line"
    "first_uri_match (trim crlf_key_line) ''#EXT-X-KEY:METHOD=AES-128,'' ''key.bin'' []"
    by (simp_all only: comment_playlist_lines(4,6) key_line_first_match not_False_eq_True)
  have k2: "\<not> is_reference empty_uri_line" "js_includes (trim empty_uri_line) ''URI=\"''"
    "\<forall>b u a. \<not> uri_attribute_at (trim empty_uri_line) b u a"
    unfolding sample_lines(3)
    by (rule comment_playlist_lines(5) sample_lines(6) empty_uri_no_match)+
  have "?net (config_for sample_request ?u) = Received ?r \<and> status ?r < 400
      \<and> isM3U8 (or_else (resp_headers ?r ''content-type'') ''application/octet-stream'')
           (ax_url (config_for sample_request ?u))
      \<and> resolvable sample_platform ?base1 ?lines"
    unfolding lines base using res by (simp add: serves_def sample_playlist_content_type)
  with first f1 obtain d outs where
    d: "sent_referer (handler sample_platform None ?net sample_request) = Some d"
    and rep: "reply (handler sample_platform None ?net sample_request)
                = Some (status ?r, Send (join_lines outs))"
    and len: "length outs = length ?lines"
    and one: "\<forall>i<length ?lines.
                \<not> is_reference (?lines ! i) \<and> \<not> js_includes (trim (?lines ! i)) ''URI=\"''
                \<longrightarrow> outs ! i = ?lines ! i"
    and two: "\<forall>i<length ?lines. \<forall>before uri after.
                \<not> is_reference (?lines ! i) \<and> first_uri_match (trim (?lines ! i)) before uri after
                \<longrightarrow> outs ! i =
                      (case (if startsWith uri ''http'' then Some uri
                             else map_option href (new_URL sample_platform uri (Some ?base1))) of
                         None \<Rightarrow> trim (?lines ! i)
                       | Some targetUrl \<Rightarrow>
                           before @ ''URI=\"''
                           @ proxy_link (getProxyBaseUrl None sample_request)
                               (encodeURIComponent targetUrl) (encodeURIComponent d)
                           @ ''\"'' @ after)"
    and three: "\<forall>i<length ?lines.
                \<not> is_reference (?lines ! i) \<and> js_includes (trim (?lines ! i)) ''URI=\"''
                \<and> (\<forall>b u a. \<not> uri_attribute_at (trim (?lines ! i)) b u a)
                \<longrightarrow> outs ! i = trim (?lines ! i)"
    by blast
  from d have dd: "d = ''https://megacloud.tv''"
    by (simp add: sample_sent_referer)
  from one i0 k0 have o0: "outs ! 0 = crlf_line"
    unfolding n0 [symmetric] by blast
  from two i1 k1 have "outs ! 1 =
                      (case (if startsWith ''key.bin'' ''http'' then Some ''key.bin''
                             else map_option href (new_URL sample_platform ''key.bin'' (Some ?base1))) of
                         None \<Rightarrow> trim (?lines ! 1)
                       | Some targetUrl \<Rightarrow>
                           ''#EXT-X-KEY:METHOD=AES-128,'' @ ''URI=\"''
                           @ proxy_link (getProxyBaseUrl None sample_request)
                               (encodeURIComponent targetUrl) (encodeURIComponent d)
                           @ ''\"'' @ [])"
    unfolding n1 [symmetric] by blast
  then have o1: "outs ! 1 = ?key"
    by (simp only: n1 base dd default_referer_encoded sample_proxy_base(1)
        comment_playlist_lines(6,7))
  from three i2 k2 have "outs ! 2 = trim (?lines ! 2)"
    unfolding n2 [symmetric] by blast
  then have o2: "outs ! 2 = ''#EXT-X-MAP:URI=\"\"''"
    by (simp only: n2 sample_lines(3))
  from len len3 have "outs = [outs ! 0, outs ! 1, outs ! 2]"
    by (simp only: triple_nth)
  then have "outs = [crlf_line, ?key, ''#EXT-X-MAP:URI=\"\"'']"
    by (simp only: o0 o1 o2)
  with rep have r1: "reply (handler sample_platform None ?net sample_request)
      = Some (200, Send (join_lines [crlf_line, ?key, ''#EXT-X-MAP:URI=\"\"'']))"
    by (simp only: st)
  have "?net (config2_for ?u) = Received ?r \<and> status ?r < 500
      \<and> (js_includes (or_else (resp_headers ?r ''content-type'') ''application/vnd.apple.mpegurl'')
            ''mpegurl'' \<or> endsWith (ax_url (config2_for ?u)) ''.m3u8'')"
    by (simp add: serves_def or_else_def truthy_def)
  with second f2 obtain outs2 where
    rep2: "reply (handler2 sample_platform ?net sample_request)
                = Some (status ?r, Send (join_lines outs2))"
    and len2: "length outs2 = length ?lines"
    and nth2: "\<forall>i<length ?lines. \<not> is_reference (?lines ! i) \<longrightarrow> outs2 ! i = trim (?lines ! i)"
    by blast
  from nth2 i0 k0(1) have "outs2 ! 0 = trim (?lines ! 0)"
    unfolding n0 [symmetric] by blast
  then have p0: "outs2 ! 0 = ''#EXTM3U''"
    by (simp only: n0 sample_lines(1))
  from nth2 i1 k1(1) have "outs2 ! 1 = trim (?lines ! 1)"
    unfolding n1 [symmetric] by blast
  then have p1: "outs2 ! 1 = key_line"
    by (simp only: n1 comment_playlist_lines(6))
  from nth2 i2 k2(1) have "outs2 ! 2 = trim (?lines ! 2)"
    unfolding n2 [symmetric] by blast
  then have p2: "outs2 ! 2 = ''#EXT-X-MAP:URI=\"\"''"
    by (simp only: n2 sample_lines(3))
  from len2 len3 have "outs2 = [outs2 ! 0, outs2 ! 1, outs2 ! 2]"
    by (simp only: triple_nth)
  then have "outs2 = [''#EXTM3U'', key_line, ''#EXT-X-MAP:URI=\"\"'']"
    by (simp only: p0 p1 p2)
  with rep2 have r2: "reply (handler2 sample_platform ?net sample_request)
      = Some (200, Send (join_lines [''#EXTM3U'', key_line, ''#EXT-X-MAP:URI=\"\"'']))"
    by (simp only: st)
  from f1 lines res k0 k1 k2 r1 f2 r2 show ?thesis
    by blast
qed

text \<open>
  The claim as it stands fails in both handlers, on a playlist of three comment lines that
  end in a carriage return each. The first handler keeps the carriage return of the line
  without \<open>URI\<close>, but drops it from the key directive, whose value it rewrites, and from the
  directive whose \<open>URI\<close> attribute is empty, which it does not rewrite. The second handler
  drops the carriage return of all three and rewrites no value.
\<close>

theorem comment_lines_counterexample:
  "split_lines comment_playlist
     = [''#EXTM3U'' @ [CHR 0x0D],
        ''#EXT-X-KEY:METHOD=AES-128,URI=\"key.bin\"'' @ [CHR 0x0D],
        ''#EXT-X-MAP:URI=\"\"'' @ [CHR 0x0D]]
   \<and> reply (handler sample_platform None (serves ''application/vnd.apple.mpegurl'' comment_playlist)
              sample_request)
     = Some (200, Send (join_lines
         [''#EXTM3U'' @ [CHR 0x0D],
          ''#EXT-X-KEY:METHOD=AES-128,URI=\"https://p.example/api/proxy?url=https%3A%2F%2Fcdn.example.com%2Fvideos%2Fabc%2Fkey.bin&referer=https%3A%2F%2Fmegacloud.tv\"'',
          ''#EXT-X-MAP:URI=\"\"'']))
   \<and> reply (handler2 sample_platform (serves ''application/vnd.apple.mpegurl'' comment_playlist)
              sample_request)
     = Some (200, Send (join_lines
         [''#EXTM3U'', ''#EXT-X-KEY:METHOD=AES-128,URI=\"key.bin\"'', ''#EXT-X-MAP:URI=\"\"'']))"
proof (intro conjI)
  show "split_lines comment_playlist
     = [''#EXTM3U'' @ [CHR 0x0D],
        ''#EXT-X-KEY:METHOD=AES-128,URI=\"key.bin\"'' @ [CHR 0x0D],
        ''#EXT-X-MAP:URI=\"\"'' @ [CHR 0x0D]]"
    by (rule comment_playlist_text)
  show "reply (handler sample_platform None (serves ''application/vnd.apple.mpegurl'' comment_playlist)
              sample_request)
     = Some (200, Send (join_lines
         [''#EXTM3U'' @ [CHR 0x0D],
          ''#EXT-X-KEY:METHOD=AES-128,URI=\"https://p.example/api/proxy?url=https%3A%2F%2Fcdn.example.com%2Fvideos%2Fabc%2Fkey.bin&referer=https%3A%2F%2Fmegacloud.tv\"'',
          ''#EXT-X-MAP:URI=\"\"'']))"
    by (simp only: sample_playlist_reply comment_playlist_lines(8) option.case)
  show "reply (handler2 sample_platform (serves ''application/vnd.apple.mpegurl'' comment_playlist)
              sample_request)
     = Some (200, Send (join_lines
         [''#EXTM3U'', ''#EXT-X-KEY:METHOD=AES-128,URI=\"key.bin\"'', ''#EXT-X-MAP:URI=\"\"'']))"
    by (simp only: sample_playlist_reply2 comment_playlist_lines(9))
qed

subsection \<open>The referer of the links in a reply\<close>

lemma uri_attribute_referer:
  assumes "\<not> is_reference line" and "first_uri_match (trim line) before uri after"
    and "rewrite_line P basePath proxyBase (encodeURIComponent d) line = Some out"
  shows "out = trim line
       \<or> (\<exists>link. out = before @ ''URI=\"'' @ link @ ''\"'' @ after
             \<and> link_referer link = encodeURIComponent d)"
proof -
  let ?target = "if startsWith uri ''http'' then Some uri
                 else map_option href (new_URL P uri (Some basePath))"
  from comment_line_rewritten(2) [OF assms(1,2), of P basePath proxyBase "encodeURIComponent d"] assms(3)
  have out: "out = (case ?target of
                      None \<Rightarrow> trim line
                    | Some targetUrl \<Rightarrow>
                        before @ ''URI=\"''
                        @ proxy_link proxyBase (encodeURIComponent targetUrl) (encodeURIComponent d)
                        @ ''\"'' @ after)"
    by simp
  show ?thesis
  proof (cases ?target)
    case None
    with out show ?thesis by simp
  next
    case (Some targetUrl)
    with out have "out = before @ ''URI=\"''
                        @ proxy_link proxyBase (encodeURIComponent targetUrl) (encodeURIComponent d)
                        @ ''\"'' @ after"
      by simp
    then show ?thesis
      using link_referer_proxy_link [of proxyBase "encodeURIComponent targetUrl" d] by blast
  qed
qed

text \<open>
  C6 (as amended). A request through a link of a rewritten playlist reaches the handler with
  the \<open>referer\<close> parameter of the link percent-decoded once by the query parser. For every
  playlist response of the first handler whose relative references all resolve, to a request
  whose \<open>referer\<close> is text, the \<open>Referer\<close> sent upstream equals the percent-decoded \<open>referer\<close>
  parameter of every link of the response, in reference lines and in \<open>URI\<close> attributes alike;
  but a request through such a link that reaches the upstream presents the percent-decoding
  of that \<open>Referer\<close>, because the handler decodes the parameter a second time, and none
  reaches the upstream when it cannot be decoded. For every playlist response of the second
  handler, the percent-decoded \<open>referer\<close> parameter of every link is the \<open>referer\<close> parameter
  of the request as it arrived (or the default), of which the \<open>Referer\<close> sent upstream is the
  percent-decoding; a request through such a link that reaches the upstream presents the
  same \<open>Referer\<close> as the request for the playlist did.
\<close>

theorem referer_of_links:
  "(fetched (handler P env net req) = Some config \<and> net config = Received r \<and> status r < 400
      \<and> isM3U8 (or_else (resp_headers r ''content-type'') ''application/octet-stream'') (ax_url config)
      \<and> resolvable P (upto_last_slash (ax_url config)) (playlist_lines P r)
      \<and> referer_text req
    \<longrightarrow> (\<exists>d outs.
            sent_referer (handler P env net req) = Some d
          \<and> reply (handler P env net req) = Some (status r, Send (join_lines outs))
          \<and> length outs = length (playlist_lines P r)
          \<and> (\<forall>i<length (playlist_lines P r).
                is_reference (playlist_lines P r ! i)
                \<longrightarrow> decodeURIComponent (link_referer (outs ! i)) = Some d)
          \<and> (\<forall>i<length (playlist_lines P r). \<forall>before uri after.
                \<not> is_reference (playlist_lines P r ! i)
                \<and> first_uri_match (trim (playlist_lines P r ! i)) before uri after
                \<longrightarrow> outs ! i = trim (playlist_lines P r ! i)
                    \<or> (\<exists>link. outs ! i = before @ ''URI=\"'' @ link @ ''\"'' @ after
                          \<and> decodeURIComponent (link_referer link) = Some d))
          \<and> (\<forall>P' env' net' req' config'.
                query_referer req' = Some d
                \<and> fetched (handler P' env' net' req') = Some config'
                \<longrightarrow> sent_referer (handler P' env' net' req') = decodeURIComponent d)))
   \<and> (fetched (handler2 P net req) = Some config \<and> net config = Received r \<and> status r < 500
      \<and> (js_includes (or_else (resp_headers r ''content-type'') ''application/vnd.apple.mpegurl'')
            ''mpegurl'' \<or> endsWith (ax_url config) ''.m3u8'')
      \<and> referer_text req
    \<longrightarrow> (\<exists>outs.
            sent_referer (handler2 P net req)
              = decodeURIComponent (or_else (query_referer req) ''https://megacloud.tv'')
          \<and> reply (handler2 P net req) = Some (status r, Send (join_lines outs))
          \<and> length outs = length (playlist_lines P r)
          \<and> (\<forall>i<length (playlist_lines P r).
                is_reference (playlist_lines P r ! i)
                \<longrightarrow> decodeURIComponent (link_referer (outs ! i))
                    = Some (or_else (query_referer req) ''https://megacloud.tv''))
          \<and> (\<forall>P' net' req' config'.
                query_referer req' = Some (or_else (query_referer req) ''https://megacloud.tv'')
                \<and> fetched (handler2 P' net' req') = Some config'
                \<longrightarrow> sent_referer (handler2 P' net' req') = sent_referer (handler2 P net req))))"
proof (intro conjI impI)
  assume a: "fetched (handler P env net req) = Some config \<and> net config = Received r \<and> status r < 400
      \<and> isM3U8 (or_else (resp_headers r ''content-type'') ''application/octet-stream'') (ax_url config)
      \<and> resolvable P (upto_last_slash (ax_url config)) (playlist_lines P r)
      \<and> referer_text req"
  let ?lines = "playlist_lines P r"
  let ?base = "upto_last_slash (ax_url config)"
  from a handler_playlist_lines [of P env net req config r] obtain d outs where
    d: "sent_referer (handler P env net req) = Some d"
    and ne: "d \<noteq> []"
    and dec: "(case truthy (query_referer req) of
                 None \<Rightarrow> Some ''https://megacloud.tv''
               | Some referer \<Rightarrow> decodeURIComponent referer) = Some d"
    and rep: "reply (handler P env net req) = Some (status r, Send (join_lines outs))"
    and len: "length outs = length ?lines"
    and nth: "\<forall>i<length ?lines.
                rewrite_line P ?base (getProxyBaseUrl env req)
                  (encodeURIComponent d) (?lines ! i) = Some (outs ! i)"
    by blast
  from a dec have round: "decodeURIComponent (encodeURIComponent d) = Some d"
    using decoded_referer_round_trip [of req d] by blast
  have one: "\<forall>i<length ?lines.
               is_reference (?lines ! i) \<longrightarrow> decodeURIComponent (link_referer (outs ! i)) = Some d"
  proof (intro allI impI)
    fix i
    assume "i < length ?lines" and ref: "is_reference (?lines ! i)"
    with nth have "rewrite_line P ?base (getProxyBaseUrl env req)
                     (encodeURIComponent d) (?lines ! i) = Some (outs ! i)"
      by blast
    from reference_line_link [OF ref this] obtain target where
      "outs ! i = proxy_link (getProxyBaseUrl env req) (encodeURIComponent target) (encodeURIComponent d)"
      by blast
    then have "link_referer (outs ! i) = encodeURIComponent d"
      by (simp only: link_referer_proxy_link)
    then show "decodeURIComponent (link_referer (outs ! i)) = Some d"
      by (simp only: round)
  qed
  have two: "\<forall>i<length ?lines. \<forall>before uri after.
                \<not> is_reference (?lines ! i) \<and> first_uri_match (trim (?lines ! i)) before uri after
                \<longrightarrow> outs ! i = trim (?lines ! i)
                    \<or> (\<exists>link. outs ! i = before @ ''URI=\"'' @ link @ ''\"'' @ after
                          \<and> decodeURIComponent (link_referer link) = Some d)"
  proof (intro allI impI)
    fix i before uri after
    assume i: "i < length ?lines"
      and c: "\<not> is_reference (?lines ! i) \<and> first_uri_match (trim (?lines ! i)) before uri after"
    from nth i have "rewrite_line P ?base (getProxyBaseUrl env req)
                     (encodeURIComponent d) (?lines ! i) = Some (outs ! i)"
      by blast
    with c uri_attribute_referer [of "?lines ! i" before uri after P ?base
        "getProxyBaseUrl env req" d "outs ! i"]
    have "outs ! i = trim (?lines ! i)
       \<or> (\<exists>link. outs ! i = before @ ''URI=\"'' @ link @ ''\"'' @ after
             \<and> link_referer link = encodeURIComponent d)"
      by blast
    with round show "outs ! i = trim (?lines ! i)
                    \<or> (\<exists>link. outs ! i = before @ ''URI=\"'' @ link @ ''\"'' @ after
                          \<and> decodeURIComponent (link_referer link) = Some d)"
      by metis
  qed
  have three: "\<forall>P' env' net' req' config'.
                query_referer req' = Some d
                \<and> fetched (handler P' env' net' req') = Some config'
                \<longrightarrow> sent_referer (handler P' env' net' req') = decodeURIComponent d"
    using handler_sent_referer ne by blast
  from d rep len one two three
  show "\<exists>d outs.
            sent_referer (handler P env net req) = Some d
          \<and> reply (handler P env net req) = Some (status r, Send (join_lines outs))
          \<and> length outs = length ?lines
          \<and> (\<forall>i<length ?lines.
                is_reference (?lines ! i)
                \<longrightarrow> decodeURIComponent (link_referer (outs ! i)) = Some d)
          \<and> (\<forall>i<length ?lines. \<forall>before uri after.
                \<not> is_reference (?lines ! i)
                \<and> first_uri_match (trim (?lines ! i)) before uri after
                \<longrightarrow> outs ! i = trim (?lines ! i)
                    \<or> (\<exists>link. outs ! i = before @ ''URI=\"'' @ link @ ''\"'' @ after
                          \<and> decodeURIComponent (link_referer link) = Some d))
          \<and> (\<forall>P' env' net' req' config'.
                query_referer req' = Some d
                \<and> fetched (handler P' env' net' req') = Some config'
                \<longrightarrow> sent_referer (handler P' env' net' req') = decodeURIComponent d)"
    by (intro exI [of _ d] exI [of _ outs] conjI)
next
  assume a: "fetched (handler2 P net req) = Some config \<and> net config = Received r \<and> status r < 500
      \<and> (js_includes (or_else (resp_headers r ''content-type'') ''application/vnd.apple.mpegurl'')
            ''mpegurl'' \<or> endsWith (ax_url config) ''.m3u8'')
      \<and> referer_text req"
  let ?lines = "playlist_lines P r"
  let ?raw = "or_else (query_referer req) ''https://megacloud.tv''"
  let ?f = "rewrite_line2 (upto_last_slash (ax_url config)) (forwarded_base (req_headers req))
              (query_referer req)"
  from a handler2_playlist_lines [of P net req config r]
  have sent: "sent_referer (handler2 P net req) = decodeURIComponent ?raw"
    and ne: "?raw \<noteq> []"
    and rep: "reply (handler2 P net req) = Some (status r, Send (join_lines (map ?f ?lines)))"
    by blast+
  from a have round: "decodeURIComponent (encodeURIComponent ?raw) = Some ?raw"
    using raw_referer_round_trip [of req] by blast
  have one: "\<forall>i<length ?lines.
               is_reference (?lines ! i)
               \<longrightarrow> decodeURIComponent (link_referer (map ?f ?lines ! i)) = Some ?raw"
  proof (intro allI impI)
    fix i
    assume i: "i < length ?lines" and ref: "is_reference (?lines ! i)"
    from reference_line_link2 [OF ref, of "upto_last_slash (ax_url config)"
        "forwarded_base (req_headers req)" "query_referer req"]
    obtain target where "?f (?lines ! i)
        = proxy_link (forwarded_base (req_headers req)) (encodeURIComponent target)
            (encodeURIComponent ?raw)"
      by blast
    then have "link_referer (?f (?lines ! i)) = encodeURIComponent ?raw"
      by (simp only: link_referer_proxy_link)
    with i show "decodeURIComponent (link_referer (map ?f ?lines ! i)) = Some ?raw"
      by (simp add: round del: decodeURIComponent.simps)
  qed
  have two: "\<forall>P' net' req' config'.
                query_referer req' = Some ?raw
                \<and> fetched (handler2 P' net' req') = Some config'
                \<longrightarrow> sent_referer (handler2 P' net' req') = sent_referer (handler2 P net req)"
    unfolding sent using handler2_sent_referer ne by blast
  from sent rep one two
  show "\<exists>outs.
            sent_referer (handler2 P net req) = decodeURIComponent ?raw
          \<and> reply (handler2 P net req) = Some (status r, Send (join_lines outs))
          \<and> length outs = length ?lines
          \<and> (\<forall>i<length ?lines.
                is_reference (?lines ! i)
                \<longrightarrow> decodeURIComponent (link_referer (outs ! i)) = Some ?raw)
          \<and> (\<forall>P' net' req' config'.
                query_referer req' = Some ?raw
                \<and> fetched (handler2 P' net' req') = Some config'
                \<longrightarrow> sent_referer (handler2 P' net' req') = sent_referer (handler2 P net req))"
    by (intro exI [of _ "map ?f ?lines"] conjI) simp_all
qed

subsection \<open>Requests that carry a referer, and requests through a link\<close>

lemma referer_decodings:
  "decodeURIComponent ''https://site.example/%2541'' = Some ''https://site.example/%41''"
  "decodeURIComponent ''https://site.example/A'' = Some ''https://site.example/A''"
  "decodeURIComponent ''https://cdn.example.com/videos/abc/segment001.ts''
   = Some ''https://cdn.example.com/videos/abc/segment001.ts''"
  "decodeURIComponent (link_referer ''https://p.example/api/proxy?url=https%3A%2F%2Fcdn.example.com%2Fvideos%2Fabc%2Fsegment001.ts&referer=https%3A%2F%2Fsite.example%2F%2541'')
   = Some ''https://site.example/%41''"
  by code_simp+

lemma twice_escaped_fetched:
  "\<exists>config. fetched (handler sample_platform env net twice_escaped_referer_request) = Some config
      \<and> ax_url config = ''https://cdn.example.com/videos/abc/playlist.m3u8''
      \<and> ax_headers config ''Referer'' = Some ''https://site.example/%41''"
  by (simp add: handler_def twice_escaped_referer_request_def sample_request_def truthy_def
      sample_url_decoded referer_decodings(1) sample_platform_def sample_URL_def Let_def
      request_headers_referer del: decodeURIComponent.simps)

lemma twice_escaped_values:
  "query_referer twice_escaped_referer_request = Some ''https://site.example/%2541''"
  "getProxyBaseUrl None twice_escaped_referer_request = ''https://p.example''"
  by (simp_all add: twice_escaped_referer_request_def sample_request_def getProxyBaseUrl_def
      forwarded_base_def truthy_def or_else_def)

lemma follow_up_fetched:
  "\<exists>config. fetched (handler sample_platform env net (follow_up_request ''https://site.example/%41''))
               = Some config
      \<and> ax_headers config ''Referer'' = Some ''https://site.example/A''"
  "\<exists>config. fetched (handler sample_platform env net (follow_up_request ''https://site.example/A''))
               = Some config
      \<and> ax_headers config ''Referer'' = Some ''https://site.example/A''"
  "\<exists>config. fetched (handler2 sample_platform net (follow_up_request ''https://site.example/%41''))
               = Some config
      \<and> ax_headers config ''Referer'' = Some ''https://site.example/A''"
  by (simp_all add: handler_def handler2_def follow_up_request_def truthy_def
      referer_decodings(2,3) escaped_referer_decoded sample_platform_def sample_URL_def Let_def
      request_headers_referer request_headers2_def forward_def del: decodeURIComponent.simps)

lemma sample_sent_referers:
  "sent_referer (handler sample_platform env net escaped_referer_request)
   = Some ''https://site.example/A''"
  "sent_referer (handler2 sample_platform net escaped_referer_request)
   = Some ''https://site.example/A''"
  "sent_referer (handler sample_platform env net twice_escaped_referer_request)
   = Some ''https://site.example/%41''"
  "sent_referer (handler sample_platform env net (follow_up_request ''https://site.example/%41''))
   = Some ''https://site.example/A''"
  "sent_referer (handler sample_platform env net (follow_up_request ''https://site.example/A''))
   = Some ''https://site.example/A''"
  "sent_referer (handler2 sample_platform net (follow_up_request ''https://site.example/%41''))
   = Some ''https://site.example/A''"
  using escaped_referer_fetched [of env net] escaped_referer_fetched2 [of net]
    twice_escaped_fetched [of env net] follow_up_fetched(1) [of env net]
    follow_up_fetched(2) [of env net] follow_up_fetched(3) [of net]
  by (auto simp: sent_referer_def)

lemma referer_playlist_reply:
  assumes "fetched (handler sample_platform None (serves ''application/vnd.apple.mpegurl'' content) req)
             = Some config"
    and "ax_url config = ''https://cdn.example.com/videos/abc/playlist.m3u8''"
    and "ax_headers config ''Referer'' = Some d"
    and "getProxyBaseUrl None req = ''https://p.example''"
  shows "reply (handler sample_platform None (serves ''application/vnd.apple.mpegurl'' content) req)
     = (case rewrite_playlist sample_platform ''https://cdn.example.com/videos/abc/''
               ''https://p.example'' (encodeURIComponent d) content of
          None \<Rightarrow> Some (500, Json [(''error'', JString ''Internal proxy error''),
                                   (''message'', JString ''Invalid URL''),
                                   (''url'', JString ''https://cdn.example.com/videos/abc/playlist.m3u8'')])
        | Some newContent \<Rightarrow> Some (200, Send newContent))"
proof -
  let ?net = "serves ''application/vnd.apple.mpegurl'' content"
  let ?r = "\<lparr>status = 200, statusText = ''OK'',
             resp_headers = [''content-type'' \<mapsto> ''application/vnd.apple.mpegurl''],
             resp_data = content\<rparr>"
  have "?net config = Received ?r" and "status ?r < 400"
    and "isM3U8 (or_else (resp_headers ?r ''content-type'') ''application/octet-stream'')
           (ax_url config)"
    by (simp_all add: serves_def sample_playlist_content_type)
  from handler_playlist [where P = sample_platform and env = None and net = ?net
      and req = req and config = config and r = ?r, OF assms(1) this]
  obtain d' where "sent_referer (handler sample_platform None ?net req) = Some d'"
    and "result (handler sample_platform None ?net req) = Responded
           (case rewrite_playlist sample_platform (upto_last_slash (ax_url config))
                   (getProxyBaseUrl None req)
                   (encodeURIComponent d') (toString_utf8 sample_platform (resp_data ?r)) of
              None \<Rightarrow> catch_error TypeError (ax_url config) (relay_headers ?r (ax_url config))
            | Some newContent \<Rightarrow>
                \<lparr>res_status = status ?r,
                 res_headers = relay_headers ?r (ax_url config),
                 res_body = Send newContent\<rparr>)"
    by blast
  moreover from this(1) have "d' = d"
    using assms(1,3) by (simp add: sent_referer_def)
  moreover have "toString_utf8 sample_platform content = content"
    by (simp add: sample_platform_def)
  ultimately show ?thesis
    by (simp add: reply_def assms(2,4) sample_base catch_error_def split: option.splits)
qed

lemma referer_playlist_reply2:
  assumes "fetched (handler2 sample_platform (serves ''application/vnd.apple.mpegurl'' content) req)
             = Some config"
    and "ax_url config = ''https://cdn.example.com/videos/abc/playlist.m3u8''"
    and "forwarded_base (req_headers req) = ''https://p.example''"
  shows "reply (handler2 sample_platform (serves ''application/vnd.apple.mpegurl'' content) req)
     = Some (200, Send (rewrite_playlist2 ''https://cdn.example.com/videos/abc/''
                          ''https://p.example'' (query_referer req) content))"
proof -
  let ?net = "serves ''application/vnd.apple.mpegurl'' content"
  let ?r = "\<lparr>status = 200, statusText = ''OK'',
             resp_headers = [''content-type'' \<mapsto> ''application/vnd.apple.mpegurl''],
             resp_data = content\<rparr>"
  have "?net config = Received ?r" and "status ?r < 500"
    and "js_includes (or_else (resp_headers ?r ''content-type'') ''application/vnd.apple.mpegurl'')
           ''mpegurl'' \<or> endsWith (ax_url config) ''.m3u8''"
    by (simp_all add: serves_def or_else_def truthy_def)
  from handler2_playlist [where P = sample_platform and net = ?net
      and req = req and config = config and r = ?r, OF assms(1) this]
  moreover have "toString_utf8 sample_platform content = content"
    by (simp add: sample_platform_def)
  ultimately show ?thesis
    by (simp add: reply_def assms(2,3) sample_base)
qed

lemma escaped_links:
  "rewrite_playlist sample_platform ''https://cdn.example.com/videos/abc/'' ''https://p.example''
     (encodeURIComponent ''https://site.example/%41'') ''segment001.ts''
   = Some ''https://p.example/api/proxy?url=https%3A%2F%2Fcdn.example.com%2Fvideos%2Fabc%2Fsegment001.ts&referer=https%3A%2F%2Fsite.example%2F%2541''"
  "split_lines key_playlist = [key_line, ''segment001.ts'']"
  "resolvable sample_platform ''https://cdn.example.com/videos/abc/'' [key_line, ''segment001.ts'']"
  "\<not> is_reference key_line"
  by code_simp+

text \<open>
  The claim as it stands fails in both handlers. The first handler, asked with the \<open>referer\<close>
  \<open>https://site.example/%2541\<close>, sends the \<open>Referer\<close> \<open>https://site.example/%41\<close> and embeds
  its encoding in the link, as the claim asks; but a request through that link, which
  reaches the handler with the \<open>referer\<close> \<open>https://site.example/%41\<close>, sends the \<open>Referer\<close>
  \<open>https://site.example/A\<close>: not the same credential context. The second handler, asked with
  the \<open>referer\<close> \<open>https://site.example/%41\<close>, sends the \<open>Referer\<close> \<open>https://site.example/A\<close>
  and embeds in the link a \<open>referer\<close> parameter that decodes to \<open>https://site.example/%41\<close>.
\<close>

theorem referer_of_links_counterexample:
  "query_referer twice_escaped_referer_request = Some ''https://site.example/%2541''
   \<and> sent_referer (handler sample_platform None
                     (serves ''application/vnd.apple.mpegurl'' ''segment001.ts'')
                     twice_escaped_referer_request)
     = Some ''https://site.example/%41''
   \<and> reply (handler sample_platform None
               (serves ''application/vnd.apple.mpegurl'' ''segment001.ts'')
               twice_escaped_referer_request)
     = Some (200, Send ''https://p.example/api/proxy?url=https%3A%2F%2Fcdn.example.com%2Fvideos%2Fabc%2Fsegment001.ts&referer=https%3A%2F%2Fsite.example%2F%2541'')
   \<and> decodeURIComponent (link_referer ''https://p.example/api/proxy?url=https%3A%2F%2Fcdn.example.com%2Fvideos%2Fabc%2Fsegment001.ts&referer=https%3A%2F%2Fsite.example%2F%2541'')
     = Some ''https://site.example/%41''
   \<and> query_referer (follow_up_request ''https://site.example/%41'') = Some ''https://site.example/%41''
   \<and> sent_referer (handler sample_platform None (serves ''video/mp2t'' ''G@'')
                     (follow_up_request ''https://site.example/%41''))
     = Some ''https://site.example/A''
   \<and> query_referer escaped_referer_request = Some ''https://site.example/%41''
   \<and> sent_referer (handler2 sample_platform
                     (serves ''application/vnd.apple.mpegurl'' ''segment001.ts'')
                     escaped_referer_request)
     = Some ''https://site.example/A''
   \<and> reply (handler2 sample_platform
               (serves ''application/vnd.apple.mpegurl'' ''segment001.ts'')
               escaped_referer_request)
     = Some (200, Send ''https://p.example/api/proxy?url=https%3A%2F%2Fcdn.example.com%2Fvideos%2Fabc%2Fsegment001.ts&referer=https%3A%2F%2Fsite.example%2F%2541'')"
proof -
  let ?net = "serves ''application/vnd.apple.mpegurl'' ''segment001.ts''"
  obtain config where "fetched (handler sample_platform None ?net twice_escaped_referer_request)
        = Some config"
    and "ax_url config = ''https://cdn.example.com/videos/abc/playlist.m3u8''"
    and "ax_headers config ''Referer'' = Some ''https://site.example/%41''"
    using twice_escaped_fetched [of None ?net] by blast
  from referer_playlist_reply [OF this twice_escaped_values(2)]
  have r1: "reply (handler sample_platform None ?net twice_escaped_referer_request)
     = Some (200, Send ''https://p.example/api/proxy?url=https%3A%2F%2Fcdn.example.com%2Fvideos%2Fabc%2Fsegment001.ts&referer=https%3A%2F%2Fsite.example%2F%2541'')"
    by (simp only: escaped_links(1) option.case)
  obtain config2 where "fetched (handler2 sample_platform ?net escaped_referer_request)
        = Some config2"
    and "ax_url config2 = ''https://cdn.example.com/videos/abc/playlist.m3u8''"
    using escaped_referer_fetched2 [of ?net] by blast
  from referer_playlist_reply2 [OF this escaped_referer_values(4)]
  have r2: "reply (handler2 sample_platform ?net escaped_referer_request)
     = Some (200, Send ''https://p.example/api/proxy?url=https%3A%2F%2Fcdn.example.com%2Fvideos%2Fabc%2Fsegment001.ts&referer=https%3A%2F%2Fsite.example%2F%2541'')"
    by (simp only: escaped_referer_values(2) segment_line(5))
  have q: "query_referer (follow_up_request ''https://site.example/%41'')
      = Some ''https://site.example/%41''"
    by (simp add: follow_up_request_def)
  from twice_escaped_values(1) sample_sent_referers(3) r1 referer_decodings(4) q
    sample_sent_referers(4) escaped_referer_values(2) sample_sent_referers(2) r2
  show ?thesis
    by (intro conjI)
qed

lemma pair_length: "length [a, b] = 2"
  by simp

theorem referer_of_links_witness:
  "fetched (handler sample_platform None (serves ''application/vnd.apple.mpegurl'' key_playlist)
              escaped_referer_request) \<noteq> None
   \<and> playlist_lines sample_platform
        \<lparr>status = 200, statusText = ''OK'',
         resp_headers = [''content-type'' \<mapsto> ''application/vnd.apple.mpegurl''],
         resp_data = key_playlist\<rparr>
     = [key_line, ''segment001.ts'']
   \<and> resolvable sample_platform ''https://cdn.example.com/videos/abc/'' [key_line, ''segment001.ts'']
   \<and> referer_text escaped_referer_request
   \<and> is_reference ''segment001.ts''
   \<and> \<not> is_reference key_line
   \<and> first_uri_match (trim key_line) ''#EXT-X-KEY:METHOD=AES-128,'' ''key.bin'' []
   \<and> sent_referer (handler sample_platform None (serves ''application/vnd.apple.mpegurl'' key_playlist)
                     escaped_referer_request)
     = Some ''https://site.example/A''
   \<and> (\<exists>outs.
         reply (handler sample_platform None (serves ''application/vnd.apple.mpegurl'' key_playlist)
                  escaped_referer_request)
           = Some (200, Send (join_lines outs))
       \<and> length outs = 2
       \<and> decodeURIComponent (link_referer (outs ! 1)) = Some ''https://site.example/A''
       \<and> (outs ! 0 = key_line
          \<or> (\<exists>link. outs ! 0 = ''#EXT-X-KEY:METHOD=AES-128,'' @ ''URI=\"'' @ link @ ''\"'' @ []
                \<and> decodeURIComponent (link_referer link) = Some ''https://site.example/A'')))
   \<and> query_referer (follow_up_request ''https://site.example/A'') = Some ''https://site.example/A''
   \<and> sent_referer (handler sample_platform None (serves ''video/mp2t'' ''G@'')
                     (follow_up_request ''https://site.example/A''))
     = Some ''https://site.example/A''
   \<and> fetched (handler2 sample_platform (serves ''application/vnd.apple.mpegurl'' key_playlist)
                escaped_referer_request) \<noteq> None
   \<and> sent_referer (handler2 sample_platform (serves ''application/vnd.apple.mpegurl'' key_playlist)
                     escaped_referer_request)
     = Some ''https://site.example/A''
   \<and> (\<exists>outs.
         reply (handler2 sample_platform (serves ''application/vnd.apple.mpegurl'' key_playlist)
                  escaped_referer_request)
           = Some (200, Send (join_lines outs))
       \<and> length outs = 2
       \<and> decodeURIComponent (link_referer (outs ! 1)) = Some ''https://site.example/%41'')
   \<and> query_referer (follow_up_request ''https://site.example/%41'') = Some ''https://site.example/%41''
   \<and> sent_referer (handler2 sample_platform (serves ''video/mp2t'' ''G@'')
                     (follow_up_request ''https://site.example/%41''))
     = Some ''https://site.example/A''"
proof -
  let ?net = "serves ''application/vnd.apple.mpegurl'' key_playlist"
  let ?seg = "serves ''video/mp2t'' ''G@''"
  let ?r = "\<lparr>status = 200, statusText = ''OK'',
             resp_headers = [''content-type'' \<mapsto> ''application/vnd.apple.mpegurl''],
             resp_data = key_playlist\<rparr>"
  let ?lines = "playlist_lines sample_platform ?r"
  let ?A = "''https://site.example/A''"
  let ?raw = "''https://site.example/%41''"
  obtain config where f1: "fetched (handler sample_platform None ?net escaped_referer_request)
        = Some config"
    and u1: "ax_url config = ''https://cdn.example.com/videos/abc/playlist.m3u8''"
    using escaped_referer_fetched [of None ?net] by blast
  obtain config2 where f2: "fetched (handler2 sample_platform ?net escaped_referer_request)
        = Some config2"
    and u2: "ax_url config2 = ''https://cdn.example.com/videos/abc/playlist.m3u8''"
    using escaped_referer_fetched2 [of ?net] by blast
  note first = referer_of_links [where P = sample_platform and env = None
      and net = ?net and req = escaped_referer_request and config = config and r = ?r]
  note second = referer_of_links [where P = sample_platform and net = ?net
      and req = escaped_referer_request and config = config2 and r = ?r]
  have lines: "?lines = [key_line, ''segment001.ts'']"
    by (simp add: playlist_lines_def sample_platform_def escaped_links(2))
  have res: "resolvable sample_platform ''https://cdn.example.com/videos/abc/''
               [key_line, ''segment001.ts'']"
    by (rule escaped_links(3))
  have rt: "referer_text escaped_referer_request"
    by (rule escaped_referer_values(1))
  have st: "status ?r = 200"
    by simp
  have len2: "length ?lines = 2" and i0: "0 < length ?lines" and i1: "1 < length ?lines"
    and n0: "?lines ! 0 = key_line" and n1: "?lines ! 1 = ''segment001.ts''"
    by (simp_all add: lines)
  have k0: "\<not> is_reference key_line"
    "first_uri_match (trim key_line) ''#EXT-X-KEY:METHOD=AES-128,'' ''key.bin'' []"
    unfolding sample_lines(2) by (rule escaped_links(4) key_line_first_match)+
  have k1: "is_reference ''segment001.ts''"
    by (rule segment_line(1))
  have s1: "sent_referer (handler sample_platform None ?net escaped_referer_request) = Some ?A"
    by (rule sample_sent_referers(1))
  have s2: "sent_referer (handler2 sample_platform ?net escaped_referer_request) = Some ?A"
    by (rule sample_sent_referers(2))
  have "?net config = Received ?r \<and> status ?r < 400
      \<and> isM3U8 (or_else (resp_headers ?r ''content-type'') ''application/octet-stream'')
           (ax_url config)
      \<and> resolvable sample_platform (upto_last_slash (ax_url config)) ?lines
      \<and> referer_text escaped_referer_request"
    unfolding lines u1 sample_base using res rt
    by (simp add: serves_def sample_playlist_content_type)
  with first f1 obtain d outs where
    d: "sent_referer (handler sample_platform None ?net escaped_referer_request) = Some d"
    and rep: "reply (handler sample_platform None ?net escaped_referer_request)
                = Some (status ?r, Send (join_lines outs))"
    and len: "length outs = length ?lines"
    and one: "\<forall>i<length ?lines.
                is_reference (?lines ! i)
                \<longrightarrow> decodeURIComponent (link_referer (outs ! i)) = Some d"
    and two: "\<forall>i<length ?lines. \<forall>before uri after.
                \<not> is_reference (?lines ! i)
                \<and> first_uri_match (trim (?lines ! i)) before uri after
                \<longrightarrow> outs ! i = trim (?lines ! i)
                    \<or> (\<exists>link. outs ! i = before @ ''URI=\"'' @ link @ ''\"'' @ after
                          \<and> decodeURIComponent (link_referer link) = Some d)"
    and three: "\<forall>P' env' net' req' config'.
                query_referer req' = Some d
                \<and> fetched (handler P' env' net' req') = Some config'
                \<longrightarrow> sent_referer (handler P' env' net' req') = decodeURIComponent d"
    by blast
  from d s1 have dd: "d = ?A"
    by simp
  from one i1 k1 have o1: "decodeURIComponent (link_referer (outs ! 1)) = Some ?A"
    unfolding n1 [symmetric] dd by blast
  from two i0 k0 have "outs ! 0 = trim (?lines ! 0)
                    \<or> (\<exists>link. outs ! 0 = ''#EXT-X-KEY:METHOD=AES-128,'' @ ''URI=\"'' @ link @ ''\"'' @ []
                          \<and> decodeURIComponent (link_referer link) = Some d)"
    unfolding n0 [symmetric] by blast
  then have o0: "outs ! 0 = key_line
          \<or> (\<exists>link. outs ! 0 = ''#EXT-X-KEY:METHOD=AES-128,'' @ ''URI=\"'' @ link @ ''\"'' @ []
                \<and> decodeURIComponent (link_referer link) = Some ?A)"
    by (simp only: n0 sample_lines(2) dd)
  from rep len have e1: "reply (handler sample_platform None ?net escaped_referer_request)
           = Some (200, Send (join_lines outs))" and l1: "length outs = 2"
    by (simp_all only: st len2)
  from e1 l1 o1 o0 have w1: "\<exists>outs.
         reply (handler sample_platform None ?net escaped_referer_request)
           = Some (200, Send (join_lines outs))
       \<and> length outs = 2
       \<and> decodeURIComponent (link_referer (outs ! 1)) = Some ?A
       \<and> (outs ! 0 = key_line
          \<or> (\<exists>link. outs ! 0 = ''#EXT-X-KEY:METHOD=AES-128,'' @ ''URI=\"'' @ link @ ''\"'' @ []
                \<and> decodeURIComponent (link_referer link) = Some ?A))"
    by (intro exI [of _ outs] conjI)
  have q1: "query_referer (follow_up_request ?A) = Some ?A"
    and q2: "query_referer (follow_up_request ?raw) = Some ?raw"
    by (simp_all add: follow_up_request_def)
  obtain config' where "fetched (handler sample_platform None ?seg (follow_up_request ?A))
      = Some config'"
    using follow_up_fetched(2) [of None ?seg] by blast
  with three q1 have "sent_referer (handler sample_platform None ?seg (follow_up_request ?A))
      = decodeURIComponent d"
    unfolding dd by blast
  then have w2: "sent_referer (handler sample_platform None ?seg (follow_up_request ?A)) = Some ?A"
    by (simp only: dd referer_decodings(2))
  have "?net config2 = Received ?r \<and> status ?r < 500
      \<and> (js_includes (or_else (resp_headers ?r ''content-type'') ''application/vnd.apple.mpegurl'')
            ''mpegurl'' \<or> endsWith (ax_url config2) ''.m3u8'')
      \<and> referer_text escaped_referer_request"
    using rt by (simp add: serves_def or_else_def truthy_def)
  with second f2 obtain outs2 where
    sent: "sent_referer (handler2 sample_platform ?net escaped_referer_request)
             = decodeURIComponent (or_else (query_referer escaped_referer_request) ''https://megacloud.tv'')"
    and rep2: "reply (handler2 sample_platform ?net escaped_referer_request)
                = Some (status ?r, Send (join_lines outs2))"
    and len': "length outs2 = length ?lines"
    and one2: "\<forall>i<length ?lines.
                is_reference (?lines ! i)
                \<longrightarrow> decodeURIComponent (link_referer (outs2 ! i))
                    = Some (or_else (query_referer escaped_referer_request) ''https://megacloud.tv'')"
    and two2: "\<forall>P' net' req' config'.
                query_referer req'
                  = Some (or_else (query_referer escaped_referer_request) ''https://megacloud.tv'')
                \<and> fetched (handler2 P' net' req') = Some config'
                \<longrightarrow> sent_referer (handler2 P' net' req')
                    = sent_referer (handler2 sample_platform ?net escaped_referer_request)"
    by blast
  have raw: "or_else (query_referer escaped_referer_request) ''https://megacloud.tv'' = ?raw"
    by (simp only: escaped_referer_values(2,5))
  from one2 i1 k1 have p1: "decodeURIComponent (link_referer (outs2 ! 1)) = Some ?raw"
    unfolding n1 [symmetric] raw by blast
  from rep2 len' have e2: "reply (handler2 sample_platform ?net escaped_referer_request)
           = Some (200, Send (join_lines outs2))" and l2: "length outs2 = 2"
    by (simp_all only: st len2)
  from e2 l2 p1 have w3: "\<exists>outs.
         reply (handler2 sample_platform ?net escaped_referer_request)
           = Some (200, Send (join_lines outs))
       \<and> length outs = 2
       \<and> decodeURIComponent (link_referer (outs ! 1)) = Some ?raw"
    by (intro exI [of _ outs2] conjI)
  obtain config'' where "fetched (handler2 sample_platform ?seg (follow_up_request ?raw))
      = Some config''"
    using follow_up_fetched(3) [of ?seg] by blast
  with two2 q2 have "sent_referer (handler2 sample_platform ?seg (follow_up_request ?raw))
      = sent_referer (handler2 sample_platform ?net escaped_referer_request)"
    unfolding raw by blast
  then have w4: "sent_referer (handler2 sample_platform ?seg (follow_up_request ?raw)) = Some ?A"
    by (simp only: s2)
  from f1 have g1: "fetched (handler sample_platform None ?net escaped_referer_request) \<noteq> None"
    by simp
  from f2 have g2: "fetched (handler2 sample_platform ?net escaped_referer_request) \<noteq> None"
    by simp
  from g1 lines res rt k1 k0 s1 w1 q1 w2 g2 s2 w3 q2 w4 show ?thesis
    by (intro conjI)
qed

end
